theory Spec2Isabelle
  imports Complex_Main "HOL-Library.AList"
begin

section \<open>Bond calculation service: data model\<close>

text \<open>
  The development embeds \<^verbatim>\<open>BondCalculationsService\<close> (lib/services/bonds/BondCalculations.ts)
  and the input builder of the \<^verbatim>\<open>Step4Dynamic\<close> component. Prisma tables are finite maps
  keyed by their unique index, except the cash-flow table, a list of rows (it is counted
  and filtered by bond). Decimal columns and JavaScript numbers are rationals; dates and
  timestamps are natural numbers. Database writes are taken to succeed: the only failures
  of a query are the ones the TypeScript raises itself. Logging is left out.
\<close>

subsection \<open>JSON values stored in the series columns\<close>

text \<open>
  The columns \<^verbatim>\<open>inflacion_serie\<close> and \<^verbatim>\<open>gracia_serie\<close> are JSONB, so the service reads
  arbitrary JSON there. \<open>JInf\<close> stands for a number that JavaScript reads as non-finite.
\<close>

datatype json =
    JNull
  | JBool bool
  | JNum rat
  | JInf
  | JStr string
  | JArr "json list"
  | JObj "(string \<times> json) list"

subsection \<open>Enumerations of the schema\<close>

datatype bond_status = DRAFT | ACTIVE | EXPIRED

datatype metrics_role = EMISOR | BONISTA

datatype db_frecuencia_cupon = MENSUAL | BIMESTRAL | TRIMESTRAL | CUATRIMESTRAL | SEMESTRAL | ANUAL

datatype db_tipo_tasa = EFECTIVA | NOMINAL

datatype frequencia_cupon = mensual | bimestral | trimestral | cuatrimestral | semestral | anual

datatype tipo_tasa = efectiva | nominal

subsection \<open>Errors\<close>

text \<open>
  Every \<^verbatim>\<open>throw new Error(...)\<close> of the service is a constructor; the comment gives the
  message it carries. The response's \<^verbatim>\<open>errors\<close> array holds the thrown error.
\<close>

datatype bond_issue =
    ValorNominalInvalido
  | ValorComercialInvalido
  | NumAniosInvalido
  | TasaAnualInvalida

datatype series_issue =
    InflacionLength int nat
  | GraciaLength int nat
  | InflacionCorrupta
  | GraciaCorrupta

datatype svc_error =
    BondNotFound string                 \<comment> \<open>Bono <id> no encontrado\<close>
  | BondNotFoundQuick string            \<comment> \<open>Bono <id> no encontrado para quick metrics\<close>
  | InvalidBond "bond_issue list"       \<comment> \<open>Bono invalido para calculo: <issues>\<close>
  | CostsUndefined string               \<comment> \<open>Costes no definidos para bono <id>\<close>
  | CalcInputsNotFound string           \<comment> \<open>Registro CalculationInputs no encontrado para bono <id>\<close>
  | RepairInputsNotFound string         \<comment> \<open>CalculationInputs no encontrado para bono <id>\<close>
  | RangeError                          \<comment> \<open>Invalid array length, raised by Array(n)\<close>
  | ReloadFailed string                 \<comment> \<open>No se pudieron recargar datos reparados para bono <id>\<close>
  | RepairFailed string svc_error       \<comment> \<open>Failed to repair corrupted data for bond <id>: <cause>\<close>
  | InflacionNotArray string            \<comment> \<open>inflacionSerie must be an array for bond <id>\<close>
  | GraciaNotArray string               \<comment> \<open>graciaSerie must be an array for bond <id>\<close>
  | InflacionElemInvalid nat json       \<comment> \<open>inflacionSerie[i] must be a finite number\<close>
  | GraciaElemInvalid nat json          \<comment> \<open>graciaSerie[i] must be 'S', 'P', or 'T'\<close>
  | MissingInputsId                     \<comment> \<open>ID de CalculationInputs (registro de DB) no encontrado\<close>
  | SeriesRepaired string               \<comment> \<open>SERIES_REPAIRED:<id>\<close>
  | ValidationFailed "series_issue list" \<comment> \<open>Validation failed: <issues>\<close>
  | CalculatorError string              \<comment> \<open>whatever the FinancialCalculator throws\<close>
  | ZodError string                     \<comment> \<open>ID de bono invalido, raised by the request schema\<close>

subsection \<open>Rows of the database\<close>

record bond_costs =
  estructuracionPct :: rat
  colocacionPct :: rat
  flotacionPct :: rat
  cavaliPct :: rat

record bond =
  b_id :: string
  b_name :: string
  b_status :: bond_status
  b_valorNominal :: rat
  b_valorComercial :: rat
  b_numAnios :: int
  b_frecuenciaCupon :: db_frecuencia_cupon
  b_baseDias :: int
  b_tipoTasa :: db_tipo_tasa
  b_periodicidadCapitalizacion :: string
  b_tasaAnual :: rat
  b_impuestoRenta :: rat
  b_fechaEmision :: nat
  b_primaVencimiento :: rat
  b_costs :: "bond_costs option"

record calc_inputs_row =
  cin_id :: string
  cin_inflacionSerie :: json
  cin_graciaSerie :: json

text \<open>One period of the schedule the calculator returns (\<^verbatim>\<open>result.flujos[i]\<close>).\<close>

record flow =
  periodo :: int
  fecha :: nat
  inflacionAnual :: "rat option"
  inflacionSemestral :: "rat option"
  gracia :: "string option"
  bonoCapital :: "rat option"
  bonoIndexado :: "rat option"
  cupon :: "rat option"
  amortizacion :: "rat option"
  cuota :: "rat option"
  prima :: "rat option"
  escudoFiscal :: "rat option"
  flujoEmisor :: "rat option"
  flujoEmisorConEscudo :: "rat option"
  flujoBonista :: "rat option"
  flujoActualizado :: "rat option"
  faPlazoPonderado :: "rat option"
  factorConvexidad :: "rat option"

text \<open>
  A row of \<^verbatim>\<open>cash_flows\<close>: the bond and the period's data. \<^verbatim>\<open>prismaFlowsData\<close> copies
  every field of the flow (numbers wrapped in \<^verbatim>\<open>Decimal\<close>, \<^verbatim>\<open>gracia\<close> stored as
  \<^verbatim>\<open>periodoGracia\<close>), so the row keeps the flow as it is.
\<close>

record cash_flow_row =
  cf_bondId :: string
  cf_data :: flow

record result_metricas =
  m_precioActual :: rat
  m_utilidadPerdida :: rat
  m_tceaEmisor :: rat
  m_tceaEmisorConEscudo :: rat
  m_treaBonista :: rat
  m_duracion :: rat
  m_duracionModificada :: rat
  m_convexidad :: rat
  m_totalRatiosDecision :: rat

record calculation_result =
  res_flujos :: "flow list"
  res_metricas :: result_metricas
  res_intermedios :: json
  res_fechaCalculo :: "nat option"

record metrics_row =
  fm_precioActual :: rat
  fm_utilidadPerdida :: rat
  fm_van :: rat
  fm_duracion :: rat
  fm_duracionModificada :: rat
  fm_convexidad :: rat
  fm_totalRatiosDecision :: rat
  fm_tir :: rat
  fm_tcea :: "rat option"
  fm_tceaConEscudo :: "rat option"
  fm_trea :: "rat option"
  fm_fechaCalculo :: nat

record calc_result_row =
  crr_calculosIntermedios :: json
  crr_metricasCalculadas :: result_metricas
  crr_createdAt :: nat

record db =
  bonds :: "string \<rightharpoonup> bond"
  calculationInputs :: "string \<rightharpoonup> calc_inputs_row"
  cashFlows :: "cash_flow_row list"
  financialMetrics :: "(string \<times> metrics_role) \<rightharpoonup> metrics_row"
  calculationResults :: "(string \<times> string) \<rightharpoonup> calc_result_row"

subsection \<open>The response of the service\<close>

record emisor_metricas =
  e_precioActual :: rat
  e_van :: rat
  e_tceaEmisor :: rat
  e_tceaEmisorConEscudo :: rat
  e_duracion :: rat
  e_duracionModificada :: rat
  e_convexidad :: rat
  e_totalRatiosDecision :: rat

record bonista_metricas =
  bo_precioActual :: rat
  bo_van :: rat
  bo_treaBonista :: rat
  bo_duracion :: rat
  bo_duracionModificada :: rat
  bo_convexidad :: rat
  bo_totalRatiosDecision :: rat

record response_metricas =
  emisor :: emisor_metricas
  bonista :: bonista_metricas

record response =
  r_bondId :: string
  r_success :: bool
  r_calculatedAt :: "nat option"
  r_metricas :: response_metricas
  r_flowsCount :: nat
  r_errors :: "svc_error list option"

record request =
  bondId :: string
  recalculate :: bool
  saveResults :: bool

text \<open>What the calculator is given (\<^verbatim>\<open>CalculationInputs & {id}\<close>). The two series are
  read from JSON and cast without a check, so their elements are JSON values.\<close>

record calculation_inputs =
  ci_id :: string
  ci_valorNominal :: rat
  ci_valorComercial :: rat
  ci_numAnios :: int
  ci_frecuenciaCupon :: frequencia_cupon
  ci_diasPorAno :: int
  ci_tipoTasa :: tipo_tasa
  ci_periodicidadCapitalizacion :: string
  ci_tasaAnual :: rat
  ci_tasaDescuento :: rat
  ci_impuestoRenta :: rat
  ci_fechaEmision :: nat
  ci_primaPorcentaje :: rat
  ci_estructuracionPorcentaje :: rat
  ci_colocacionPorcentaje :: rat
  ci_flotacionPorcentaje :: rat
  ci_cavaliPorcentaje :: rat
  ci_inflacionSerie :: "json list"
  ci_graciaSerie :: "json list"

section \<open>The service\<close>

subsection \<open>Responses\<close>

definition getEmptyMetrics :: response_metricas where
  "getEmptyMetrics =
     \<lparr> emisor = \<lparr> e_precioActual = 0, e_van = 0, e_tceaEmisor = 0, e_tceaEmisorConEscudo = 0,
                  e_duracion = 0, e_duracionModificada = 0, e_convexidad = 0,
                  e_totalRatiosDecision = 0 \<rparr>,
       bonista = \<lparr> bo_precioActual = 0, bo_van = 0, bo_treaBonista = 0, bo_duracion = 0,
                   bo_duracionModificada = 0, bo_convexidad = 0, bo_totalRatiosDecision = 0 \<rparr> \<rparr>"

text \<open>Every metric of a response is zero.\<close>

definition metricsAllZero :: "response_metricas \<Rightarrow> bool" where
  "metricsAllZero m =
     (e_precioActual (emisor m) = 0 \<and> e_van (emisor m) = 0 \<and> e_tceaEmisor (emisor m) = 0
      \<and> e_tceaEmisorConEscudo (emisor m) = 0 \<and> e_duracion (emisor m) = 0
      \<and> e_duracionModificada (emisor m) = 0 \<and> e_convexidad (emisor m) = 0
      \<and> e_totalRatiosDecision (emisor m) = 0
      \<and> bo_precioActual (bonista m) = 0 \<and> bo_van (bonista m) = 0
      \<and> bo_treaBonista (bonista m) = 0 \<and> bo_duracion (bonista m) = 0
      \<and> bo_duracionModificada (bonista m) = 0 \<and> bo_convexidad (bonista m) = 0
      \<and> bo_totalRatiosDecision (bonista m) = 0)"

text \<open>The response of the \<^verbatim>\<open>catch\<close> blocks; \<open>now\<close> is the reading of \<^verbatim>\<open>new Date()\<close>.\<close>

definition failureResponse :: "nat \<Rightarrow> string \<Rightarrow> svc_error \<Rightarrow> response" where
  "failureResponse now bid e =
     \<lparr> r_bondId = bid, r_success = False, r_calculatedAt = Some now,
       r_metricas = getEmptyMetrics, r_flowsCount = 0, r_errors = Some [e] \<rparr>"

definition formatCalculationResponse :: "string \<Rightarrow> calculation_result \<Rightarrow> response" where
  "formatCalculationResponse bid result =
     (let m = res_metricas result in
      \<lparr> r_bondId = bid, r_success = True, r_calculatedAt = res_fechaCalculo result,
        r_metricas =
          \<lparr> emisor = \<lparr> e_precioActual = m_precioActual m, e_van = m_utilidadPerdida m,
                       e_tceaEmisor = m_tceaEmisor m,
                       e_tceaEmisorConEscudo = m_tceaEmisorConEscudo m,
                       e_duracion = m_duracion m,
                       e_duracionModificada = m_duracionModificada m,
                       e_convexidad = m_convexidad m,
                       e_totalRatiosDecision = m_totalRatiosDecision m \<rparr>,
            bonista = \<lparr> bo_precioActual = m_precioActual m, bo_van = m_precioActual m,
                        bo_treaBonista = m_treaBonista m, bo_duracion = m_duracion m,
                        bo_duracionModificada = m_duracionModificada m,
                        bo_convexidad = m_convexidad m,
                        bo_totalRatiosDecision = m_totalRatiosDecision m \<rparr> \<rparr>,
        r_flowsCount = length (res_flujos result), r_errors = None \<rparr>)"

subsection \<open>Stored calculations\<close>

definition flowsCountOf :: "db \<Rightarrow> string \<Rightarrow> nat" where
  "flowsCountOf d bid = length (filter (\<lambda>row. cf_bondId row = bid) (cashFlows d))"

definition orZero :: "rat option \<Rightarrow> rat" where
  "orZero v = (case v of None \<Rightarrow> 0 | Some x \<Rightarrow> x)"

definition storedResponse :: "string \<Rightarrow> nat \<Rightarrow> metrics_row \<Rightarrow> metrics_row \<Rightarrow> response" where
  "storedResponse bid n em bm =
     \<lparr> r_bondId = bid, r_success = True, r_calculatedAt = Some (fm_fechaCalculo em),
       r_metricas =
         \<lparr> emisor = \<lparr> e_precioActual = fm_precioActual em, e_van = fm_van em,
                      e_tceaEmisor = orZero (fm_tcea em),
                      e_tceaEmisorConEscudo = orZero (fm_tceaConEscudo em),
                      e_duracion = fm_duracion em,
                      e_duracionModificada = fm_duracionModificada em,
                      e_convexidad = fm_convexidad em,
                      e_totalRatiosDecision = fm_totalRatiosDecision em \<rparr>,
           bonista = \<lparr> bo_precioActual = fm_precioActual bm, bo_van = fm_van bm,
                       bo_treaBonista = orZero (fm_trea bm), bo_duracion = fm_duracion bm,
                       bo_duracionModificada = fm_duracionModificada bm,
                       bo_convexidad = fm_convexidad bm,
                       bo_totalRatiosDecision = fm_totalRatiosDecision bm \<rparr> \<rparr>,
       r_flowsCount = n, r_errors = None \<rparr>"

definition getExistingCalculation :: "db \<Rightarrow> string \<Rightarrow> response option" where
  "getExistingCalculation d bid =
     (let n = flowsCountOf d bid in
      case financialMetrics d (bid, EMISOR) of
        None \<Rightarrow> None
      | Some em \<Rightarrow>
          (case financialMetrics d (bid, BONISTA) of
             None \<Rightarrow> None
           | Some bm \<Rightarrow> if 0 < n then Some (storedResponse bid n em bm) else None))"

subsection \<open>Validation of the bond\<close>

definition validateBondForCalculation :: "bond \<Rightarrow> svc_error + unit" where
  "validateBondForCalculation b =
     (let errors =
            (if b_valorNominal b < 0 \<or> b_valorNominal b = 0 then [ValorNominalInvalido] else [])
          @ (if b_valorComercial b < 0 \<or> b_valorComercial b = 0 then [ValorComercialInvalido] else [])
          @ (if b_numAnios b \<le> 0 then [NumAniosInvalido] else [])
          @ (if b_tasaAnual b < 0 then [TasaAnualInvalida] else [])
      in if errors \<noteq> [] then Inl (InvalidBond errors) else Inr ())"

text \<open>
  Modelled from the spec: \<^verbatim>\<open>BondModel\<close> (lib/models/Bond) is not among the sources.
  \<^verbatim>\<open>findById\<close> is the lookup of the bond with its relations, \<^verbatim>\<open>updateStatus\<close> the
  update of the status column of that bond, as their names and their uses say.
\<close>

definition findById :: "db \<Rightarrow> string \<Rightarrow> bond option" where
  "findById d bid = bonds d bid"

definition updateStatus :: "db \<Rightarrow> string \<Rightarrow> bond_status \<Rightarrow> db" where
  "updateStatus d bid st =
     (case bonds d bid of
        None \<Rightarrow> d
      | Some b \<Rightarrow> d\<lparr> bonds := (bonds d)(bid \<mapsto> b\<lparr> b_status := st \<rparr>) \<rparr>)"

subsection \<open>Saving the results\<close>

text \<open>
  \<^verbatim>\<open>createMany\<close> with \<^verbatim>\<open>skipDuplicates\<close>: a row whose key (bond, period) is already in
  the table is left out (the unique index \<^verbatim>\<open>cash_flows_bond_id_periodo_key\<close>).
\<close>

definition sameKey :: "cash_flow_row \<Rightarrow> cash_flow_row \<Rightarrow> bool" where
  "sameKey a b = (cf_bondId a = cf_bondId b \<and> periodo (cf_data a) = periodo (cf_data b))"

fun createMany :: "cash_flow_row list \<Rightarrow> cash_flow_row list \<Rightarrow> cash_flow_row list" where
  "createMany tbl [] = tbl"
| "createMany tbl (r # rs) =
     (if list_ex (sameKey r) tbl then createMany tbl rs else createMany (tbl @ [r]) rs)"

definition deleteMany :: "string \<Rightarrow> cash_flow_row list \<Rightarrow> cash_flow_row list" where
  "deleteMany bid tbl = filter (\<lambda>row. cf_bondId row \<noteq> bid) tbl"

definition prismaFlowsData :: "string \<Rightarrow> flow list \<Rightarrow> cash_flow_row list" where
  "prismaFlowsData bid fs = map (\<lambda>f. \<lparr> cf_bondId = bid, cf_data = f \<rparr>) fs"

definition saveFlows :: "string \<Rightarrow> calculation_result \<Rightarrow> db \<Rightarrow> db" where
  "saveFlows bid result d =
     (if res_flujos result \<noteq> []
      then d\<lparr> cashFlows := createMany (deleteMany bid (cashFlows d))
                              (prismaFlowsData bid (res_flujos result)) \<rparr>
      else d)"

definition fechaOr :: "calculation_result \<Rightarrow> nat \<Rightarrow> nat" where
  "fechaOr result now = (case res_fechaCalculo result of None \<Rightarrow> now | Some t \<Rightarrow> t)"

definition upsertEmisor :: "nat \<Rightarrow> string \<Rightarrow> calculation_result \<Rightarrow> db \<Rightarrow> db" where
  "upsertEmisor now bid result d =
     (let m = res_metricas result;
          created = \<lparr> fm_precioActual = m_precioActual m,
                      fm_utilidadPerdida = m_utilidadPerdida m,
                      fm_van = m_utilidadPerdida m,
                      fm_duracion = m_duracion m,
                      fm_duracionModificada = m_duracionModificada m,
                      fm_convexidad = m_convexidad m,
                      fm_totalRatiosDecision = m_totalRatiosDecision m,
                      fm_tir = m_tceaEmisor m,
                      fm_tcea = Some (m_tceaEmisor m),
                      fm_tceaConEscudo = Some (m_tceaEmisorConEscudo m),
                      fm_trea = None,
                      fm_fechaCalculo = fechaOr result now \<rparr>;
          row = (case financialMetrics d (bid, EMISOR) of
                   None \<Rightarrow> created
                 | Some old \<Rightarrow> created\<lparr> fm_trea := fm_trea old \<rparr>)
      in d\<lparr> financialMetrics := (financialMetrics d)((bid, EMISOR) \<mapsto> row) \<rparr>)"

definition upsertBonista :: "nat \<Rightarrow> string \<Rightarrow> calculation_result \<Rightarrow> db \<Rightarrow> db" where
  "upsertBonista now bid result d =
     (let m = res_metricas result;
          created = \<lparr> fm_precioActual = m_precioActual m,
                      fm_utilidadPerdida = m_utilidadPerdida m,
                      fm_van = m_precioActual m,
                      fm_duracion = m_duracion m,
                      fm_duracionModificada = m_duracionModificada m,
                      fm_convexidad = m_convexidad m,
                      fm_totalRatiosDecision = m_totalRatiosDecision m,
                      fm_tir = m_treaBonista m,
                      fm_tcea = None,
                      fm_tceaConEscudo = None,
                      fm_trea = Some (m_treaBonista m),
                      fm_fechaCalculo = fechaOr result now \<rparr>;
          row = (case financialMetrics d (bid, BONISTA) of
                   None \<Rightarrow> created
                 | Some old \<Rightarrow> created\<lparr> fm_tcea := fm_tcea old,
                                        fm_tceaConEscudo := fm_tceaConEscudo old \<rparr>)
      in d\<lparr> financialMetrics := (financialMetrics d)((bid, BONISTA) \<mapsto> row) \<rparr>)"

text \<open>\<^verbatim>\<open>x || Prisma.JsonNull\<close>: a falsy value is stored as JSON null.\<close>

definition orJsonNull :: "json \<Rightarrow> json" where
  "orJsonNull v =
     (if v = JNull \<or> v = JBool False \<or> v = JNum 0 \<or> v = JStr [] then JNull else v)"

definition upsertCalculationResult :: "nat \<Rightarrow> string \<Rightarrow> string \<Rightarrow> calculation_result \<Rightarrow> db \<Rightarrow> db" where
  "upsertCalculationResult now bid cid result d =
     d\<lparr> calculationResults := (calculationResults d)((bid, cid) \<mapsto>
          \<lparr> crr_calculosIntermedios = orJsonNull (res_intermedios result),
            crr_metricasCalculadas = res_metricas result,
            crr_createdAt = now \<rparr>) \<rparr>"

text \<open>The body of the transaction of \<^verbatim>\<open>saveCalculationResults\<close>.\<close>

definition saveTransaction :: "nat \<Rightarrow> string \<Rightarrow> string \<Rightarrow> calculation_result \<Rightarrow> db \<Rightarrow> db" where
  "saveTransaction now bid cid result d =
     upsertCalculationResult now bid cid result
       (upsertBonista now bid result (upsertEmisor now bid result (saveFlows bid result d)))"

definition activateIfDraft :: "string \<Rightarrow> db \<Rightarrow> db" where
  "activateIfDraft bid d =
     (case findById d bid of
        None \<Rightarrow> d
      | Some current \<Rightarrow> if b_status current = DRAFT then updateStatus d bid ACTIVE else d)"

definition saveCalculationResults :: "nat \<Rightarrow> db \<Rightarrow> string \<Rightarrow> string \<Rightarrow> calculation_result \<Rightarrow> db" where
  "saveCalculationResults now d bid cid result =
     activateIfDraft bid (saveTransaction now bid cid result d)"

subsection \<open>Collaborators that are not part of the service\<close>

text \<open>
  The service is given its collaborators: the check behind \<^verbatim>\<open>z.string().cuid()\<close>,
  \<^verbatim>\<open>JSON.parse\<close> (\<open>None\<close> when it throws) and the two entry points of the
  \<^verbatim>\<open>FinancialCalculator\<close> (\<open>Inl\<close> is the message of the error it throws). The calculator
  is a function of the calculation inputs.
\<close>

record env =
  isCuid :: "string \<Rightarrow> bool"
  jsonParse :: "string \<Rightarrow> json option"
  calculate :: "calculation_inputs \<Rightarrow> string + calculation_result"
  calculateQuick :: "calculation_inputs \<Rightarrow> string + result_metricas"

subsection \<open>Repair of the stored series\<close>

definition isCorruptItem :: "json \<Rightarrow> bool" where
  "isCorruptItem item = (case item of JStr s \<Rightarrow> CHR ''['' \<in> set s | _ \<Rightarrow> False)"

definition isFiniteNumber :: "json \<Rightarrow> bool" where
  "isFiniteNumber item = (case item of JNum x \<Rightarrow> True | _ \<Rightarrow> False)"

definition isGraceCode :: "json \<Rightarrow> bool" where
  "isGraceCode item = (item = JStr ''S'' \<or> item = JStr ''P'' \<or> item = JStr ''T'')"

text \<open>\<^verbatim>\<open>Array(n).fill(v)\<close>: a length that is negative or beyond \<open>2^32 - 1\<close> raises.\<close>

definition arrayFill :: "int \<Rightarrow> 'a \<Rightarrow> svc_error + 'a list" where
  "arrayFill n v = (if n < 0 \<or> 4294967296 \<le> n then Inl RangeError else Inr (replicate (nat n) v))"

definition defaultInflacion :: json where
  "defaultInflacion = JNum (3 / 100)"

definition defaultGracia :: json where
  "defaultGracia = JStr ''S''"

definition needsDefault :: "int \<Rightarrow> json list \<Rightarrow> bool" where
  "needsDefault expectedLength xs = (int (length xs) \<noteq> expectedLength \<or> list_ex isCorruptItem xs)"

definition repairInflacion :: "int \<Rightarrow> json \<Rightarrow> svc_error + json list" where
  "repairInflacion expectedLength current =
     (case current of
        JArr xs \<Rightarrow>
          if needsDefault expectedLength xs then arrayFill expectedLength defaultInflacion
          else Inr (map (\<lambda>item. if isFiniteNumber item then item else defaultInflacion) xs)
      | _ \<Rightarrow> arrayFill expectedLength defaultInflacion)"

definition repairGracia :: "int \<Rightarrow> json \<Rightarrow> svc_error + json list" where
  "repairGracia expectedLength current =
     (case current of
        JArr xs \<Rightarrow>
          if needsDefault expectedLength xs then arrayFill expectedLength defaultGracia
          else Inr (map (\<lambda>item. if isGraceCode item then item else defaultGracia) xs)
      | _ \<Rightarrow> arrayFill expectedLength defaultGracia)"

text \<open>The transaction of \<^verbatim>\<open>repairInconsistentSeries\<close>: \<open>Inl\<close> leaves the database as it was.\<close>

definition repairInconsistentSeries :: "db \<Rightarrow> string \<Rightarrow> int \<Rightarrow> svc_error + db" where
  "repairInconsistentSeries d bid expectedLength =
     (case calculationInputs d bid of
        None \<Rightarrow> Inl (RepairInputsNotFound bid)
      | Some calcInputs \<Rightarrow>
          (case repairInflacion expectedLength (cin_inflacionSerie calcInputs) of
             Inl e \<Rightarrow> Inl e
           | Inr repairedInflacion \<Rightarrow>
               (case repairGracia expectedLength (cin_graciaSerie calcInputs) of
                  Inl e \<Rightarrow> Inl e
                | Inr repairedGracia \<Rightarrow>
                    Inr (d\<lparr> calculationInputs := (calculationInputs d)(bid \<mapsto>
                          calcInputs\<lparr> cin_inflacionSerie := JArr repairedInflacion,
                                      cin_graciaSerie := JArr repairedGracia \<rparr>) \<rparr>))))"

subsection \<open>From the stored bond to the calculation inputs\<close>

fun frecuenciaCuponMap :: "db_frecuencia_cupon \<Rightarrow> frequencia_cupon" where
  "frecuenciaCuponMap MENSUAL = mensual"
| "frecuenciaCuponMap BIMESTRAL = bimestral"
| "frecuenciaCuponMap TRIMESTRAL = trimestral"
| "frecuenciaCuponMap CUATRIMESTRAL = cuatrimestral"
| "frecuenciaCuponMap SEMESTRAL = semestral"
| "frecuenciaCuponMap ANUAL = anual"

fun tipoTasaMap :: "db_tipo_tasa \<Rightarrow> tipo_tasa" where
  "tipoTasaMap EFECTIVA = efectiva"
| "tipoTasaMap NOMINAL = nominal"

text \<open>
  Both columns are enumerations of the schema, so the two maps are total and the errors
  for an unmapped frequency or rate type cannot be raised.
\<close>

definition parseIfString :: "(string \<Rightarrow> json option) \<Rightarrow> json \<Rightarrow> json" where
  "parseIfString parse raw =
     (case raw of
        JStr s \<Rightarrow> (case parse s of None \<Rightarrow> raw | Some v \<Rightarrow> v)
      | _ \<Rightarrow> raw)"

definition isArray :: "json \<Rightarrow> bool" where
  "isArray v = (case v of JArr xs \<Rightarrow> True | _ \<Rightarrow> False)"

definition hasCorrupt :: "json \<Rightarrow> bool" where
  "hasCorrupt v = (case v of JArr xs \<Rightarrow> list_ex isCorruptItem xs | _ \<Rightarrow> False)"

definition wrongLength :: "int \<Rightarrow> json \<Rightarrow> bool" where
  "wrongLength n v = (case v of JArr xs \<Rightarrow> int (length xs) \<noteq> n | _ \<Rightarrow> False)"

text \<open>The condition under which \<^verbatim>\<open>convertBondToCalculationInputs\<close> repairs.\<close>

definition needsRepair :: "int \<Rightarrow> json \<Rightarrow> json \<Rightarrow> bool" where
  "needsRepair n rawInflacionSerie rawGraciaSerie =
     (hasCorrupt rawInflacionSerie \<or> hasCorrupt rawGraciaSerie
      \<or> (wrongLength n rawInflacionSerie \<or> wrongLength n rawGraciaSerie)
      \<or> \<not> isArray rawInflacionSerie \<or> \<not> isArray rawGraciaSerie)"

text \<open>The unchecked cast \<^verbatim>\<open>as number[]\<close> of the series read back after the repair.\<close>

definition asArray :: "json \<Rightarrow> json list" where
  "asArray v = (case v of JArr xs \<Rightarrow> xs | _ \<Rightarrow> [])"

definition mkInputs :: "string \<Rightarrow> bond \<Rightarrow> bond_costs \<Rightarrow> json list \<Rightarrow> json list \<Rightarrow> calculation_inputs" where
  "mkInputs rid b c inflacion graciaS =
     \<lparr> ci_id = rid,
       ci_valorNominal = b_valorNominal b,
       ci_valorComercial = b_valorComercial b,
       ci_numAnios = b_numAnios b,
       ci_frecuenciaCupon = frecuenciaCuponMap (b_frecuenciaCupon b),
       ci_diasPorAno = b_baseDias b,
       ci_tipoTasa = tipoTasaMap (b_tipoTasa b),
       ci_periodicidadCapitalizacion = b_periodicidadCapitalizacion b,
       ci_tasaAnual = b_tasaAnual b,
       ci_tasaDescuento = 45 / 1000,
       ci_impuestoRenta = b_impuestoRenta b,
       ci_fechaEmision = b_fechaEmision b,
       ci_primaPorcentaje = b_primaVencimiento b,
       ci_estructuracionPorcentaje = estructuracionPct c,
       ci_colocacionPorcentaje = colocacionPct c,
       ci_flotacionPorcentaje = flotacionPct c,
       ci_cavaliPorcentaje = cavaliPct c,
       ci_inflacionSerie = inflacion,
       ci_graciaSerie = graciaS \<rparr>"

text \<open>The first element (with its index) that a \<^verbatim>\<open>map\<close> callback rejects.\<close>

definition firstInvalid :: "(json \<Rightarrow> bool) \<Rightarrow> json list \<Rightarrow> (nat \<times> json) option" where
  "firstInvalid ok xs = find (\<lambda>ix. \<not> ok (snd ix)) (enumerate 0 xs)"

definition validatedSeries :: "string \<Rightarrow> json \<Rightarrow> json \<Rightarrow> svc_error + (json list \<times> json list)" where
  "validatedSeries bid rawInflacionSerie rawGraciaSerie =
     (case rawInflacionSerie of
        JArr xs \<Rightarrow>
          (case firstInvalid isFiniteNumber xs of
             Some ix \<Rightarrow> Inl (InflacionElemInvalid (fst ix) (snd ix))
           | None \<Rightarrow>
               (case rawGraciaSerie of
                  JArr ys \<Rightarrow>
                    (case firstInvalid isGraceCode ys of
                       Some iy \<Rightarrow> Inl (GraciaElemInvalid (fst iy) (snd iy))
                     | None \<Rightarrow> Inr (xs, ys))
                | _ \<Rightarrow> Inl (GraciaNotArray bid)))
      | _ \<Rightarrow> Inl (InflacionNotArray bid))"

text \<open>The branch of \<^verbatim>\<open>convertBondToCalculationInputs\<close> that repairs and reloads.\<close>

definition repairAndReload :: "db \<Rightarrow> bond \<Rightarrow> bond_costs \<Rightarrow> (svc_error + calculation_inputs) \<times> db" where
  "repairAndReload d b c =
     (case repairInconsistentSeries d (b_id b) (b_numAnios b) of
        Inl e \<Rightarrow> (Inl (RepairFailed (b_id b) e), d)
      | Inr d' \<Rightarrow>
          (case calculationInputs d' (b_id b) of
             None \<Rightarrow> (Inl (RepairFailed (b_id b) (ReloadFailed (b_id b))), d')
           | Some repairedCalcInputs \<Rightarrow>
               (Inr (mkInputs (cin_id repairedCalcInputs) b c
                      (asArray (cin_inflacionSerie repairedCalcInputs))
                      (asArray (cin_graciaSerie repairedCalcInputs))), d')))"

definition convertBondToCalculationInputs ::
  "env \<Rightarrow> db \<Rightarrow> bond \<Rightarrow> (svc_error + calculation_inputs) \<times> db" where
  "convertBondToCalculationInputs ev d b =
     (case b_costs b of
        None \<Rightarrow> (Inl (CostsUndefined (b_id b)), d)
      | Some c \<Rightarrow>
          (case calculationInputs d (b_id b) of
             None \<Rightarrow> (Inl (CalcInputsNotFound (b_id b)), d)
           | Some calcInputsRecord \<Rightarrow>
               (let rawInflacionSerie =
                      parseIfString (jsonParse ev) (cin_inflacionSerie calcInputsRecord);
                    rawGraciaSerie =
                      parseIfString (jsonParse ev) (cin_graciaSerie calcInputsRecord)
                in if needsRepair (b_numAnios b) rawInflacionSerie rawGraciaSerie
                   then repairAndReload d b c
                   else (case validatedSeries (b_id b) rawInflacionSerie rawGraciaSerie of
                           Inl e \<Rightarrow> (Inl e, d)
                         | Inr series \<Rightarrow>
                             (Inr (mkInputs (cin_id calcInputsRecord) b c
                                    (fst series) (snd series)), d)))))"

subsection \<open>Consistency check of the series (quick metrics)\<close>

text \<open>The invariant of the data model: both series have one element per year of the term.\<close>

definition seriesConsistent :: "calculation_inputs \<Rightarrow> bool" where
  "seriesConsistent inputs =
     (int (length (ci_inflacionSerie inputs)) = ci_numAnios inputs
      \<and> int (length (ci_graciaSerie inputs)) = ci_numAnios inputs)"

definition seriesIssues :: "calculation_inputs \<Rightarrow> series_issue list" where
  "seriesIssues inputs =
     (let numAnios = ci_numAnios inputs in
        (if int (length (ci_inflacionSerie inputs)) \<noteq> numAnios
         then [InflacionLength numAnios (length (ci_inflacionSerie inputs))] else [])
      @ (if int (length (ci_graciaSerie inputs)) \<noteq> numAnios
         then [GraciaLength numAnios (length (ci_graciaSerie inputs))] else [])
      @ (if list_ex isCorruptItem (ci_inflacionSerie inputs) then [InflacionCorrupta] else [])
      @ (if list_ex isCorruptItem (ci_graciaSerie inputs) then [GraciaCorrupta] else []))"

definition validateSeriesConsistency ::
  "db \<Rightarrow> string \<Rightarrow> calculation_inputs \<Rightarrow> (svc_error + unit) \<times> db" where
  "validateSeriesConsistency d bid inputs =
     (let errors = seriesIssues inputs in
      if errors \<noteq> []
      then (case repairInconsistentSeries d bid (ci_numAnios inputs) of
              Inr d' \<Rightarrow> (Inl (SeriesRepaired bid), d')
            | Inl repairError \<Rightarrow> (Inl (ValidationFailed errors), d))
      else (Inr (), d))"

subsection \<open>The entry points\<close>

definition responseMetricas :: "result_metricas \<Rightarrow> response_metricas" where
  "responseMetricas m =
     \<lparr> emisor = \<lparr> e_precioActual = m_precioActual m, e_van = m_utilidadPerdida m,
                  e_tceaEmisor = m_tceaEmisor m,
                  e_tceaEmisorConEscudo = m_tceaEmisorConEscudo m,
                  e_duracion = m_duracion m,
                  e_duracionModificada = m_duracionModificada m,
                  e_convexidad = m_convexidad m,
                  e_totalRatiosDecision = m_totalRatiosDecision m \<rparr>,
       bonista = \<lparr> bo_precioActual = m_precioActual m, bo_van = m_precioActual m,
                   bo_treaBonista = m_treaBonista m, bo_duracion = m_duracion m,
                   bo_duracionModificada = m_duracionModificada m,
                   bo_convexidad = m_convexidad m,
                   bo_totalRatiosDecision = m_totalRatiosDecision m \<rparr> \<rparr>"

text \<open>
  The end of the \<^verbatim>\<open>try\<close> block of \<^verbatim>\<open>calculateBond\<close>: the calculator is run on the
  calculation inputs and, when asked for, its result is saved.
\<close>

definition calculateAndSave ::
  "env \<Rightarrow> nat \<Rightarrow> db \<Rightarrow> string \<Rightarrow> bool \<Rightarrow> calculation_inputs \<Rightarrow> (svc_error + response) \<times> db" where
  "calculateAndSave ev now d1 bid save inputs =
     (case calculate ev inputs of
        Inl msg \<Rightarrow> (Inl (CalculatorError msg), d1)
      | Inr calculationResult \<Rightarrow>
          if save
          then (if ci_id inputs = []
                then (Inl MissingInputsId, d1)
                else (Inr (formatCalculationResponse bid calculationResult),
                      saveCalculationResults now d1 bid (ci_id inputs) calculationResult))
          else (Inr (formatCalculationResponse bid calculationResult), d1))"

text \<open>
  The part of \<^verbatim>\<open>calculateBond\<close> that computes: everything in the \<^verbatim>\<open>try\<close> block after the
  look-up of a stored calculation, on the destructured \<^verbatim>\<open>bondId\<close> and \<^verbatim>\<open>saveResults\<close>
  of the request. \<open>Inl\<close> is the error the \<^verbatim>\<open>catch\<close> block receives; the database is
  returned in both cases, since a repair that went through stays.
\<close>

definition computeBond :: "env \<Rightarrow> nat \<Rightarrow> db \<Rightarrow> string \<Rightarrow> bool \<Rightarrow> (svc_error + response) \<times> db" where
  "computeBond ev now d bid save =
     (case findById d bid of
        None \<Rightarrow> (Inl (BondNotFound bid), d)
      | Some b \<Rightarrow>
          (case validateBondForCalculation b of
             Inl e \<Rightarrow> (Inl e, d)
           | Inr u \<Rightarrow>
               (case convertBondToCalculationInputs ev d b of
                  (Inl e, d1) \<Rightarrow> (Inl e, d1)
                | (Inr inputs, d1) \<Rightarrow> calculateAndSave ev now d1 bid save inputs)))"

definition tryBlock :: "env \<Rightarrow> nat \<Rightarrow> db \<Rightarrow> request \<Rightarrow> (svc_error + response) \<times> db" where
  "tryBlock ev now d req =
     (if recalculate req then computeBond ev now d (bondId req) (saveResults req)
      else (case getExistingCalculation d (bondId req) of
              Some existingCalculation \<Rightarrow> (Inr existingCalculation, d)
            | None \<Rightarrow> computeBond ev now d (bondId req) (saveResults req)))"

text \<open>The \<^verbatim>\<open>catch\<close> block: an error of the \<^verbatim>\<open>try\<close> block becomes a failure response.\<close>

definition catchBlock :: "nat \<Rightarrow> string \<Rightarrow> (svc_error + response) \<times> db \<Rightarrow> response \<times> db" where
  "catchBlock now bid outcome =
     (case outcome of
        (Inr r, d') \<Rightarrow> (r, d')
      | (Inl e, d') \<Rightarrow> (failureResponse now bid e, d'))"

text \<open>
  \<^verbatim>\<open>calculateBond\<close>: the request is parsed before the \<^verbatim>\<open>try\<close> block, so a bond id that is
  not a cuid is thrown to the caller (\<open>Inl\<close>); everything else comes back as a response.
\<close>

definition calculateBond :: "env \<Rightarrow> nat \<Rightarrow> db \<Rightarrow> request \<Rightarrow> svc_error + (response \<times> db)" where
  "calculateBond ev now d req =
     (if \<not> isCuid ev (bondId req) then Inl (ZodError (bondId req))
      else Inr (catchBlock now (bondId req) (tryBlock ev now d req)))"

definition quickBody :: "env \<Rightarrow> nat \<Rightarrow> db \<Rightarrow> string \<Rightarrow> (svc_error + response) \<times> db" where
  "quickBody ev now d bid =
     (case findById d bid of
        None \<Rightarrow> (Inl (BondNotFoundQuick bid), d)
      | Some b \<Rightarrow>
          (case convertBondToCalculationInputs ev d b of
             (Inl e, d1) \<Rightarrow> (Inl e, d1)
           | (Inr inputs, d1) \<Rightarrow>
               (case validateSeriesConsistency d1 (b_id b) inputs of
                  (Inl e, d2) \<Rightarrow> (Inl e, d2)
                | (Inr u, d2) \<Rightarrow>
                    (case calculateQuick ev inputs of
                       Inl msg \<Rightarrow> (Inl (CalculatorError msg), d2)
                     | Inr quickMetricsResult \<Rightarrow>
                         (Inr \<lparr> r_bondId = bid, r_success = True, r_calculatedAt = Some now,
                                r_metricas = responseMetricas quickMetricsResult,
                                r_flowsCount = 0, r_errors = None \<rparr>, d2)))))"

definition calculateQuickMetrics :: "env \<Rightarrow> nat \<Rightarrow> db \<Rightarrow> string \<Rightarrow> response \<times> db" where
  "calculateQuickMetrics ev now d bid = catchBlock now bid (quickBody ev now d bid)"

subsection \<open>Several bonds\<close>

definition processBond :: "env \<Rightarrow> nat \<Rightarrow> db \<Rightarrow> string \<Rightarrow> svc_error + (response \<times> db)" where
  "processBond ev now d bid =
     calculateBond ev now d \<lparr> bondId = bid, recalculate = True, saveResults = True \<rparr>"

text \<open>The sequential branch: an \<^verbatim>\<open>await\<close> that rejects ends the loop and the call.\<close>

fun sequentialLoop ::
  "env \<Rightarrow> nat \<Rightarrow> string list \<Rightarrow> response list \<Rightarrow> db \<Rightarrow> (svc_error + response list) \<times> db" where
  "sequentialLoop ev now [] results d = (Inr results, d)"
| "sequentialLoop ev now (bid # rest) results d =
     (case processBond ev now d bid of
        Inl e \<Rightarrow> (Inl e, d)
      | Inr (r, d') \<Rightarrow> sequentialLoop ev now rest (results @ [r]) d')"

text \<open>
  One batch of the parallel branch, settled by \<^verbatim>\<open>Promise.allSettled\<close>. The computations of
  a batch are run one after the other in the order of the batch. A rejected promise gives
  an entry whose bond id is \<^verbatim>\<open>unknown_in_batch\<close>: the settled result has no \<^verbatim>\<open>_promise\<close>
  property, so \<^verbatim>\<open>findIndex\<close> finds nothing.
\<close>

fun settleBatch :: "env \<Rightarrow> nat \<Rightarrow> string list \<Rightarrow> db \<Rightarrow> response list \<times> db" where
  "settleBatch ev now [] d = ([], d)"
| "settleBatch ev now (bid # rest) d =
     (case processBond ev now d bid of
        Inl e \<Rightarrow>
          (case settleBatch ev now rest d of
             (rs, d') \<Rightarrow> (failureResponse now ''unknown_in_batch'' e # rs, d'))
      | Inr (r, d1) \<Rightarrow>
          (case settleBatch ev now rest d1 of (rs, d') \<Rightarrow> (r # rs, d')))"

text \<open>\<^verbatim>\<open>Array.prototype.slice(start, end)\<close>, negative indices counted from the end.\<close>

definition jsSlice :: "'a list \<Rightarrow> int \<Rightarrow> int \<Rightarrow> 'a list" where
  "jsSlice xs start fin =
     (let len = int (length xs);
          k = (if start < 0 then max (len + start) 0 else min start len);
          final = (if fin < 0 then max (len + fin) 0 else min fin len)
      in take (nat (final - k)) (drop (nat k) xs))"

text \<open>
  The loop of the parallel branch, \<^verbatim>\<open>for (let i = 0; i < bondIds.length; i += batchSize)\<close>.
  With a batch size that is not positive it does not end: \<open>None\<close>. The optional
  \<^verbatim>\<open>onProgress\<close> callback is not passed.
\<close>

partial_function (option) parallelLoop ::
  "env \<Rightarrow> nat \<Rightarrow> string list \<Rightarrow> int \<Rightarrow> int \<Rightarrow> response list \<Rightarrow> db \<Rightarrow> (response list \<times> db) option" where
  "parallelLoop ev now bondIds batchSize i results d =
     (if i < int (length bondIds)
      then (case settleBatch ev now (jsSlice bondIds i (i + batchSize)) d of
              (rs, d') \<Rightarrow> parallelLoop ev now bondIds batchSize (i + batchSize) (results @ rs) d')
      else Some (results, d))"

definition calculateMultipleBonds ::
  "env \<Rightarrow> nat \<Rightarrow> db \<Rightarrow> string list \<Rightarrow> bool \<Rightarrow> int \<Rightarrow> ((svc_error + response list) \<times> db) option" where
  "calculateMultipleBonds ev now d bondIds parallel batchSize =
     (if parallel
      then (case parallelLoop ev now bondIds batchSize 0 [] d of
              None \<Rightarrow> None
            | Some (results, d') \<Rightarrow> Some (Inr results, d'))
      else Some (sequentialLoop ev now bondIds [] d))"

section \<open>The input builder of the form (Step4Dynamic)\<close>

datatype grace_type = GraceT | GraceP | GraceS

record grace_config =
  couponNumber :: int
  graceType :: grace_type

text \<open>
  The fields of the form that the two series are built from. The other fields of the
  form are scalars that \<^verbatim>\<open>buildCalculationInputs\<close> parses one by one into the object it
  returns; they do not touch the series and are left out.
\<close>

record bond_data =
  step1_numAnios :: "string option"
  step2_inflacionAnual :: "string option"
  step2_gracePeriodsConfig :: "grace_config list option"

record 'n ui_inputs =
  ui_numAnios :: int
  ui_inflacionSerie :: "'n list"
  ui_graciaSerie :: "grace_type list"

text \<open>\<^verbatim>\<open>field || fallback\<close> on an optional string: undefined and the empty string are falsy.\<close>

definition orElse :: "string option \<Rightarrow> string \<Rightarrow> string" where
  "orElse field fallback = (case field of None \<Rightarrow> fallback | Some s \<Rightarrow> if s = [] then fallback else s)"

text \<open>
  The callback of \<^verbatim>\<open>gracePeriodsConfig.forEach\<close>. A negative index writes a property of
  the array object, not an element: the elements and the length stay.
\<close>

definition applyGrace :: "int \<Rightarrow> grace_type list \<Rightarrow> grace_config \<Rightarrow> grace_type list" where
  "applyGrace numAnios graciaSerie config =
     (let yearIndex = (couponNumber config - 1) div 2 in
      if yearIndex < numAnios
      then (if 0 \<le> yearIndex then graciaSerie[nat yearIndex := graceType config] else graciaSerie)
      else graciaSerie)"

text \<open>
  \<open>parseInt\<close> and \<open>parseFloat\<close> are JavaScript's; \<open>parseInt\<close> gives \<open>None\<close> for NaN, on
  which \<^verbatim>\<open>Array(numAnios)\<close> raises.
\<close>

definition buildCalculationInputs ::
  "(string \<Rightarrow> int option) \<Rightarrow> (string \<Rightarrow> 'n) \<Rightarrow> bond_data \<Rightarrow> svc_error + 'n ui_inputs" where
  "buildCalculationInputs parseInt parseFloat bondData =
     (case parseInt (orElse (step1_numAnios bondData) ''5'') of
        None \<Rightarrow> Inl RangeError
      | Some numAnios \<Rightarrow>
          (let inflacionAnualV = parseFloat (orElse (step2_inflacionAnual bondData) ''0.10'') in
           case arrayFill numAnios inflacionAnualV of
             Inl e \<Rightarrow> Inl e
           | Inr inflacionSerie \<Rightarrow>
               (case arrayFill numAnios GraceS of
                  Inl e \<Rightarrow> Inl e
                | Inr graciaSerie \<Rightarrow>
                    Inr \<lparr> ui_numAnios = numAnios,
                          ui_inflacionSerie = inflacionSerie,
                          ui_graciaSerie =
                            (case step2_gracePeriodsConfig bondData of
                               None \<Rightarrow> graciaSerie
                             | Some configs \<Rightarrow> foldl (applyGrace numAnios) graciaSerie configs) \<rparr>)))"

section \<open>The root finder\<close>

text \<open>The precision the service configures the calculator with (its constructor).\<close>

record precision_config =
  decimalPlaces :: nat
  tolerance :: real

definition precisionSettings :: precision_config where
  "precisionSettings = \<lparr> decimalPlaces = 6, tolerance = 1 / 10 ^ 8 \<rparr>"

datatype engine_error =
    InvalidInputError
  | InvalidRateError
  | InvalidScheduleError
  | ConvergenceError

text \<open>
  Modelled from the spec: the \<^verbatim>\<open>FinancialCalculator\<close> and its root finder are not among the
  sources. The NPV of section 4.5: the flow of period \<open>p\<close> discounted on an annual basis,
  \<open>flow[p] / (1 + r)^(p / periodsPerYear)\<close>.
\<close>

definition NPV :: "real list \<Rightarrow> real \<Rightarrow> real \<Rightarrow> real" where
  "NPV flows periodsPerYear r =
     sum_list (map (\<lambda>pf. snd pf / (1 + r) powr (real (fst pf) / periodsPerYear))
                   (enumerate 0 flows))"

text \<open>
  Modelled from the spec: the iteration budget of section 4.5 (a maximum iteration count,
  200) and its bracket \<open>[-0.99, 10.0]\<close>.
\<close>

definition maxIterations :: nat where
  "maxIterations = 200"

definition bracketLow :: real where
  "bracketLow = - 99 / 100"

definition bracketHigh :: real where
  "bracketHigh = 10"

text \<open>
  Modelled from the spec: bisection on a bracket, refined until \<open>|f r| < tol\<close> or the
  budget is used up, in which case it fails with a convergence error (section 4.5). The
  function being zeroed is a parameter (section 9).
\<close>

fun bisect :: "(real \<Rightarrow> real) \<Rightarrow> real \<Rightarrow> nat \<Rightarrow> real \<Rightarrow> real \<Rightarrow> engine_error + real" where
  "bisect f tol 0 lo hi = Inl ConvergenceError"
| "bisect f tol (Suc n) lo hi =
     (let mid = (lo + hi) / 2 in
      if \<bar>f mid\<bar> < tol then Inr mid
      else if f lo * f mid < 0 then bisect f tol n lo mid
      else bisect f tol n mid hi)"

text \<open>
  Modelled from the spec: \<^verbatim>\<open>solveEffectiveRate(flows, periodsPerYear)\<close> of section 6; it
  fails with a convergence error when the values at the ends of the bracket have the same
  sign (section 4.5).
\<close>

definition solveEffectiveRate :: "real list \<Rightarrow> real \<Rightarrow> engine_error + real" where
  "solveEffectiveRate flows periodsPerYear =
     (let f = NPV flows periodsPerYear in
      if 0 < f bracketLow * f bracketHigh then Inl ConvergenceError
      else bisect f (tolerance precisionSettings) maxIterations bracketLow bracketHigh)"

section \<open>Example data\<close>

text \<open>
  The pattern \<^verbatim>\<open>z.string().cuid()\<close> checks (zod): a \<open>c\<close>, then eight or more characters
  none of which is white space or a hyphen.
\<close>

definition cuidChar :: "char \<Rightarrow> bool" where
  "cuidChar c = (c \<notin> {CHR '' '', CHR ''-'', CHR 0x09, CHR 0x0A, CHR 0x0B, CHR 0x0C, CHR 0x0D})"

definition zodCuid :: "string \<Rightarrow> bool" where
  "zodCuid s =
     (case s of
        [] \<Rightarrow> False
      | c # cs \<Rightarrow> (c = CHR ''c'' \<or> c = CHR ''C'') \<and> 8 \<le> length cs \<and> list_all cuidChar cs)"

definition exMetricas :: result_metricas where
  "exMetricas =
     \<lparr> m_precioActual = 1060, m_utilidadPerdida = 10, m_tceaEmisor = 9 / 100,
       m_tceaEmisorConEscudo = 7 / 100, m_treaBonista = 8 / 100, m_duracion = 2,
       m_duracionModificada = 19 / 10, m_convexidad = 5, m_totalRatiosDecision = 9 \<rparr>"

definition exFlow :: "int \<Rightarrow> flow" where
  "exFlow p =
     \<lparr> periodo = p, fecha = 0, inflacionAnual = None, inflacionSemestral = None,
       gracia = Some ''S'', bonoCapital = Some 1000, bonoIndexado = Some 1000,
       cupon = Some 40, amortizacion = Some 0, cuota = Some 40, prima = None,
       escudoFiscal = Some 12, flujoEmisor = Some (- 40), flujoEmisorConEscudo = Some (- 28),
       flujoBonista = Some 40, flujoActualizado = None, faPlazoPonderado = None,
       factorConvexidad = None \<rparr>"

definition exResult :: calculation_result where
  "exResult =
     \<lparr> res_flujos = [exFlow 0, exFlow 1], res_metricas = exMetricas,
       res_intermedios = JNull, res_fechaCalculo = Some 7 \<rparr>"

definition exEmptyResult :: calculation_result where
  "exEmptyResult = exResult\<lparr> res_flujos := [] \<rparr>"

definition exEnv :: env where
  "exEnv =
     \<lparr> isCuid = zodCuid, jsonParse = (\<lambda>s. None),
       calculate = (\<lambda>inputs. Inr exResult),
       calculateQuick = (\<lambda>inputs. Inr exMetricas) \<rparr>"

definition exCosts :: bond_costs where
  "exCosts = \<lparr> estructuracionPct = 1 / 100, colocacionPct = 1 / 400,
               flotacionPct = 9 / 2000, cavaliPct = 1 / 200 \<rparr>"

definition exBond :: bond where
  "exBond =
     \<lparr> b_id = ''cbond0001'', b_name = ''A'', b_status = DRAFT, b_valorNominal = 1000,
       b_valorComercial = 1050, b_numAnios = 2, b_frecuenciaCupon = SEMESTRAL,
       b_baseDias = 360, b_tipoTasa = EFECTIVA, b_periodicidadCapitalizacion = ''semestral'',
       b_tasaAnual = 8 / 100, b_impuestoRenta = 3 / 10, b_fechaEmision = 0,
       b_primaVencimiento = 1 / 100, b_costs = Some exCosts \<rparr>"

text \<open>A stored record whose inflation series has one element for a bond of two years.\<close>

definition exShortInputs :: calc_inputs_row where
  "exShortInputs =
     \<lparr> cin_id = ''ci1'', cin_inflacionSerie = JArr [JNum (1 / 10)],
       cin_graciaSerie = JArr [JStr ''S'', JStr ''P''] \<rparr>"

definition exGoodInputs :: calc_inputs_row where
  "exGoodInputs =
     \<lparr> cin_id = ''ci1'', cin_inflacionSerie = JArr [JNum (1 / 10), JNum (1 / 10)],
       cin_graciaSerie = JArr [JStr ''S'', JStr ''P''] \<rparr>"

definition exMetricsRow :: metrics_row where
  "exMetricsRow =
     \<lparr> fm_precioActual = 1060, fm_utilidadPerdida = 10, fm_van = 10, fm_duracion = 2,
       fm_duracionModificada = 19 / 10, fm_convexidad = 5, fm_totalRatiosDecision = 9,
       fm_tir = 9 / 100, fm_tcea = Some (9 / 100), fm_tceaConEscudo = Some (7 / 100),
       fm_trea = None, fm_fechaCalculo = 3 \<rparr>"

definition exDb :: "calc_inputs_row \<Rightarrow> db" where
  "exDb inputsRow =
     \<lparr> bonds = [''cbond0001'' \<mapsto> exBond],
       calculationInputs = [''cbond0001'' \<mapsto> inputsRow],
       cashFlows = [],
       financialMetrics = Map.empty,
       calculationResults = Map.empty \<rparr>"

text \<open>A database in which the bond already has a stored schedule and both metrics rows.\<close>

definition exStoredDb :: db where
  "exStoredDb =
     (exDb exGoodInputs)
       \<lparr> cashFlows := [\<lparr> cf_bondId = ''cbond0001'', cf_data = exFlow 5 \<rparr>],
         financialMetrics := [(''cbond0001'', EMISOR) \<mapsto> exMetricsRow,
                              (''cbond0001'', BONISTA) \<mapsto> exMetricsRow] \<rparr>"

section \<open>Properties of saving\<close>

lemma bonds_saveTransaction: "bonds (saveTransaction now bid cid result d) = bonds d"
  by (simp add: saveTransaction_def upsertCalculationResult_def upsertBonista_def
      upsertEmisor_def saveFlows_def Let_def)

lemma cashFlows_saveTransaction:
  "cashFlows (saveTransaction now bid cid result d) = cashFlows (saveFlows bid result d)"
  by (simp add: saveTransaction_def upsertCalculationResult_def upsertBonista_def
      upsertEmisor_def Let_def)

lemma calculationInputs_saveTransaction:
  "calculationInputs (saveTransaction now bid cid result d) = calculationInputs d"
  by (simp add: saveTransaction_def upsertCalculationResult_def upsertBonista_def
      upsertEmisor_def saveFlows_def Let_def)

lemma cashFlows_activateIfDraft: "cashFlows (activateIfDraft bid d) = cashFlows d"
  by (simp add: activateIfDraft_def updateStatus_def findById_def split: option.splits)

lemma calculationInputs_activateIfDraft:
  "calculationInputs (activateIfDraft bid d) = calculationInputs d"
  by (simp add: activateIfDraft_def updateStatus_def findById_def split: option.splits)

lemma bonds_activateIfDraft:
  "bonds (activateIfDraft bid d) =
     (case bonds d bid of
        None \<Rightarrow> bonds d
      | Some b \<Rightarrow>
          (bonds d)(bid \<mapsto> b\<lparr> b_status := (if b_status b = DRAFT then ACTIVE else b_status b) \<rparr>))"
  by (auto simp add: activateIfDraft_def updateStatus_def findById_def split: option.splits)

text \<open>
  Claim C9. Saving the results of a bond activates it when it is a draft: afterwards the
  bond is the bond as it was with status ACTIVE if its status was DRAFT, and with its
  status unchanged otherwise; no other bond is changed.
\<close>

theorem saveCalculationResults_activates_draft:
  assumes "bonds d bid = Some b"
  shows "bonds (saveCalculationResults now d bid cid result) bid =
           Some (b\<lparr> b_status := (if b_status b = DRAFT then ACTIVE else b_status b) \<rparr>)
         \<and> (\<forall>other. other \<noteq> bid \<longrightarrow>
               bonds (saveCalculationResults now d bid cid result) other = bonds d other)"
  using assms
  by (simp add: saveCalculationResults_def bonds_activateIfDraft bonds_saveTransaction)

theorem saveCalculationResults_activates_draft_witness:
  "bonds (exDb exGoodInputs) ''cbond0001'' = Some exBond
   \<and> b_status exBond = DRAFT
   \<and> bonds (saveCalculationResults 1 (exDb exGoodInputs) ''cbond0001'' ''ci1'' exResult)
        ''cbond0001'' = Some (exBond\<lparr> b_status := ACTIVE \<rparr>)"
proof -
  have h: "bonds (exDb exGoodInputs) ''cbond0001'' = Some exBond"
    by (simp add: exDb_def)
  have s: "b_status exBond = DRAFT"
    by (simp add: exBond_def)
  show ?thesis
    using saveCalculationResults_activates_draft
      [OF h, of 1 "''ci1''" exResult] h s
    by simp
qed

lemma createMany_append:
  assumes "\<forall>r \<in> set tbl. cf_bondId r \<noteq> bid" and "\<forall>r \<in> set rs. cf_bondId r = bid"
  shows "createMany (tbl @ acc) rs = tbl @ createMany acc rs"
  using assms
proof (induction rs arbitrary: acc)
  case Nil
  then show ?case by simp
next
  case (Cons r rs)
  have "list_ex (sameKey r) tbl = False"
    using Cons.prems by (auto simp add: list_ex_iff sameKey_def)
  then have "list_ex (sameKey r) (tbl @ acc) = list_ex (sameKey r) acc"
    by simp
  moreover have "createMany (tbl @ acc @ [r]) rs = tbl @ createMany (acc @ [r]) rs"
    using Cons.IH [of "acc @ [r]"] Cons.prems by simp
  moreover have "createMany (tbl @ acc) rs = tbl @ createMany acc rs"
    using Cons.IH [of acc] Cons.prems by simp
  ultimately show ?case by simp
qed

lemma createMany_subset: "set (createMany acc rs) \<subseteq> set acc \<union> set rs"
proof (induction rs arbitrary: acc)
  case Nil
  then show ?case by simp
next
  case (Cons r rs)
  show ?case
  proof (cases "list_ex (sameKey r) acc")
    case True
    then show ?thesis using Cons.IH [of acc] by auto
  next
    case False
    then show ?thesis using Cons.IH [of "acc @ [r]"] by auto
  qed
qed

lemma createMany_distinct:
  assumes "distinct (map (periodo \<circ> cf_data) (acc @ rs))"
  shows "createMany acc rs = acc @ rs"
  using assms
proof (induction rs arbitrary: acc)
  case Nil
  then show ?case by simp
next
  case (Cons r rs)
  have "\<not> list_ex (sameKey r) acc"
    using Cons.prems by (auto simp add: list_ex_iff sameKey_def)
  moreover have "createMany (acc @ [r]) rs = (acc @ [r]) @ rs"
    using Cons.prems by (intro Cons.IH) simp
  ultimately show ?case by simp
qed

lemma cashFlows_saveCalculationResults:
  "cashFlows (saveCalculationResults now d bid cid result) =
     (if res_flujos result \<noteq> []
      then deleteMany bid (cashFlows d) @ createMany [] (prismaFlowsData bid (res_flujos result))
      else cashFlows d)"
proof -
  have "createMany (deleteMany bid (cashFlows d) @ []) (prismaFlowsData bid (res_flujos result))
        = deleteMany bid (cashFlows d) @ createMany [] (prismaFlowsData bid (res_flujos result))"
    by (rule createMany_append) (auto simp add: deleteMany_def prismaFlowsData_def)
  then show ?thesis
    by (simp add: saveCalculationResults_def cashFlows_activateIfDraft cashFlows_saveTransaction
        saveFlows_def)
qed

lemma map_of_periodo_find:
  "map_of (map (\<lambda>f. (periodo f, f)) fs) p = find (\<lambda>f. periodo f = p) fs"
  by (induction fs) auto

lemma createMany_clearjunk:
  "createMany tbl (map (\<lambda>f. \<lparr> cf_bondId = bid, cf_data = f \<rparr>) fs) =
     tbl @ map (\<lambda>kv. \<lparr> cf_bondId = bid, cf_data = snd kv \<rparr>)
             (AList.clearjunk
                (filter (\<lambda>kv. \<not> list_ex (\<lambda>row. cf_bondId row = bid
                                               \<and> periodo (cf_data row) = fst kv) tbl)
                   (map (\<lambda>f. (periodo f, f)) fs)))"
proof (induction fs arbitrary: tbl)
  case Nil
  then show ?case by simp
next
  case (Cons f fs)
  let ?r = "\<lparr> cf_bondId = bid, cf_data = f \<rparr>"
  have k: "list_ex (sameKey ?r) tbl
             = list_ex (\<lambda>row. cf_bondId row = bid \<and> periodo (cf_data row) = periodo f) tbl"
    by (auto simp add: list_ex_iff sameKey_def)
  show ?case
  proof (cases "list_ex (sameKey ?r) tbl")
    case True
    then show ?thesis using k Cons.IH [of tbl] by simp
  next
    case False
    have d: "AList.delete (periodo f)
               (filter (\<lambda>kv. \<not> list_ex (\<lambda>row. cf_bondId row = bid
                                               \<and> periodo (cf_data row) = fst kv) tbl)
                  (map (\<lambda>f. (periodo f, f)) fs))
           = filter (\<lambda>kv. \<not> list_ex (\<lambda>row. cf_bondId row = bid
                                               \<and> periodo (cf_data row) = fst kv) (tbl @ [?r]))
                  (map (\<lambda>f. (periodo f, f)) fs)"
      by (induction fs) (auto simp add: AList.delete_eq)
    show ?thesis using False k Cons.IH [of "tbl @ [?r]"] d by simp
  qed
qed

lemma cashFlows_saved_rows:
  assumes "res_flujos result \<noteq> []"
  shows "cashFlows (saveCalculationResults now d bid cid result) =
           filter (\<lambda>row. cf_bondId row \<noteq> bid) (cashFlows d)
           @ map (\<lambda>kv. \<lparr> cf_bondId = bid, cf_data = snd kv \<rparr>)
               (AList.clearjunk (map (\<lambda>f. (periodo f, f)) (res_flujos result)))"
proof -
  have "\<not> list_ex (\<lambda>row. cf_bondId row = bid \<and> periodo (cf_data row) = p)
            (filter (\<lambda>row. cf_bondId row \<noteq> bid) (cashFlows d))" for p
    by (auto simp add: list_ex_iff)
  then have "createMany (filter (\<lambda>row. cf_bondId row \<noteq> bid) (cashFlows d))
          (map (\<lambda>f. \<lparr> cf_bondId = bid, cf_data = f \<rparr>) (res_flujos result)) =
        filter (\<lambda>row. cf_bondId row \<noteq> bid) (cashFlows d)
           @ map (\<lambda>kv. \<lparr> cf_bondId = bid, cf_data = snd kv \<rparr>)
               (AList.clearjunk (map (\<lambda>f. (periodo f, f)) (res_flujos result)))"
    by (simp add: createMany_clearjunk)
  then show ?thesis
    using assms
    by (simp add: saveCalculationResults_def cashFlows_activateIfDraft cashFlows_saveTransaction
        saveFlows_def deleteMany_def prismaFlowsData_def)
qed

lemma clearjunk_first:
  assumes "kv \<in> set (AList.clearjunk (map (\<lambda>f. (periodo f, f)) fs))"
  shows "find (\<lambda>f. periodo f = periodo (snd kv)) fs = Some (snd kv)"
proof -
  obtain p f where kv: "kv = (p, f)" by (cases kv)
  have "map_of (AList.clearjunk (map (\<lambda>f. (periodo f, f)) fs)) p = Some f"
    using assms kv by (simp add: map_of_eq_Some_iff)
  then have m: "map_of (map (\<lambda>f. (periodo f, f)) fs) p = Some f"
    by (simp add: map_of_clearjunk)
  then have "(p, f) \<in> set (map (\<lambda>f. (periodo f, f)) fs)"
    by (rule map_of_SomeD)
  then have "p = periodo f" by auto
  then show ?thesis using m kv by (simp add: map_of_periodo_find)
qed

text \<open>
  Claim C6, as the code has it. The stored schedule after \<^verbatim>\<open>saveCalculationResults\<close> is the
  one its transaction leaves (the activation of the bond that follows does not touch it),
  and the rows of the other bonds are the same rows in the same order. When the schedule of
  the result is not empty, every row stored for the bond before is deleted and the rows of
  the bond are the rows built from the new schedule, in its order, one row for each of its
  periods: for a period that occurs more than once in the new schedule the row of its first
  occurrence (the others are skipped as duplicates), and when the periods of the new
  schedule are distinct exactly the rows of the new schedule. When the schedule of the
  result is empty the stored rows are left as they are. No row is changed in place.
\<close>

theorem saveCalculationResults_replaces_schedule:
  "cashFlows (saveCalculationResults now d bid cid result)
     = cashFlows (saveTransaction now bid cid result d)
   \<and> filter (\<lambda>row. cf_bondId row \<noteq> bid) (cashFlows (saveCalculationResults now d bid cid result))
       = filter (\<lambda>row. cf_bondId row \<noteq> bid) (cashFlows d)
   \<and> (res_flujos result \<noteq> [] \<longrightarrow>
        cashFlows (saveCalculationResults now d bid cid result) =
          filter (\<lambda>row. cf_bondId row \<noteq> bid) (cashFlows d)
          @ map (\<lambda>kv. \<lparr> cf_bondId = bid, cf_data = snd kv \<rparr>)
              (AList.clearjunk (map (\<lambda>f. (periodo f, f)) (res_flujos result)))
        \<and> (\<forall>row \<in> set (cashFlows (saveCalculationResults now d bid cid result)).
              cf_bondId row = bid \<longrightarrow>
              find (\<lambda>f. periodo f = periodo (cf_data row)) (res_flujos result)
                = Some (cf_data row))
        \<and> (\<forall>f \<in> set (res_flujos result).
              \<exists>row \<in> set (cashFlows (saveCalculationResults now d bid cid result)).
                cf_bondId row = bid \<and> periodo (cf_data row) = periodo f)
        \<and> (distinct (map periodo (res_flujos result)) \<longrightarrow>
              cashFlows (saveCalculationResults now d bid cid result) =
                filter (\<lambda>row. cf_bondId row \<noteq> bid) (cashFlows d)
                @ map (\<lambda>f. \<lparr> cf_bondId = bid, cf_data = f \<rparr>) (res_flujos result)))
   \<and> (res_flujos result = [] \<longrightarrow>
        cashFlows (saveCalculationResults now d bid cid result) = cashFlows d)"
proof -
  let ?d' = "saveCalculationResults now d bid cid result"
  let ?kvs = "map (\<lambda>f. (periodo f, f)) (res_flujos result)"
  have a: "cashFlows ?d' = cashFlows (saveTransaction now bid cid result d)"
    by (simp add: saveCalculationResults_def cashFlows_activateIfDraft)
  have e: "cashFlows ?d' = cashFlows d" if "res_flujos result = []"
    using that
    by (simp add: saveCalculationResults_def cashFlows_activateIfDraft cashFlows_saveTransaction
        saveFlows_def)
  have c: "cashFlows ?d' =
          filter (\<lambda>row. cf_bondId row \<noteq> bid) (cashFlows d)
          @ map (\<lambda>kv. \<lparr> cf_bondId = bid, cf_data = snd kv \<rparr>) (AList.clearjunk ?kvs)"
    if "res_flujos result \<noteq> []"
    using that by (rule cashFlows_saved_rows)
  have b: "filter (\<lambda>row. cf_bondId row \<noteq> bid) (cashFlows ?d')
       = filter (\<lambda>row. cf_bondId row \<noteq> bid) (cashFlows d)"
  proof (cases "res_flujos result = []")
    case True
    then show ?thesis using e by simp
  next
    case False
    have "filter (\<lambda>row. cf_bondId row \<noteq> bid)
            (map (\<lambda>kv. \<lparr> cf_bondId = bid, cf_data = snd kv \<rparr>) (AList.clearjunk ?kvs)) = []"
      by (simp add: filter_empty_conv)
    then show ?thesis using c [OF False] by simp
  qed
  have f: "find (\<lambda>f. periodo f = periodo (cf_data row)) (res_flujos result) = Some (cf_data row)"
    if "res_flujos result \<noteq> []" and "row \<in> set (cashFlows ?d')" and "cf_bondId row = bid"
    for row
  proof -
    have "row \<in> set (map (\<lambda>kv. \<lparr> cf_bondId = bid, cf_data = snd kv \<rparr>) (AList.clearjunk ?kvs))"
      using that c [OF that(1)] by auto
    then obtain kv where kv: "kv \<in> set (AList.clearjunk ?kvs)" and r: "cf_data row = snd kv"
      by auto
    show ?thesis using clearjunk_first [OF kv] r by simp
  qed
  have g: "\<exists>row \<in> set (cashFlows ?d'). cf_bondId row = bid \<and> periodo (cf_data row) = periodo fl"
    if "res_flujos result \<noteq> []" and "fl \<in> set (res_flujos result)" for fl
  proof -
    have "periodo fl \<in> set (map fst ?kvs)"
      using that(2) by (auto simp add: image_iff)
    then have "periodo fl \<in> set (map fst (AList.clearjunk ?kvs))"
      by (simp only: AList.clearjunk_keys_set)
    then obtain kv where kv: "kv \<in> set (AList.clearjunk ?kvs)" and p: "fst kv = periodo fl"
      by auto
    have "find (\<lambda>f. periodo f = periodo (snd kv)) (res_flujos result) = Some (snd kv)"
      using kv by (rule clearjunk_first)
    moreover have "(fst kv, snd kv) \<in> set ?kvs"
      using kv AList.clearjunk_keys_set [of ?kvs]
      by (metis (no_types, lifting) AList.map_of_clearjunk AList.distinct_clearjunk
          map_of_SomeD map_of_eq_Some_iff prod.collapse)
    then have "fst kv = periodo (snd kv)" by auto
    ultimately have "\<lparr> cf_bondId = bid, cf_data = snd kv \<rparr> \<in> set (cashFlows ?d')
        \<and> periodo (snd kv) = periodo fl"
      using kv p c [OF that(1)] by auto
    then show ?thesis by force
  qed
  have h: "cashFlows ?d' =
                filter (\<lambda>row. cf_bondId row \<noteq> bid) (cashFlows d)
                @ map (\<lambda>f. \<lparr> cf_bondId = bid, cf_data = f \<rparr>) (res_flujos result)"
    if "res_flujos result \<noteq> []" and "distinct (map periodo (res_flujos result))"
  proof -
    have "distinct (map fst ?kvs)" using that(2) by (simp add: comp_def)
    then have "AList.clearjunk ?kvs = ?kvs" by (rule AList.distinct_clearjunk_id)
    then show ?thesis using c [OF that(1)] by (simp add: comp_def)
  qed
  show ?thesis
    using a b c e f g h by (intro conjI impI ballI) blast+
qed


theorem saveCalculationResults_replaces_schedule_witness:
  "res_flujos (exResult\<lparr> res_flujos := [exFlow 0, exFlow 1, (exFlow 0)\<lparr> cupon := Some 99 \<rparr>] \<rparr>) \<noteq> []
   \<and> cashFlows
        (saveCalculationResults 7
           (exStoredDb\<lparr> cashFlows := [\<lparr> cf_bondId = ''cother001'', cf_data = exFlow 5 \<rparr>,
                                      \<lparr> cf_bondId = ''cbond0001'', cf_data = exFlow 5 \<rparr>] \<rparr>)
           ''cbond0001'' ''ci1''
           (exResult\<lparr> res_flujos := [exFlow 0, exFlow 1, (exFlow 0)\<lparr> cupon := Some 99 \<rparr>] \<rparr>))
      = [\<lparr> cf_bondId = ''cother001'', cf_data = exFlow 5 \<rparr>,
         \<lparr> cf_bondId = ''cbond0001'', cf_data = exFlow 0 \<rparr>,
         \<lparr> cf_bondId = ''cbond0001'', cf_data = exFlow 1 \<rparr>]
   \<and> distinct (map periodo (res_flujos exResult))
   \<and> cashFlows (saveCalculationResults 7 exStoredDb ''cbond0001'' ''ci1'' exResult) =
       [\<lparr> cf_bondId = ''cbond0001'', cf_data = exFlow 0 \<rparr>,
        \<lparr> cf_bondId = ''cbond0001'', cf_data = exFlow 1 \<rparr>]"
proof -
  let ?d = "exStoredDb\<lparr> cashFlows := [\<lparr> cf_bondId = ''cother001'', cf_data = exFlow 5 \<rparr>,
                                      \<lparr> cf_bondId = ''cbond0001'', cf_data = exFlow 5 \<rparr>] \<rparr>"
  let ?res = "exResult\<lparr> res_flujos := [exFlow 0, exFlow 1, (exFlow 0)\<lparr> cupon := Some 99 \<rparr>] \<rparr>"
  have p: "periodo (exFlow 0) = 0" "periodo (exFlow 1) = 1"
    "periodo ((exFlow 0)\<lparr> cupon := Some 99 \<rparr>) = 0"
    by (simp_all add: exFlow_def)
  have n: "res_flujos exResult = [exFlow 0, exFlow 1]"
    by (simp add: exResult_def)
  have k: "cashFlows exStoredDb = [\<lparr> cf_bondId = ''cbond0001'', cf_data = exFlow 5 \<rparr>]"
    by (simp add: exStoredDb_def)
  have a: "cashFlows (saveCalculationResults 7 ?d ''cbond0001'' ''ci1'' ?res)
      = [\<lparr> cf_bondId = ''cother001'', cf_data = exFlow 5 \<rparr>,
         \<lparr> cf_bondId = ''cbond0001'', cf_data = exFlow 0 \<rparr>,
         \<lparr> cf_bondId = ''cbond0001'', cf_data = exFlow 1 \<rparr>]"
    using saveCalculationResults_replaces_schedule [of 7 ?d "''cbond0001''" "''ci1''" ?res, THEN conjunct2, THEN conjunct2]
    by (simp add: p)
  have b: "cashFlows (saveCalculationResults 7 exStoredDb ''cbond0001'' ''ci1'' exResult) =
       [\<lparr> cf_bondId = ''cbond0001'', cf_data = exFlow 0 \<rparr>,
        \<lparr> cf_bondId = ''cbond0001'', cf_data = exFlow 1 \<rparr>]"
    using saveCalculationResults_replaces_schedule
      [of 7 exStoredDb "''cbond0001''" "''ci1''" exResult, THEN conjunct2, THEN conjunct2]
    by (simp add: p n k)
  show ?thesis using a b by (simp add: n p)
qed

text \<open>
  Claim C6 as stated fails: saving a result whose schedule is empty deletes nothing, the
  row stored before is still the only row of the bond.
\<close>

theorem saveCalculationResults_keeps_old_schedule_counterexample:
  "cashFlows exStoredDb = [\<lparr> cf_bondId = ''cbond0001'', cf_data = exFlow 5 \<rparr>]
   \<and> cashFlows (saveCalculationResults 1 exStoredDb ''cbond0001'' ''ci1'' exEmptyResult) =
       [\<lparr> cf_bondId = ''cbond0001'', cf_data = exFlow 5 \<rparr>]"
  by (simp add: saveCalculationResults_def cashFlows_activateIfDraft cashFlows_saveTransaction
      saveFlows_def exEmptyResult_def exStoredDb_def)

section \<open>Properties of a single calculation\<close>

lemma getExistingCalculation_Some:
  assumes "0 < flowsCountOf d bid"
    and "financialMetrics d (bid, EMISOR) = Some em"
    and "financialMetrics d (bid, BONISTA) = Some bm"
  shows "getExistingCalculation d bid = Some (storedResponse bid (flowsCountOf d bid) em bm)"
  using assms by (simp add: getExistingCalculation_def Let_def)

lemma getExistingCalculation_None:
  assumes "flowsCountOf d bid = 0 \<or> financialMetrics d (bid, EMISOR) = None
           \<or> financialMetrics d (bid, BONISTA) = None"
  shows "getExistingCalculation d bid = None"
  using assms by (auto simp add: getExistingCalculation_def Let_def split: option.splits)

text \<open>
  Claim C4. When a computation is started (a recalculation is asked for, or no complete
  stored calculation exists) for a bond whose nominal value or commercial value is zero or
  negative, whose term is not positive or whose annual rate is negative, the call returns
  the failure response carrying the invalid-bond error with the issues found; the
  database is as it was, so no series was repaired, no calculator was run and nothing was
  saved, and the call is not tried again.
\<close>

theorem invalid_bond_fails_before_computing:
  assumes "isCuid ev (bondId req)"
    and "bonds d (bondId req) = Some b"
    and "b_valorNominal b \<le> 0 \<or> b_valorComercial b \<le> 0 \<or> b_numAnios b \<le> 0 \<or> b_tasaAnual b < 0"
    and "recalculate req \<or> getExistingCalculation d (bondId req) = None"
  shows "\<exists>issues. issues \<noteq> []
           \<and> validateBondForCalculation b = Inl (InvalidBond issues)
           \<and> calculateBond ev now d req =
               Inr (failureResponse now (bondId req) (InvalidBond issues), d)
           \<and> (ValorNominalInvalido \<in> set issues \<longleftrightarrow> b_valorNominal b \<le> 0)
           \<and> (ValorComercialInvalido \<in> set issues \<longleftrightarrow> b_valorComercial b \<le> 0)
           \<and> (NumAniosInvalido \<in> set issues \<longleftrightarrow> b_numAnios b \<le> 0)
           \<and> (TasaAnualInvalida \<in> set issues \<longleftrightarrow> b_tasaAnual b < 0)"
proof -
  define issues where "issues =
            (if b_valorNominal b < 0 \<or> b_valorNominal b = 0 then [ValorNominalInvalido] else [])
          @ (if b_valorComercial b < 0 \<or> b_valorComercial b = 0 then [ValorComercialInvalido] else [])
          @ (if b_numAnios b \<le> 0 then [NumAniosInvalido] else [])
          @ (if b_tasaAnual b < 0 then [TasaAnualInvalida] else [])"
  have ne: "issues \<noteq> []"
    using assms(3) by (auto simp add: issues_def)
  have v: "validateBondForCalculation b = Inl (InvalidBond issues)"
    using ne by (simp add: validateBondForCalculation_def issues_def Let_def)
  have cb: "computeBond ev now d (bondId req) (saveResults req) = (Inl (InvalidBond issues), d)"
    using assms(2) v by (simp add: computeBond_def findById_def)
  have tb: "tryBlock ev now d req = (Inl (InvalidBond issues), d)"
    using assms(4) cb by (auto simp add: tryBlock_def)
  have c: "calculateBond ev now d req =
               Inr (failureResponse now (bondId req) (InvalidBond issues), d)"
    using assms(1) tb by (simp add: calculateBond_def catchBlock_def)
  have m1: "ValorNominalInvalido \<in> set issues \<longleftrightarrow> b_valorNominal b \<le> 0"
    by (auto simp add: issues_def)
  have m2: "ValorComercialInvalido \<in> set issues \<longleftrightarrow> b_valorComercial b \<le> 0"
    by (auto simp add: issues_def)
  have m3: "NumAniosInvalido \<in> set issues \<longleftrightarrow> b_numAnios b \<le> 0"
    by (auto simp add: issues_def)
  have m4: "TasaAnualInvalida \<in> set issues \<longleftrightarrow> b_tasaAnual b < 0"
    by (auto simp add: issues_def)
  from ne v c m1 m2 m3 m4 show ?thesis by blast
qed


theorem invalid_bond_fails_before_computing_witness:
  "isCuid exEnv ''cbond0001''
   \<and> bonds ((exDb exGoodInputs)\<lparr> bonds := [''cbond0001'' \<mapsto> exBond\<lparr> b_valorNominal := 0 \<rparr>] \<rparr>)
        ''cbond0001'' = Some (exBond\<lparr> b_valorNominal := 0 \<rparr>)
   \<and> b_valorNominal (exBond\<lparr> b_valorNominal := 0 \<rparr>) \<le> 0
   \<and> (\<exists>issues. calculateBond exEnv 9
          ((exDb exGoodInputs)\<lparr> bonds := [''cbond0001'' \<mapsto> exBond\<lparr> b_valorNominal := 0 \<rparr>] \<rparr>)
          \<lparr> bondId = ''cbond0001'', recalculate = True, saveResults = True \<rparr>
        = Inr (failureResponse 9 ''cbond0001'' (InvalidBond issues),
               (exDb exGoodInputs)\<lparr> bonds := [''cbond0001'' \<mapsto> exBond\<lparr> b_valorNominal := 0 \<rparr>] \<rparr>)
        \<and> ValorNominalInvalido \<in> set issues)"
proof -
  have c: "isCuid exEnv ''cbond0001''"
    by (simp add: exEnv_def zodCuid_def cuidChar_def)
  have b: "bonds ((exDb exGoodInputs)\<lparr> bonds := [''cbond0001'' \<mapsto> exBond\<lparr> b_valorNominal := 0 \<rparr>] \<rparr>)
        ''cbond0001'' = Some (exBond\<lparr> b_valorNominal := 0 \<rparr>)"
    by simp
  have v: "b_valorNominal (exBond\<lparr> b_valorNominal := 0 \<rparr>) \<le> 0"
    by simp
  show ?thesis
    using invalid_bond_fails_before_computing
      [of exEnv "\<lparr> bondId = ''cbond0001'', recalculate = True, saveResults = True \<rparr>"
        "(exDb exGoodInputs)\<lparr> bonds := [''cbond0001'' \<mapsto> exBond\<lparr> b_valorNominal := 0 \<rparr>] \<rparr>"
        "exBond\<lparr> b_valorNominal := 0 \<rparr>" 9] c b v
    by auto
qed

lemma getExistingCalculation_shape:
  assumes "getExistingCalculation d bid = Some r"
  shows "\<exists>n em bm. r = storedResponse bid n em bm"
  using assms
  by (auto simp add: getExistingCalculation_def Let_def split: option.splits if_splits)

lemma computeBond_shape:
  assumes "computeBond ev now d bid save = (Inr r, d')"
  shows "\<exists>result. r = formatCalculationResponse bid result"
  using assms
  by (auto simp add: computeBond_def calculateAndSave_def
      split: option.splits sum.splits prod.splits if_splits)

lemma tryBlock_success:
  assumes "tryBlock ev now d req = (Inr r, d')"
  shows "r_success r \<and> r_errors r = None \<and> r_bondId r = bondId req"
proof -
  consider (stored) n em bm where "r = storedResponse (bondId req) n em bm"
    | (computed) result where "r = formatCalculationResponse (bondId req) result"
    using assms getExistingCalculation_shape [of d "bondId req"]
      computeBond_shape [of ev now d "bondId req" "saveResults req" r d']
    by (auto simp add: tryBlock_def split: if_splits option.splits)
  then show ?thesis
  proof cases
    case stored
    then show ?thesis by (simp add: storedResponse_def)
  next
    case computed
    then show ?thesis by (simp add: formatCalculationResponse_def Let_def)
  qed
qed

lemma getEmptyMetrics_zero: "metricsAllZero getEmptyMetrics"
  by (simp add: metricsAllZero_def getEmptyMetrics_def)

text \<open>
  Claim C8. For a request whose bond id passes the schema, \<^verbatim>\<open>calculateBond\<close> returns a
  response and throws nothing to the caller. When the \<^verbatim>\<open>try\<close> block ends with an error,
  the response has \<^verbatim>\<open>success = false\<close>, the time of the call as its date, every metric of
  both roles equal to zero, \<^verbatim>\<open>flowsCount = 0\<close> and an errors array holding that error;
  otherwise it is the response of the \<^verbatim>\<open>try\<close> block, a success without errors. So every
  response that is not a success has all metrics zero, no flows and the error of the
  \<^verbatim>\<open>try\<close> block in its errors array; a recalculation for a bond that does not exist, for
  one, returns the failure that carries the not-found error.
\<close>

theorem calculateBond_never_throws:
  assumes "isCuid ev (bondId req)"
  shows "\<exists>r d'. calculateBond ev now d req = Inr (r, d')
           \<and> d' = snd (tryBlock ev now d req)
           \<and> r_bondId r = bondId req
           \<and> (case fst (tryBlock ev now d req) of
                Inl e \<Rightarrow>
                  r = \<lparr> r_bondId = bondId req, r_success = False, r_calculatedAt = Some now,
                        r_metricas =
                          \<lparr> emisor = \<lparr> e_precioActual = 0, e_van = 0, e_tceaEmisor = 0,
                                       e_tceaEmisorConEscudo = 0, e_duracion = 0,
                                       e_duracionModificada = 0, e_convexidad = 0,
                                       e_totalRatiosDecision = 0 \<rparr>,
                            bonista = \<lparr> bo_precioActual = 0, bo_van = 0, bo_treaBonista = 0,
                                        bo_duracion = 0, bo_duracionModificada = 0,
                                        bo_convexidad = 0, bo_totalRatiosDecision = 0 \<rparr> \<rparr>,
                        r_flowsCount = 0, r_errors = Some [e] \<rparr>
              | Inr r' \<Rightarrow> r = r' \<and> r_success r \<and> r_errors r = None)
           \<and> (\<not> r_success r \<longrightarrow>
                metricsAllZero (r_metricas r) \<and> r_flowsCount r = 0
                \<and> (\<exists>e. fst (tryBlock ev now d req) = Inl e \<and> r_errors r = Some [e]))
           \<and> (recalculate req \<and> bonds d (bondId req) = None \<longrightarrow>
                r_success r = False \<and> r_errors r = Some [BondNotFound (bondId req)])"
proof (cases "tryBlock ev now d req")
  case (Pair x d')
  show ?thesis
  proof (cases x)
    case (Inl e)
    have nf: "e = BondNotFound (bondId req)"
      if "recalculate req \<and> bonds d (bondId req) = None"
      using that Pair Inl by (simp add: tryBlock_def computeBond_def findById_def)
    have z: "metricsAllZero getEmptyMetrics"
      by (rule getEmptyMetrics_zero)
    have c: "calculateBond ev now d req = Inr (failureResponse now (bondId req) e, d')"
      using assms Pair Inl by (simp add: calculateBond_def catchBlock_def)
    show ?thesis
      using c Pair Inl z nf
      by (auto simp add: failureResponse_def getEmptyMetrics_def)
  next
    case (Inr r)
    then have s: "r_success r \<and> r_errors r = None \<and> r_bondId r = bondId req"
      using Pair tryBlock_success [of ev now d req r d'] by simp
    have nf: "\<not> (recalculate req \<and> bonds d (bondId req) = None)"
    proof
      assume "recalculate req \<and> bonds d (bondId req) = None"
      then have "tryBlock ev now d req = (Inl (BondNotFound (bondId req)), d)"
        by (simp add: tryBlock_def computeBond_def findById_def)
      then show False using Pair Inr by simp
    qed
    have c: "calculateBond ev now d req = Inr (r, d')"
      using assms Pair Inr by (simp add: calculateBond_def catchBlock_def)
    show ?thesis
      using c Pair Inr s nf by auto
  qed
qed

theorem calculateBond_never_throws_witness:
  "isCuid exEnv ''cmissing01''
   \<and> bonds (exDb exGoodInputs) ''cmissing01'' = None
   \<and> (\<exists>r d'. calculateBond exEnv 9 (exDb exGoodInputs)
                \<lparr> bondId = ''cmissing01'', recalculate = True, saveResults = True \<rparr> = Inr (r, d')
        \<and> r_success r = False \<and> r_errors r = Some [BondNotFound ''cmissing01'']
        \<and> metricsAllZero (r_metricas r) \<and> r_flowsCount r = 0)"
proof -
  have c: "isCuid exEnv ''cmissing01''"
    by (simp add: exEnv_def zodCuid_def cuidChar_def)
  have b: "bonds (exDb exGoodInputs) ''cmissing01'' = None"
    by (simp add: exDb_def)
  show ?thesis
    using calculateBond_never_throws
      [of exEnv "\<lparr> bondId = ''cmissing01'', recalculate = True, saveResults = True \<rparr>" 9
        "exDb exGoodInputs"] c b
    by auto
qed

section \<open>Properties of the series\<close>

lemma arrayFill_Inr:
  assumes "arrayFill n v = Inr xs"
  shows "xs = replicate (nat n) v \<and> 0 \<le> n \<and> int (length xs) = n"
  using assms by (auto simp add: arrayFill_def split: if_splits)

lemma arrayFill_ok:
  assumes "0 \<le> n" and "n < 4294967296"
  shows "arrayFill n v = Inr (replicate (nat n) v)"
  using assms by (simp add: arrayFill_def)

lemma repairInflacion_Inr:
  assumes "repairInflacion n cur = Inr xs"
  shows "int (length xs) = n \<and> list_all isFiniteNumber xs"
proof (cases "\<exists>ys. cur = JArr ys \<and> \<not> needsDefault n ys")
  case True
  then obtain ys where c: "cur = JArr ys" and nd: "\<not> needsDefault n ys" by blast
  then have "xs = map (\<lambda>item. if isFiniteNumber item then item else defaultInflacion) ys"
    using assms by (simp add: repairInflacion_def)
  moreover have "int (length ys) = n"
    using nd by (simp add: needsDefault_def)
  ultimately show ?thesis
    by (auto simp add: list_all_iff isFiniteNumber_def defaultInflacion_def)
next
  case False
  then have "arrayFill n defaultInflacion = Inr xs"
    using assms by (auto simp add: repairInflacion_def split: json.splits if_splits)
  then have "xs = replicate (nat n) defaultInflacion \<and> 0 \<le> n \<and> int (length xs) = n"
    by (rule arrayFill_Inr)
  then show ?thesis
    by (simp add: list_all_iff isFiniteNumber_def defaultInflacion_def)
qed

lemma repairGracia_Inr:
  assumes "repairGracia n cur = Inr xs"
  shows "int (length xs) = n \<and> list_all isGraceCode xs"
proof (cases "\<exists>ys. cur = JArr ys \<and> \<not> needsDefault n ys")
  case True
  then obtain ys where c: "cur = JArr ys" and nd: "\<not> needsDefault n ys" by blast
  then have "xs = map (\<lambda>item. if isGraceCode item then item else defaultGracia) ys"
    using assms by (simp add: repairGracia_def)
  moreover have "int (length ys) = n"
    using nd by (simp add: needsDefault_def)
  ultimately show ?thesis
    by (auto simp add: list_all_iff isGraceCode_def defaultGracia_def)
next
  case False
  then have "arrayFill n defaultGracia = Inr xs"
    using assms by (auto simp add: repairGracia_def split: json.splits if_splits)
  then have "xs = replicate (nat n) defaultGracia \<and> 0 \<le> n \<and> int (length xs) = n"
    by (rule arrayFill_Inr)
  then show ?thesis
    by (simp add: list_all_iff isGraceCode_def defaultGracia_def)
qed

lemma repairInflacion_total:
  assumes "0 \<le> n" and "n < 4294967296"
  shows "\<exists>xs. repairInflacion n cur = Inr xs"
  using assms by (simp add: repairInflacion_def arrayFill_def split: json.splits)

lemma repairGracia_total:
  assumes "0 \<le> n" and "n < 4294967296"
  shows "\<exists>xs. repairGracia n cur = Inr xs"
  using assms by (simp add: repairGracia_def arrayFill_def split: json.splits)

lemma repairInconsistentSeries_Inr:
  assumes "repairInconsistentSeries d bid n = Inr d'"
  shows "\<exists>rec infl gra. calculationInputs d bid = Some rec
           \<and> repairInflacion n (cin_inflacionSerie rec) = Inr infl
           \<and> repairGracia n (cin_graciaSerie rec) = Inr gra
           \<and> d' = d\<lparr> calculationInputs := (calculationInputs d)(bid \<mapsto>
                      rec\<lparr> cin_inflacionSerie := JArr infl, cin_graciaSerie := JArr gra \<rparr>) \<rparr>"
  using assms
  by (auto simp add: repairInconsistentSeries_def split: option.splits sum.splits)

lemma repairInconsistentSeries_ok:
  assumes "calculationInputs d bid = Some rec"
    and "repairInflacion n (cin_inflacionSerie rec) = Inr infl"
    and "repairGracia n (cin_graciaSerie rec) = Inr gra"
  shows "repairInconsistentSeries d bid n =
           Inr (d\<lparr> calculationInputs := (calculationInputs d)(bid \<mapsto>
                      rec\<lparr> cin_inflacionSerie := JArr infl, cin_graciaSerie := JArr gra \<rparr>) \<rparr>)"
  using assms by (simp add: repairInconsistentSeries_def)

lemma repairAndReload_Inr:
  assumes "repairAndReload d b c = (Inr inputs, d')"
  shows "\<exists>rec infl gra. calculationInputs d (b_id b) = Some rec
           \<and> repairInflacion (b_numAnios b) (cin_inflacionSerie rec) = Inr infl
           \<and> repairGracia (b_numAnios b) (cin_graciaSerie rec) = Inr gra
           \<and> d' = d\<lparr> calculationInputs := (calculationInputs d)(b_id b \<mapsto>
                      rec\<lparr> cin_inflacionSerie := JArr infl, cin_graciaSerie := JArr gra \<rparr>) \<rparr>
           \<and> inputs = mkInputs (cin_id rec) b c infl gra"
proof -
  obtain d1 where r: "repairInconsistentSeries d (b_id b) (b_numAnios b) = Inr d1"
    using assms by (auto simp add: repairAndReload_def split: sum.splits)
  then obtain rec infl gra where
    h: "calculationInputs d (b_id b) = Some rec"
       "repairInflacion (b_numAnios b) (cin_inflacionSerie rec) = Inr infl"
       "repairGracia (b_numAnios b) (cin_graciaSerie rec) = Inr gra"
       "d1 = d\<lparr> calculationInputs := (calculationInputs d)(b_id b \<mapsto>
                      rec\<lparr> cin_inflacionSerie := JArr infl, cin_graciaSerie := JArr gra \<rparr>) \<rparr>"
    using repairInconsistentSeries_Inr [of d "b_id b" "b_numAnios b" d1] by blast
  have "repairAndReload d b c = (Inr (mkInputs (cin_id rec) b c infl gra), d1)"
    using r h(4) by (simp add: repairAndReload_def asArray_def)
  then show ?thesis using assms h by auto
qed

lemma repairAndReload_Inl:
  assumes "repairAndReload d b c = (Inl e, d')"
  shows "d' = d"
proof (cases "repairInconsistentSeries d (b_id b) (b_numAnios b)")
  case (Inl x)
  then show ?thesis using assms by (simp add: repairAndReload_def)
next
  case (Inr d1)
  then obtain rec infl gra where
       "d1 = d\<lparr> calculationInputs := (calculationInputs d)(b_id b \<mapsto>
                      rec\<lparr> cin_inflacionSerie := JArr infl, cin_graciaSerie := JArr gra \<rparr>) \<rparr>"
    using repairInconsistentSeries_Inr [of d "b_id b" "b_numAnios b" d1] by blast
  then have "fst (repairAndReload d b c) = Inr (mkInputs (cin_id rec) b c infl gra)"
    using Inr by (simp add: repairAndReload_def asArray_def)
  then show ?thesis using assms by simp
qed

lemma firstInvalid_None:
  "firstInvalid ok xs = None \<longleftrightarrow> list_all ok xs"
proof -
  have "snd ` set (enumerate 0 xs) = set xs"
    by (metis map_snd_enumerate set_map)
  then have "(\<forall>ix \<in> set (enumerate 0 xs). ok (snd ix)) \<longleftrightarrow> (\<forall>x \<in> set xs. ok x)"
    by (metis (no_types, lifting) image_iff)
  then show ?thesis
    by (auto simp add: firstInvalid_def find_None_iff list_all_iff)
qed

lemma validatedSeries_Inr:
  assumes "validatedSeries bid ri rg = Inr series"
  shows "ri = JArr (fst series) \<and> rg = JArr (snd series)
         \<and> list_all isFiniteNumber (fst series) \<and> list_all isGraceCode (snd series)"
proof -
  obtain xs where x: "ri = JArr xs"
    using assms by (cases ri) (simp_all add: validatedSeries_def)
  have fx: "firstInvalid isFiniteNumber xs = None"
    using assms x by (cases "firstInvalid isFiniteNumber xs") (simp_all add: validatedSeries_def)
  obtain ys where y: "rg = JArr ys"
    using assms x fx by (cases rg) (simp_all add: validatedSeries_def)
  have fy: "firstInvalid isGraceCode ys = None"
    using assms x fx y by (cases "firstInvalid isGraceCode ys") (simp_all add: validatedSeries_def)
  have "series = (xs, ys)"
    using assms x fx y fy by (simp add: validatedSeries_def)
  then show ?thesis
    using x y fx fy by (simp add: firstInvalid_None)
qed

lemma parseIfString_JArr: "parseIfString parse (JArr xs) = JArr xs"
  by (simp add: parseIfString_def)

lemma not_corrupt_finite:
  assumes "list_all isFiniteNumber xs"
  shows "\<not> list_ex isCorruptItem xs"
  using assms
  by (auto simp add: list_all_iff list_ex_iff isFiniteNumber_def isCorruptItem_def
      split: json.splits)

lemma not_corrupt_grace:
  assumes "list_all isGraceCode xs"
  shows "\<not> list_ex isCorruptItem xs"
  using assms
  by (auto simp add: list_all_iff list_ex_iff isGraceCode_def isCorruptItem_def)

text \<open>A record whose series are well formed is converted as it is.\<close>

lemma convert_wellformed:
  assumes "b_costs b = Some c"
    and "calculationInputs d (b_id b) = Some rec"
    and "parseIfString (jsonParse ev) (cin_inflacionSerie rec) = JArr infl"
    and "parseIfString (jsonParse ev) (cin_graciaSerie rec) = JArr gra"
    and "int (length infl) = b_numAnios b" and "int (length gra) = b_numAnios b"
    and "list_all isFiniteNumber infl" and "list_all isGraceCode gra"
  shows "convertBondToCalculationInputs ev d b = (Inr (mkInputs (cin_id rec) b c infl gra), d)"
proof -
  have nr: "\<not> needsRepair (b_numAnios b) (JArr infl) (JArr gra)"
    using assms(5-8) not_corrupt_finite [of infl] not_corrupt_grace [of gra]
    by (simp add: needsRepair_def hasCorrupt_def wrongLength_def isArray_def)
  have fi: "firstInvalid isFiniteNumber infl = None"
    using assms(7) by (simp add: firstInvalid_None)
  have fg: "firstInvalid isGraceCode gra = None"
    using assms(8) by (simp add: firstInvalid_None)
  have vs: "validatedSeries (b_id b) (JArr infl) (JArr gra) = Inr (infl, gra)"
    by (simp add: validatedSeries_def fi fg)
  show ?thesis
    using assms(1-4) nr vs by (simp add: convertBondToCalculationInputs_def)
qed

text \<open>The shape of every successful conversion, read off the database it leaves.\<close>

lemma convert_Inr:
  assumes "convertBondToCalculationInputs ev d b = (Inr inputs, d')"
  obtains c and rec :: calc_inputs_row and infl gra where
    "b_costs b = Some c"
    and "calculationInputs d' (b_id b) = Some rec"
    and "parseIfString (jsonParse ev) (cin_inflacionSerie rec) = JArr infl"
    and "parseIfString (jsonParse ev) (cin_graciaSerie rec) = JArr gra"
    and "inputs = mkInputs (cin_id rec) b c infl gra"
    and "int (length infl) = b_numAnios b" and "int (length gra) = b_numAnios b"
    and "list_all isFiniteNumber infl" and "list_all isGraceCode gra"
    and "bonds d' = bonds d" and "cashFlows d' = cashFlows d"
    and "financialMetrics d' = financialMetrics d"
    and "calculationResults d' = calculationResults d"
proof -
  obtain c where c: "b_costs b = Some c"
    using assms by (cases "b_costs b") (simp_all add: convertBondToCalculationInputs_def)
  obtain rec0 where r0: "calculationInputs d (b_id b) = Some rec0"
    using assms c
    by (cases "calculationInputs d (b_id b)") (simp_all add: convertBondToCalculationInputs_def)
  define ri where "ri = parseIfString (jsonParse ev) (cin_inflacionSerie rec0)"
  define rg where "rg = parseIfString (jsonParse ev) (cin_graciaSerie rec0)"
  show ?thesis
  proof (cases "needsRepair (b_numAnios b) ri rg")
    case True
    then have "repairAndReload d b c = (Inr inputs, d')"
      using assms c r0 by (simp add: convertBondToCalculationInputs_def ri_def rg_def)
    then obtain rec :: calc_inputs_row and infl gra where
      h1: "repairInflacion (b_numAnios b) (cin_inflacionSerie rec) = Inr infl"
      and h2: "repairGracia (b_numAnios b) (cin_graciaSerie rec) = Inr gra"
      and h3: "d' = d\<lparr> calculationInputs := (calculationInputs d)(b_id b \<mapsto>
                      rec\<lparr> cin_inflacionSerie := JArr infl, cin_graciaSerie := JArr gra \<rparr>) \<rparr>"
      and h4: "inputs = mkInputs (cin_id rec) b c infl gra"
      using repairAndReload_Inr [of d b c inputs d'] by blast
    have li: "int (length infl) = b_numAnios b \<and> list_all isFiniteNumber infl"
      using h1 by (rule repairInflacion_Inr)
    have lg: "int (length gra) = b_numAnios b \<and> list_all isGraceCode gra"
      using h2 by (rule repairGracia_Inr)
    define rec' where "rec' = rec\<lparr> cin_inflacionSerie := JArr infl, cin_graciaSerie := JArr gra \<rparr>"
    have f2: "calculationInputs d' (b_id b) = Some rec'"
      using h3 by (simp add: rec'_def)
    have f3: "parseIfString (jsonParse ev) (cin_inflacionSerie rec') = JArr infl"
      by (simp add: rec'_def parseIfString_JArr)
    have f4: "parseIfString (jsonParse ev) (cin_graciaSerie rec') = JArr gra"
      by (simp add: rec'_def parseIfString_JArr)
    have f5: "inputs = mkInputs (cin_id rec') b c infl gra"
      using h4 by (simp add: rec'_def)
    have g1: "bonds d' = bonds d" using h3 by simp
    have g2: "cashFlows d' = cashFlows d" using h3 by simp
    have g3: "financialMetrics d' = financialMetrics d" using h3 by simp
    have g4: "calculationResults d' = calculationResults d" using h3 by simp
    show ?thesis
      by (rule that [OF c f2 f3 f4 f5 conjunct1 [OF li] conjunct1 [OF lg]
            conjunct2 [OF li] conjunct2 [OF lg] g1 g2 g3 g4])
  next
    case False
    obtain series where v: "validatedSeries (b_id b) ri rg = Inr series"
      using assms c r0 False
      by (cases "validatedSeries (b_id b) ri rg")
        (simp_all add: convertBondToCalculationInputs_def ri_def rg_def)
    have i: "inputs = mkInputs (cin_id rec0) b c (fst series) (snd series)"
      using assms c r0 False v
      by (simp add: convertBondToCalculationInputs_def ri_def rg_def)
    have dd: "d' = d"
      using assms c r0 False v
      by (simp add: convertBondToCalculationInputs_def ri_def rg_def)
    have s: "ri = JArr (fst series) \<and> rg = JArr (snd series)
         \<and> list_all isFiniteNumber (fst series) \<and> list_all isGraceCode (snd series)"
      using v by (rule validatedSeries_Inr)
    have w1: "\<not> wrongLength (b_numAnios b) (JArr (fst series))"
      using False s by (simp add: needsRepair_def)
    have w2: "\<not> wrongLength (b_numAnios b) (JArr (snd series))"
      using False s by (simp add: needsRepair_def)
    have l1: "int (length (fst series)) = b_numAnios b"
      using w1 by (simp add: wrongLength_def)
    have l2: "int (length (snd series)) = b_numAnios b"
      using w2 by (simp add: wrongLength_def)
    have f2: "calculationInputs d' (b_id b) = Some rec0" using r0 dd by simp
    have f3: "parseIfString (jsonParse ev) (cin_inflacionSerie rec0) = JArr (fst series)"
      using s by (simp add: ri_def)
    have f4: "parseIfString (jsonParse ev) (cin_graciaSerie rec0) = JArr (snd series)"
      using s by (simp add: rg_def)
    have a1: "list_all isFiniteNumber (fst series)" using s by simp
    have a2: "list_all isGraceCode (snd series)" using s by simp
    have g1: "bonds d' = bonds d" using dd by simp
    have g2: "cashFlows d' = cashFlows d" using dd by simp
    have g3: "financialMetrics d' = financialMetrics d" using dd by simp
    have g4: "calculationResults d' = calculationResults d" using dd by simp
    show ?thesis
      by (rule that [OF c f2 f3 f4 i l1 l2 a1 a2 g1 g2 g3 g4])
  qed
qed

lemma convert_Inl:
  assumes "convertBondToCalculationInputs ev d b = (Inl e, d')"
  shows "d' = d"
proof (cases "b_costs b")
  case None
  then show ?thesis using assms by (simp add: convertBondToCalculationInputs_def)
next
  case (Some c)
  show ?thesis
  proof (cases "calculationInputs d (b_id b)")
    case None
    then show ?thesis using assms Some by (simp add: convertBondToCalculationInputs_def)
  next
    case (Some rec)
    define ri where "ri = parseIfString (jsonParse ev) (cin_inflacionSerie rec)"
    define rg where "rg = parseIfString (jsonParse ev) (cin_graciaSerie rec)"
    show ?thesis
    proof (cases "needsRepair (b_numAnios b) ri rg")
      case True
      then have "repairAndReload d b c = (Inl e, d')"
        using assms \<open>b_costs b = Some c\<close> Some
        by (simp add: convertBondToCalculationInputs_def ri_def rg_def)
      then show ?thesis by (rule repairAndReload_Inl)
    next
      case False
      then show ?thesis
        using assms \<open>b_costs b = Some c\<close> Some
        by (cases "validatedSeries (b_id b) ri rg")
          (simp_all add: convertBondToCalculationInputs_def ri_def rg_def)
    qed
  qed
qed

lemma convert_consistent:
  assumes "convertBondToCalculationInputs ev d b = (Inr inputs, d')"
  shows "seriesConsistent inputs"
proof -
  obtain c and rec :: calc_inputs_row and infl gra where
    "inputs = mkInputs (cin_id rec) b c infl gra"
    "int (length infl) = b_numAnios b" "int (length gra) = b_numAnios b"
    using assms by (rule convert_Inr)
  then show ?thesis by (simp add: seriesConsistent_def mkInputs_def)
qed

lemma convert_jsonParse:
  assumes "jsonParse ev' = jsonParse ev"
  shows "convertBondToCalculationInputs ev' d b = convertBondToCalculationInputs ev d b"
  unfolding convertBondToCalculationInputs_def assms by (rule refl)

lemma length_applyGrace: "length (applyGrace n g config) = length g"
  by (simp add: applyGrace_def Let_def)

lemma length_foldl_applyGrace: "length (foldl (applyGrace n) g configs) = length g"
  by (induction configs arbitrary: g) (simp_all add: length_applyGrace)

lemma buildCalculationInputs_lengths:
  assumes "buildCalculationInputs parseInt parseFloat bondData = Inr inputs"
  shows "int (length (ui_inflacionSerie inputs)) = ui_numAnios inputs
         \<and> int (length (ui_graciaSerie inputs)) = ui_numAnios inputs"
proof -
  obtain n where n: "parseInt (orElse (step1_numAnios bondData) ''5'') = Some n"
    using assms
    by (cases "parseInt (orElse (step1_numAnios bondData) ''5'')")
      (simp_all add: buildCalculationInputs_def)
  obtain infl where i: "arrayFill n (parseFloat (orElse (step2_inflacionAnual bondData) ''0.10'')) = Inr infl"
    using assms n
    by (cases "arrayFill n (parseFloat (orElse (step2_inflacionAnual bondData) ''0.10''))")
      (simp_all add: buildCalculationInputs_def)
  obtain g where g: "arrayFill n GraceS = Inr g"
    using assms n i
    by (cases "arrayFill n GraceS") (simp_all add: buildCalculationInputs_def)
  have li: "int (length infl) = n" using arrayFill_Inr [OF i] by simp
  have lg: "int (length g) = n" using arrayFill_Inr [OF g] by simp
  have "inputs = \<lparr> ui_numAnios = n, ui_inflacionSerie = infl,
                   ui_graciaSerie = (case step2_gracePeriodsConfig bondData of
                               None \<Rightarrow> g
                             | Some configs \<Rightarrow> foldl (applyGrace n) g configs) \<rparr>"
    using assms n i g by (simp add: buildCalculationInputs_def)
  then show ?thesis
    using li lg by (simp add: length_foldl_applyGrace split: option.splits)
qed

lemma computeBond_calculator:
  assumes "jsonParse ev' = jsonParse ev"
    and "\<forall>i. seriesConsistent i \<longrightarrow> calculate ev' i = calculate ev i"
  shows "computeBond ev' now d bid save = computeBond ev now d bid save"
proof (cases "findById d bid")
  case None
  then show ?thesis by (simp add: computeBond_def)
next
  case (Some b)
  show ?thesis
  proof (cases "validateBondForCalculation b")
    case (Inl e)
    then show ?thesis using Some by (simp add: computeBond_def)
  next
    case (Inr u)
    obtain x dc where cv: "convertBondToCalculationInputs ev d b = (x, dc)"
      by (cases "convertBondToCalculationInputs ev d b")
    then have cv': "convertBondToCalculationInputs ev' d b = (x, dc)"
      using convert_jsonParse [OF assms(1), of d b] by simp
    show ?thesis
    proof (cases x)
      case (Inl e)
      then show ?thesis using Some Inr cv cv' by (simp add: computeBond_def)
    next
      case (Inr inputs)
      then have "seriesConsistent inputs"
        using cv convert_consistent by blast
      then have "calculate ev' inputs = calculate ev inputs"
        using assms(2) by simp
      then show ?thesis
        using Some \<open>validateBondForCalculation b = Inr u\<close> Inr cv cv'
        by (simp add: computeBond_def calculateAndSave_def)
    qed
  qed
qed

lemma quickBody_calculator:
  assumes "jsonParse ev' = jsonParse ev"
    and "\<forall>i. seriesConsistent i \<longrightarrow> calculateQuick ev' i = calculateQuick ev i"
  shows "quickBody ev' now d bid = quickBody ev now d bid"
proof (cases "findById d bid")
  case None
  then show ?thesis by (simp add: quickBody_def)
next
  case (Some b)
  obtain x dc where cv: "convertBondToCalculationInputs ev d b = (x, dc)"
    by (cases "convertBondToCalculationInputs ev d b")
  then have cv': "convertBondToCalculationInputs ev' d b = (x, dc)"
    using convert_jsonParse [OF assms(1), of d b] by simp
  show ?thesis
  proof (cases x)
    case (Inl e)
    then show ?thesis using Some cv cv' by (simp add: quickBody_def)
  next
    case (Inr inputs)
    then have "seriesConsistent inputs"
      using cv convert_consistent by blast
    then have "calculateQuick ev' inputs = calculateQuick ev inputs"
      using assms(2) by simp
    then show ?thesis
      using Some Inr cv cv' by (simp add: quickBody_def cong: prod.case_cong sum.case_cong)
  qed
qed

lemma validateSeriesConsistency_passes:
  assumes "validateSeriesConsistency d bid inputs = (Inr u, d')"
  shows "seriesConsistent inputs \<and> d' = d"
proof -
  have "seriesIssues inputs = []"
    using assms
    by (cases "seriesIssues inputs = []")
      (auto simp add: validateSeriesConsistency_def Let_def split: sum.splits)
  then have "seriesConsistent inputs"
    by (auto simp add: seriesIssues_def seriesConsistent_def Let_def split: if_splits)
  moreover have "d' = d"
    using assms \<open>seriesIssues inputs = []\<close> by (simp add: validateSeriesConsistency_def)
  ultimately show ?thesis by simp
qed

text \<open>
  Claim C5. Both series of every calculation input have as many elements as the term has
  years. The builder of the form returns, whenever it returns, series of exactly
  \<open>numAnios\<close> elements. The service checks the stored series against the term before it
  computes: every input that \<^verbatim>\<open>convertBondToCalculationInputs\<close> returns, and every input
  that \<^verbatim>\<open>validateSeriesConsistency\<close> lets through, satisfies the invariant. The calculator
  is run on such inputs only: replacing it by one that agrees with it on the inputs that
  satisfy the invariant changes neither \<^verbatim>\<open>calculateBond\<close> nor \<^verbatim>\<open>calculateQuickMetrics\<close>.
\<close>

theorem series_lengths_match_term:
  "(\<forall>parseInt parseFloat bondData (inputs :: 'n ui_inputs).
      buildCalculationInputs parseInt parseFloat bondData = Inr inputs \<longrightarrow>
        int (length (ui_inflacionSerie inputs)) = ui_numAnios inputs
        \<and> int (length (ui_graciaSerie inputs)) = ui_numAnios inputs)
   \<and> (\<forall>ev d b inputs d'.
        convertBondToCalculationInputs ev d b = (Inr inputs, d') \<longrightarrow> seriesConsistent inputs)
   \<and> (\<forall>d bid inputs u d'.
        validateSeriesConsistency d bid inputs = (Inr u, d') \<longrightarrow> seriesConsistent inputs)
   \<and> (\<forall>ev ev' now d req.
        isCuid ev' = isCuid ev \<and> jsonParse ev' = jsonParse ev
        \<and> (\<forall>i. seriesConsistent i \<longrightarrow> calculate ev' i = calculate ev i) \<longrightarrow>
          calculateBond ev' now d req = calculateBond ev now d req)
   \<and> (\<forall>ev ev' now d bid.
        jsonParse ev' = jsonParse ev
        \<and> (\<forall>i. seriesConsistent i \<longrightarrow> calculateQuick ev' i = calculateQuick ev i) \<longrightarrow>
          calculateQuickMetrics ev' now d bid = calculateQuickMetrics ev now d bid)"
proof (intro conjI allI impI)
  fix parseInt parseFloat bondData and inputs :: "'n ui_inputs"
  assume "buildCalculationInputs parseInt parseFloat bondData = Inr inputs"
  then have "int (length (ui_inflacionSerie inputs)) = ui_numAnios inputs
         \<and> int (length (ui_graciaSerie inputs)) = ui_numAnios inputs"
    by (rule buildCalculationInputs_lengths)
  then show "int (length (ui_inflacionSerie inputs)) = ui_numAnios inputs"
    and "int (length (ui_graciaSerie inputs)) = ui_numAnios inputs"
    by simp_all
next
  fix ev d b inputs d'
  assume "convertBondToCalculationInputs ev d b = (Inr inputs, d')"
  then show "seriesConsistent inputs" by (rule convert_consistent)
next
  fix d bid inputs u d'
  assume "validateSeriesConsistency d bid inputs = (Inr u, d')"
  then show "seriesConsistent inputs"
    using validateSeriesConsistency_passes by blast
next
  fix ev ev' :: env and now d and req :: request
  assume h: "isCuid ev' = isCuid ev \<and> jsonParse ev' = jsonParse ev
        \<and> (\<forall>i. seriesConsistent i \<longrightarrow> calculate ev' i = calculate ev i)"
  then have "computeBond ev' now d (bondId req) (saveResults req)
               = computeBond ev now d (bondId req) (saveResults req)"
    using computeBond_calculator by blast
  then have "tryBlock ev' now d req = tryBlock ev now d req"
    by (cases "getExistingCalculation d (bondId req)") (simp_all add: tryBlock_def)
  then show "calculateBond ev' now d req = calculateBond ev now d req"
    using h by (simp add: calculateBond_def)
next
  fix ev ev' :: env and now d bid
  assume h: "jsonParse ev' = jsonParse ev
        \<and> (\<forall>i. seriesConsistent i \<longrightarrow> calculateQuick ev' i = calculateQuick ev i)"
  then have "quickBody ev' now d bid = quickBody ev now d bid"
    using quickBody_calculator by blast
  then show "calculateQuickMetrics ev' now d bid = calculateQuickMetrics ev now d bid"
    by (simp add: calculateQuickMetrics_def)
qed

lemma exBuild:
  "buildCalculationInputs (\<lambda>s. Some 3) (\<lambda>s. (1::rat))
       \<lparr> step1_numAnios = Some ''3'', step2_inflacionAnual = None,
         step2_gracePeriodsConfig = Some [\<lparr> couponNumber = 3, graceType = GraceT \<rparr>] \<rparr>
     = Inr \<lparr> ui_numAnios = 3, ui_inflacionSerie = [1, 1, 1],
             ui_graciaSerie = [GraceS, GraceT, GraceS] \<rparr>"
  by (simp add: buildCalculationInputs_def arrayFill_def applyGrace_def orElse_def
      eval_nat_numeral)

lemma exRepair:
  "repairInconsistentSeries (exDb exShortInputs) ''cbond0001'' 2 =
     Inr (exDb (exShortInputs\<lparr> cin_inflacionSerie := JArr [JNum (3 / 100), JNum (3 / 100)] \<rparr>))"
  by (simp add: repairInconsistentSeries_def exDb_def exShortInputs_def repairInflacion_def
      repairGracia_def needsDefault_def arrayFill_def isCorruptItem_def isGraceCode_def
      defaultInflacion_def defaultGracia_def eval_nat_numeral)

lemma exNeedsRepair:
  "needsRepair 2 (parseIfString (jsonParse exEnv) (cin_inflacionSerie exShortInputs))
     (parseIfString (jsonParse exEnv) (cin_graciaSerie exShortInputs))"
  by (simp add: needsRepair_def parseIfString_def exShortInputs_def wrongLength_def)

lemma exConvert:
  "convertBondToCalculationInputs exEnv (exDb exShortInputs) exBond =
     (Inr (mkInputs ''ci1'' exBond exCosts [JNum (3 / 100), JNum (3 / 100)]
             [JStr ''S'', JStr ''P'']),
      exDb (exShortInputs\<lparr> cin_inflacionSerie := JArr [JNum (3 / 100), JNum (3 / 100)] \<rparr>))"
proof -
  have i: "b_id exBond = ''cbond0001''" and n: "b_numAnios exBond = 2"
    and c: "b_costs exBond = Some exCosts"
    by (simp_all add: exBond_def)
  have r: "calculationInputs (exDb exShortInputs) ''cbond0001'' = Some exShortInputs"
    by (simp add: exDb_def)
  have rr: "repairAndReload (exDb exShortInputs) exBond exCosts =
     (Inr (mkInputs ''ci1'' exBond exCosts [JNum (3 / 100), JNum (3 / 100)]
             [JStr ''S'', JStr ''P'']),
      exDb (exShortInputs\<lparr> cin_inflacionSerie := JArr [JNum (3 / 100), JNum (3 / 100)] \<rparr>))"
    by (simp add: repairAndReload_def i n exRepair)
      (simp add: exDb_def exShortInputs_def asArray_def)
  show ?thesis
    using exNeedsRepair by (simp add: convertBondToCalculationInputs_def i n c r rr)
qed


theorem series_lengths_match_term_witness:
  "buildCalculationInputs (\<lambda>s. Some 3) (\<lambda>s. (1::rat))
       \<lparr> step1_numAnios = Some ''3'', step2_inflacionAnual = None,
         step2_gracePeriodsConfig = Some [\<lparr> couponNumber = 3, graceType = GraceT \<rparr>] \<rparr>
     = Inr \<lparr> ui_numAnios = 3, ui_inflacionSerie = [1, 1, 1],
             ui_graciaSerie = [GraceS, GraceT, GraceS] \<rparr>
   \<and> int (length [1, 1, 1 :: rat]) = 3 \<and> int (length [GraceS, GraceT, GraceS]) = 3
   \<and> fst (convertBondToCalculationInputs exEnv (exDb exShortInputs) exBond)
       = Inr (mkInputs ''ci1'' exBond exCosts [JNum (3 / 100), JNum (3 / 100)]
               [JStr ''S'', JStr ''P''])
   \<and> seriesConsistent (mkInputs ''ci1'' exBond exCosts [JNum (3 / 100), JNum (3 / 100)]
               [JStr ''S'', JStr ''P''])"
proof -
  have "int (length (ui_inflacionSerie \<lparr> ui_numAnios = 3, ui_inflacionSerie = [1, 1, 1 :: rat],
             ui_graciaSerie = [GraceS, GraceT, GraceS] \<rparr>)) = 3
        \<and> int (length (ui_graciaSerie \<lparr> ui_numAnios = 3, ui_inflacionSerie = [1, 1, 1 :: rat],
             ui_graciaSerie = [GraceS, GraceT, GraceS] \<rparr>)) = 3"
    using series_lengths_match_term [where ?'n = rat] exBuild by fastforce
  moreover have "seriesConsistent (mkInputs ''ci1'' exBond exCosts [JNum (3 / 100), JNum (3 / 100)]
               [JStr ''S'', JStr ''P''])"
    using series_lengths_match_term [where ?'n = rat] exConvert by blast
  ultimately show ?thesis
    using exBuild exConvert by simp
qed

section \<open>Stored calculations and recomputation\<close>

lemma flowsCountOf_positive:
  "0 < flowsCountOf d bid \<longleftrightarrow> list_ex (\<lambda>row. cf_bondId row = bid) (cashFlows d)"
  by (auto simp add: flowsCountOf_def list_ex_iff filter_empty_conv)

lemma tryBlock_computes:
  assumes "recalculate req \<or> getExistingCalculation d (bondId req) = None"
  shows "tryBlock ev now d req = computeBond ev now d (bondId req) (saveResults req)"
  using assms by (auto simp add: tryBlock_def)

lemma calculateBond_computes:
  assumes "isCuid ev (bondId req)"
    and "recalculate req \<or> getExistingCalculation d (bondId req) = None"
    and "bonds d (bondId req) = Some b"
    and "validateBondForCalculation b = Inr u"
    and "convertBondToCalculationInputs ev d b = (Inr inputs, d1)"
  shows "calculateBond ev now d req =
           Inr (case calculate ev inputs of
                  Inl msg \<Rightarrow> (failureResponse now (bondId req) (CalculatorError msg), d1)
                | Inr res \<Rightarrow>
                    if saveResults req \<and> ci_id inputs = []
                    then (failureResponse now (bondId req) MissingInputsId, d1)
                    else (formatCalculationResponse (bondId req) res,
                          if saveResults req
                          then saveCalculationResults now d1 (bondId req) (ci_id inputs) res
                          else d1))"
proof -
  have f: "findById d (bondId req) = Some b"
    using assms(3) by (simp add: findById_def)
  have "computeBond ev now d (bondId req) (saveResults req)
          = calculateAndSave ev now d1 (bondId req) (saveResults req) inputs"
    using f assms(4,5) by (simp add: computeBond_def)
  then have "calculateBond ev now d req =
          Inr (catchBlock now (bondId req)
                 (calculateAndSave ev now d1 (bondId req) (saveResults req) inputs))"
    using assms(1) tryBlock_computes [OF assms(2), of ev now] by (simp add: calculateBond_def)
  then show ?thesis
    by (cases "calculate ev inputs") (simp_all add: calculateAndSave_def catchBlock_def)
qed

lemma formatCalculationResponse_fields:
  "formatCalculationResponse bid res =
     \<lparr> r_bondId = bid, r_success = True, r_calculatedAt = res_fechaCalculo res,
       r_metricas =
         \<lparr> emisor = \<lparr> e_precioActual = m_precioActual (res_metricas res),
                      e_van = m_utilidadPerdida (res_metricas res),
                      e_tceaEmisor = m_tceaEmisor (res_metricas res),
                      e_tceaEmisorConEscudo = m_tceaEmisorConEscudo (res_metricas res),
                      e_duracion = m_duracion (res_metricas res),
                      e_duracionModificada = m_duracionModificada (res_metricas res),
                      e_convexidad = m_convexidad (res_metricas res),
                      e_totalRatiosDecision = m_totalRatiosDecision (res_metricas res) \<rparr>,
           bonista = \<lparr> bo_precioActual = m_precioActual (res_metricas res),
                       bo_van = m_precioActual (res_metricas res),
                       bo_treaBonista = m_treaBonista (res_metricas res),
                       bo_duracion = m_duracion (res_metricas res),
                       bo_duracionModificada = m_duracionModificada (res_metricas res),
                       bo_convexidad = m_convexidad (res_metricas res),
                       bo_totalRatiosDecision = m_totalRatiosDecision (res_metricas res) \<rparr> \<rparr>,
       r_flowsCount = length (res_flujos res), r_errors = None \<rparr>"
  by (simp add: formatCalculationResponse_def Let_def)

text \<open>
  Claim C10. Take a request whose bond id passes the schema, with \<^verbatim>\<open>recalculate = false\<close>.
  When the bond has at least one stored cash flow and a stored metrics row for each of the
  two roles, the call returns the stored values: a success whose issuer metrics are those
  of the issuer's row and whose investor metrics are those of the investor's row (a rate
  that is null in the row is returned as 0), whose flow count is the number of stored cash
  flows of the bond and whose date is the stored calculation date of the issuer's row; the
  database is returned as it was, and the calculator plays no part. When one of the three
  is missing, the call is the call with \<^verbatim>\<open>recalculate = true\<close>, a full computation: a bond
  that does not exist gives the failure response for it; for a bond that exists, passes the
  validation and whose inputs are converted, the calculator is run on the converted inputs
  and the response carries the metrics, the number of flows and the date of its result,
  which is saved when the request asks for it.
\<close>

theorem calculateBond_stored_or_recomputed:
  assumes "isCuid ev (bondId req)" and "\<not> recalculate req"
  shows "(list_ex (\<lambda>row. cf_bondId row = bondId req) (cashFlows d)
          \<and> financialMetrics d (bondId req, EMISOR) = Some em
          \<and> financialMetrics d (bondId req, BONISTA) = Some bm
          \<longrightarrow> calculateBond ev now d req =
                Inr (\<lparr> r_bondId = bondId req, r_success = True,
                       r_calculatedAt = Some (fm_fechaCalculo em),
                       r_metricas =
                         \<lparr> emisor =
                             \<lparr> e_precioActual = fm_precioActual em, e_van = fm_van em,
                               e_tceaEmisor = (case fm_tcea em of None \<Rightarrow> 0 | Some x \<Rightarrow> x),
                               e_tceaEmisorConEscudo =
                                 (case fm_tceaConEscudo em of None \<Rightarrow> 0 | Some x \<Rightarrow> x),
                               e_duracion = fm_duracion em,
                               e_duracionModificada = fm_duracionModificada em,
                               e_convexidad = fm_convexidad em,
                               e_totalRatiosDecision = fm_totalRatiosDecision em \<rparr>,
                           bonista =
                             \<lparr> bo_precioActual = fm_precioActual bm, bo_van = fm_van bm,
                               bo_treaBonista = (case fm_trea bm of None \<Rightarrow> 0 | Some x \<Rightarrow> x),
                               bo_duracion = fm_duracion bm,
                               bo_duracionModificada = fm_duracionModificada bm,
                               bo_convexidad = fm_convexidad bm,
                               bo_totalRatiosDecision = fm_totalRatiosDecision bm \<rparr> \<rparr>,
                       r_flowsCount =
                         length (filter (\<lambda>row. cf_bondId row = bondId req) (cashFlows d)),
                       r_errors = None \<rparr>, d))
       \<and> (\<not> list_ex (\<lambda>row. cf_bondId row = bondId req) (cashFlows d)
          \<or> financialMetrics d (bondId req, EMISOR) = None
          \<or> financialMetrics d (bondId req, BONISTA) = None
          \<longrightarrow> calculateBond ev now d req = calculateBond ev now d (req\<lparr> recalculate := True \<rparr>)
              \<and> (bonds d (bondId req) = None \<longrightarrow>
                    calculateBond ev now d req =
                      Inr (failureResponse now (bondId req) (BondNotFound (bondId req)), d))
              \<and> (\<forall>b u inputs d1.
                    bonds d (bondId req) = Some b \<and> validateBondForCalculation b = Inr u
                    \<and> convertBondToCalculationInputs ev d b = (Inr inputs, d1) \<longrightarrow>
                    calculateBond ev now d req =
                      Inr (case calculate ev inputs of
                             Inl msg \<Rightarrow>
                               (failureResponse now (bondId req) (CalculatorError msg), d1)
                           | Inr res \<Rightarrow>
                               if saveResults req \<and> ci_id inputs = []
                               then (failureResponse now (bondId req) MissingInputsId, d1)
                               else (\<lparr> r_bondId = bondId req, r_success = True,
                                       r_calculatedAt = res_fechaCalculo res,
                                       r_metricas =
                                         \<lparr> emisor =
                                             \<lparr> e_precioActual = m_precioActual (res_metricas res),
                                               e_van = m_utilidadPerdida (res_metricas res),
                                               e_tceaEmisor = m_tceaEmisor (res_metricas res),
                                               e_tceaEmisorConEscudo =
                                                 m_tceaEmisorConEscudo (res_metricas res),
                                               e_duracion = m_duracion (res_metricas res),
                                               e_duracionModificada =
                                                 m_duracionModificada (res_metricas res),
                                               e_convexidad = m_convexidad (res_metricas res),
                                               e_totalRatiosDecision =
                                                 m_totalRatiosDecision (res_metricas res) \<rparr>,
                                           bonista =
                                             \<lparr> bo_precioActual = m_precioActual (res_metricas res),
                                               bo_van = m_precioActual (res_metricas res),
                                               bo_treaBonista = m_treaBonista (res_metricas res),
                                               bo_duracion = m_duracion (res_metricas res),
                                               bo_duracionModificada =
                                                 m_duracionModificada (res_metricas res),
                                               bo_convexidad = m_convexidad (res_metricas res),
                                               bo_totalRatiosDecision =
                                                 m_totalRatiosDecision (res_metricas res) \<rparr> \<rparr>,
                                       r_flowsCount = length (res_flujos res),
                                       r_errors = None \<rparr>,
                                     if saveResults req
                                     then saveCalculationResults now d1 (bondId req)
                                            (ci_id inputs) res
                                     else d1))))"
proof (intro conjI impI allI)
  assume h: "list_ex (\<lambda>row. cf_bondId row = bondId req) (cashFlows d)
          \<and> financialMetrics d (bondId req, EMISOR) = Some em
          \<and> financialMetrics d (bondId req, BONISTA) = Some bm"
  then have p: "0 < flowsCountOf d (bondId req)"
    by (simp add: flowsCountOf_positive)
  have "getExistingCalculation d (bondId req)
      = Some (storedResponse (bondId req) (flowsCountOf d (bondId req)) em bm)"
    using h p by (simp add: getExistingCalculation_Some)
  then have "calculateBond ev now d req =
                Inr (storedResponse (bondId req) (flowsCountOf d (bondId req)) em bm, d)"
    using assms by (simp add: calculateBond_def tryBlock_def catchBlock_def)
  then show "calculateBond ev now d req =
                Inr (\<lparr> r_bondId = bondId req, r_success = True,
                       r_calculatedAt = Some (fm_fechaCalculo em),
                       r_metricas =
                         \<lparr> emisor =
                             \<lparr> e_precioActual = fm_precioActual em, e_van = fm_van em,
                               e_tceaEmisor = (case fm_tcea em of None \<Rightarrow> 0 | Some x \<Rightarrow> x),
                               e_tceaEmisorConEscudo =
                                 (case fm_tceaConEscudo em of None \<Rightarrow> 0 | Some x \<Rightarrow> x),
                               e_duracion = fm_duracion em,
                               e_duracionModificada = fm_duracionModificada em,
                               e_convexidad = fm_convexidad em,
                               e_totalRatiosDecision = fm_totalRatiosDecision em \<rparr>,
                           bonista =
                             \<lparr> bo_precioActual = fm_precioActual bm, bo_van = fm_van bm,
                               bo_treaBonista = (case fm_trea bm of None \<Rightarrow> 0 | Some x \<Rightarrow> x),
                               bo_duracion = fm_duracion bm,
                               bo_duracionModificada = fm_duracionModificada bm,
                               bo_convexidad = fm_convexidad bm,
                               bo_totalRatiosDecision = fm_totalRatiosDecision bm \<rparr> \<rparr>,
                       r_flowsCount =
                         length (filter (\<lambda>row. cf_bondId row = bondId req) (cashFlows d)),
                       r_errors = None \<rparr>, d)"
    by (simp add: storedResponse_def orZero_def flowsCountOf_def)
next
  assume m: "\<not> list_ex (\<lambda>row. cf_bondId row = bondId req) (cashFlows d)
          \<or> financialMetrics d (bondId req, EMISOR) = None
          \<or> financialMetrics d (bondId req, BONISTA) = None"
  then have "flowsCountOf d (bondId req) = 0
          \<or> financialMetrics d (bondId req, EMISOR) = None
          \<or> financialMetrics d (bondId req, BONISTA) = None"
    using flowsCountOf_positive [of d "bondId req"] by auto
  then have n: "getExistingCalculation d (bondId req) = None"
    by (rule getExistingCalculation_None)
  show "calculateBond ev now d req = calculateBond ev now d (req\<lparr> recalculate := True \<rparr>)"
    using n assms by (simp add: calculateBond_def tryBlock_def)
  {
    assume "bonds d (bondId req) = None"
    then have "computeBond ev now d (bondId req) (saveResults req)
                 = (Inl (BondNotFound (bondId req)), d)"
      by (simp add: computeBond_def findById_def)
    then show "calculateBond ev now d req =
                      Inr (failureResponse now (bondId req) (BondNotFound (bondId req)), d)"
      using n assms by (simp add: calculateBond_def tryBlock_def catchBlock_def)
  }
  {
    fix b u inputs d1
    assume c: "bonds d (bondId req) = Some b \<and> validateBondForCalculation b = Inr u
                    \<and> convertBondToCalculationInputs ev d b = (Inr inputs, d1)"
    have "recalculate req \<or> getExistingCalculation d (bondId req) = None"
      using n by simp
    then show "calculateBond ev now d req =
                      Inr (case calculate ev inputs of
                             Inl msg \<Rightarrow>
                               (failureResponse now (bondId req) (CalculatorError msg), d1)
                           | Inr res \<Rightarrow>
                               if saveResults req \<and> ci_id inputs = []
                               then (failureResponse now (bondId req) MissingInputsId, d1)
                               else (\<lparr> r_bondId = bondId req, r_success = True,
                                       r_calculatedAt = res_fechaCalculo res,
                                       r_metricas =
                                         \<lparr> emisor =
                                             \<lparr> e_precioActual = m_precioActual (res_metricas res),
                                               e_van = m_utilidadPerdida (res_metricas res),
                                               e_tceaEmisor = m_tceaEmisor (res_metricas res),
                                               e_tceaEmisorConEscudo =
                                                 m_tceaEmisorConEscudo (res_metricas res),
                                               e_duracion = m_duracion (res_metricas res),
                                               e_duracionModificada =
                                                 m_duracionModificada (res_metricas res),
                                               e_convexidad = m_convexidad (res_metricas res),
                                               e_totalRatiosDecision =
                                                 m_totalRatiosDecision (res_metricas res) \<rparr>,
                                           bonista =
                                             \<lparr> bo_precioActual = m_precioActual (res_metricas res),
                                               bo_van = m_precioActual (res_metricas res),
                                               bo_treaBonista = m_treaBonista (res_metricas res),
                                               bo_duracion = m_duracion (res_metricas res),
                                               bo_duracionModificada =
                                                 m_duracionModificada (res_metricas res),
                                               bo_convexidad = m_convexidad (res_metricas res),
                                               bo_totalRatiosDecision =
                                                 m_totalRatiosDecision (res_metricas res) \<rparr> \<rparr>,
                                       r_flowsCount = length (res_flujos res),
                                       r_errors = None \<rparr>,
                                     if saveResults req
                                     then saveCalculationResults now d1 (bondId req)
                                            (ci_id inputs) res
                                     else d1))"
      using calculateBond_computes [of ev req d b u inputs d1 now] assms(1) c
      by (cases "calculate ev inputs") (simp_all add: formatCalculationResponse_fields)
  }
qed


theorem calculateBond_stored_or_recomputed_witness:
  "isCuid exEnv ''cbond0001''
   \<and> calculateBond exEnv 9 exStoredDb
        \<lparr> bondId = ''cbond0001'', recalculate = False, saveResults = True \<rparr>
      = Inr (\<lparr> r_bondId = ''cbond0001'', r_success = True, r_calculatedAt = Some 3,
               r_metricas =
                 \<lparr> emisor =
                     \<lparr> e_precioActual = 1060, e_van = 10, e_tceaEmisor = 9 / 100,
                       e_tceaEmisorConEscudo = 7 / 100, e_duracion = 2,
                       e_duracionModificada = 19 / 10, e_convexidad = 5,
                       e_totalRatiosDecision = 9 \<rparr>,
                   bonista =
                     \<lparr> bo_precioActual = 1060, bo_van = 10, bo_treaBonista = 0,
                       bo_duracion = 2, bo_duracionModificada = 19 / 10, bo_convexidad = 5,
                       bo_totalRatiosDecision = 9 \<rparr> \<rparr>,
               r_flowsCount = length [exFlow 5], r_errors = None \<rparr>, exStoredDb)
   \<and> calculateBond exEnv 9 (exDb exShortInputs)
        \<lparr> bondId = ''cbond0001'', recalculate = False, saveResults = True \<rparr>
      = Inr (\<lparr> r_bondId = ''cbond0001'', r_success = True, r_calculatedAt = Some 7,
               r_metricas =
                 \<lparr> emisor =
                     \<lparr> e_precioActual = 1060, e_van = 10, e_tceaEmisor = 9 / 100,
                       e_tceaEmisorConEscudo = 7 / 100, e_duracion = 2,
                       e_duracionModificada = 19 / 10, e_convexidad = 5,
                       e_totalRatiosDecision = 9 \<rparr>,
                   bonista =
                     \<lparr> bo_precioActual = 1060, bo_van = 1060, bo_treaBonista = 8 / 100,
                       bo_duracion = 2, bo_duracionModificada = 19 / 10, bo_convexidad = 5,
                       bo_totalRatiosDecision = 9 \<rparr> \<rparr>,
               r_flowsCount = length [exFlow 0, exFlow 1], r_errors = None \<rparr>,
             saveCalculationResults 9
               (exDb (exShortInputs\<lparr> cin_inflacionSerie := JArr [JNum (3 / 100), JNum (3 / 100)] \<rparr>))
               ''cbond0001'' ''ci1'' exResult)
   \<and> calculateBond exEnv 9 (exDb exShortInputs)
        \<lparr> bondId = ''cmissing01'', recalculate = False, saveResults = True \<rparr>
      = Inr (failureResponse 9 ''cmissing01'' (BondNotFound ''cmissing01''), exDb exShortInputs)"
proof -
  let ?req = "\<lparr> bondId = ''cbond0001'', recalculate = False, saveResults = True \<rparr>"
  let ?mreq = "\<lparr> bondId = ''cmissing01'', recalculate = False, saveResults = True \<rparr>"
  have c: "isCuid exEnv ''cbond0001''" and cm: "isCuid exEnv ''cmissing01''"
    by (simp_all add: exEnv_def zodCuid_def cuidChar_def)
  have f: "list_ex (\<lambda>row. cf_bondId row = ''cbond0001'') (cashFlows exStoredDb)"
    and fl: "filter (\<lambda>row. cf_bondId row = ''cbond0001'') (cashFlows exStoredDb)
               = [\<lparr> cf_bondId = ''cbond0001'', cf_data = exFlow 5 \<rparr>]"
    by (simp_all add: exStoredDb_def)
  have e: "financialMetrics exStoredDb (''cbond0001'', EMISOR) = Some exMetricsRow"
    by (simp add: exStoredDb_def)
  have b: "financialMetrics exStoredDb (''cbond0001'', BONISTA) = Some exMetricsRow"
    by (simp add: exStoredDb_def)
  have z: "cashFlows (exDb exShortInputs) = []"
    by (simp add: exDb_def)
  have bo: "bonds (exDb exShortInputs) ''cbond0001'' = Some exBond"
    and bm: "bonds (exDb exShortInputs) ''cmissing01'' = None"
    by (simp_all add: exDb_def)
  have v: "validateBondForCalculation exBond = Inr ()"
    by (simp add: validateBondForCalculation_def exBond_def)
  have k: "calculate exEnv inputs = Inr exResult" for inputs
    by (simp add: exEnv_def)
  have i: "ci_id (mkInputs ''ci1'' exBond exCosts infl gra) = ''ci1''" for infl gra
    by (simp add: mkInputs_def)
  have s: "calculateBond exEnv 9 exStoredDb ?req
      = Inr (\<lparr> r_bondId = ''cbond0001'', r_success = True, r_calculatedAt = Some 3,
               r_metricas =
                 \<lparr> emisor =
                     \<lparr> e_precioActual = 1060, e_van = 10, e_tceaEmisor = 9 / 100,
                       e_tceaEmisorConEscudo = 7 / 100, e_duracion = 2,
                       e_duracionModificada = 19 / 10, e_convexidad = 5,
                       e_totalRatiosDecision = 9 \<rparr>,
                   bonista =
                     \<lparr> bo_precioActual = 1060, bo_van = 10, bo_treaBonista = 0,
                       bo_duracion = 2, bo_duracionModificada = 19 / 10, bo_convexidad = 5,
                       bo_totalRatiosDecision = 9 \<rparr> \<rparr>,
               r_flowsCount = length [exFlow 5], r_errors = None \<rparr>, exStoredDb)"
    using calculateBond_stored_or_recomputed [of exEnv ?req exStoredDb exMetricsRow exMetricsRow 9]
      c f fl e b
    by (simp add: exMetricsRow_def)
  have t: "calculateBond exEnv 9 (exDb exShortInputs) ?req
      = Inr (\<lparr> r_bondId = ''cbond0001'', r_success = True, r_calculatedAt = Some 7,
               r_metricas =
                 \<lparr> emisor =
                     \<lparr> e_precioActual = 1060, e_van = 10, e_tceaEmisor = 9 / 100,
                       e_tceaEmisorConEscudo = 7 / 100, e_duracion = 2,
                       e_duracionModificada = 19 / 10, e_convexidad = 5,
                       e_totalRatiosDecision = 9 \<rparr>,
                   bonista =
                     \<lparr> bo_precioActual = 1060, bo_van = 1060, bo_treaBonista = 8 / 100,
                       bo_duracion = 2, bo_duracionModificada = 19 / 10, bo_convexidad = 5,
                       bo_totalRatiosDecision = 9 \<rparr> \<rparr>,
               r_flowsCount = length [exFlow 0, exFlow 1], r_errors = None \<rparr>,
             saveCalculationResults 9
               (exDb (exShortInputs\<lparr> cin_inflacionSerie := JArr [JNum (3 / 100), JNum (3 / 100)] \<rparr>))
               ''cbond0001'' ''ci1'' exResult)"
    using calculateBond_stored_or_recomputed [of exEnv ?req "exDb exShortInputs" exMetricsRow exMetricsRow 9]
      c z bo v exConvert
    by (auto simp add: k i exResult_def exMetricas_def)
  have m: "calculateBond exEnv 9 (exDb exShortInputs) ?mreq
      = Inr (failureResponse 9 ''cmissing01'' (BondNotFound ''cmissing01''), exDb exShortInputs)"
    using calculateBond_stored_or_recomputed [of exEnv ?mreq "exDb exShortInputs" exMetricsRow exMetricsRow 9]
      cm z bm
    by auto
  show ?thesis using c s t m by simp
qed

section \<open>Repair of malformed series\<close>

lemma computeBond_found:
  assumes "findById d bid = Some b" and "validateBondForCalculation b = Inr u"
    and "convertBondToCalculationInputs ev d b = (Inr inputs, dc)"
  shows "computeBond ev now d bid save = calculateAndSave ev now dc bid save inputs"
  using assms by (simp add: computeBond_def)

lemma repairInflacion_default:
  assumes "repairInflacion n cur = Inr infl"
    and "\<not> isArray cur \<or> wrongLength n cur \<or> hasCorrupt cur"
  shows "infl = replicate (nat n) defaultInflacion"
proof -
  have "repairInflacion n cur = arrayFill n defaultInflacion"
  proof (cases "isArray cur")
    case True
    then obtain xs where x: "cur = JArr xs"
      by (cases cur) (simp_all add: isArray_def)
    then have "needsDefault n xs"
      using assms(2) by (simp add: isArray_def wrongLength_def hasCorrupt_def needsDefault_def)
    then show ?thesis using x by (simp add: repairInflacion_def)
  next
    case False
    then show ?thesis
      by (cases cur) (simp_all add: isArray_def repairInflacion_def)
  qed
  then have "arrayFill n defaultInflacion = Inr infl"
    using assms(1) by simp
  then show ?thesis using arrayFill_Inr [of n defaultInflacion infl] by simp
qed

lemma repairGracia_default:
  assumes "repairGracia n cur = Inr gra"
    and "\<not> isArray cur \<or> wrongLength n cur \<or> hasCorrupt cur"
  shows "gra = replicate (nat n) defaultGracia"
proof -
  have "repairGracia n cur = arrayFill n defaultGracia"
  proof (cases "isArray cur")
    case True
    then obtain xs where x: "cur = JArr xs"
      by (cases cur) (simp_all add: isArray_def)
    then have "needsDefault n xs"
      using assms(2) by (simp add: isArray_def wrongLength_def hasCorrupt_def needsDefault_def)
    then show ?thesis using x by (simp add: repairGracia_def)
  next
    case False
    then show ?thesis
      by (cases cur) (simp_all add: isArray_def repairGracia_def)
  qed
  then have "arrayFill n defaultGracia = Inr gra"
    using assms(1) by simp
  then show ?thesis using arrayFill_Inr [of n defaultGracia gra] by simp
qed

lemma list_ex_isCorruptItem:
  "list_ex isCorruptItem xs \<longleftrightarrow> (\<exists>s. JStr s \<in> set xs \<and> CHR ''['' \<in> set s)"
proof
  assume "list_ex isCorruptItem xs"
  then obtain item where i: "item \<in> set xs" and c: "isCorruptItem item"
    by (auto simp add: list_ex_iff)
  obtain s where "item = JStr s" and "CHR ''['' \<in> set s"
    using c by (cases item) (simp_all add: isCorruptItem_def)
  then show "\<exists>s. JStr s \<in> set xs \<and> CHR ''['' \<in> set s" using i by blast
next
  assume "\<exists>s. JStr s \<in> set xs \<and> CHR ''['' \<in> set s"
  then obtain s where "JStr s \<in> set xs" and "CHR ''['' \<in> set s" by blast
  then have "\<exists>item \<in> set xs. isCorruptItem item"
    by (intro bexI [of _ "JStr s"]) (simp_all add: isCorruptItem_def)
  then show "list_ex isCorruptItem xs" by (simp add: list_ex_iff)
qed

lemma malformed_iff:
  "(\<not> isArray v \<or> wrongLength n v \<or> hasCorrupt v) \<longleftrightarrow>
   (\<forall>xs. v = JArr xs \<longrightarrow>
      int (length xs) \<noteq> n \<or> (\<exists>s. JStr s \<in> set xs \<and> CHR ''['' \<in> set s))"
  by (cases v) (simp_all add: isArray_def wrongLength_def hasCorrupt_def list_ex_isCorruptItem)

lemma needsRepair_iff:
  "needsRepair n ri rg \<longleftrightarrow>
     (\<forall>xs. ri = JArr xs \<longrightarrow>
        int (length xs) \<noteq> n \<or> (\<exists>s. JStr s \<in> set xs \<and> CHR ''['' \<in> set s))
     \<or> (\<forall>ys. rg = JArr ys \<longrightarrow>
        int (length ys) \<noteq> n \<or> (\<exists>s. JStr s \<in> set ys \<and> CHR ''['' \<in> set s))"
proof -
  have "needsRepair n ri rg \<longleftrightarrow>
      (\<not> isArray ri \<or> wrongLength n ri \<or> hasCorrupt ri)
      \<or> (\<not> isArray rg \<or> wrongLength n rg \<or> hasCorrupt rg)"
    unfolding needsRepair_def by blast
  then show ?thesis
    unfolding malformed_iff [of ri n] malformed_iff [of rg n] .
qed

lemma repairInflacion_keeps:
  assumes "int (length xs) = n" and "\<not> (\<exists>s. JStr s \<in> set xs \<and> CHR ''['' \<in> set s)"
  shows "repairInflacion n (JArr xs) =
           Inr (map (\<lambda>item. case item of JNum x \<Rightarrow> item | _ \<Rightarrow> JNum (3 / 100)) xs)"
proof -
  have f: "(if isFiniteNumber item then item else defaultInflacion)
             = (case item of JNum x \<Rightarrow> item | _ \<Rightarrow> JNum (3 / 100))" for item
    by (cases item) (simp_all add: isFiniteNumber_def defaultInflacion_def)
  have "\<not> needsDefault n xs"
    using assms by (simp add: needsDefault_def list_ex_isCorruptItem)
  then show ?thesis by (simp add: repairInflacion_def f)
qed

lemma repairGracia_keeps:
  assumes "int (length xs) = n" and "\<not> (\<exists>s. JStr s \<in> set xs \<and> CHR ''['' \<in> set s)"
  shows "repairGracia n (JArr xs) =
           Inr (map (\<lambda>item. if item = JStr ''S'' \<or> item = JStr ''P'' \<or> item = JStr ''T''
                            then item else JStr ''S'') xs)"
proof -
  have "\<not> needsDefault n xs"
    using assms by (simp add: needsDefault_def list_ex_isCorruptItem)
  then show ?thesis by (simp add: repairGracia_def isGraceCode_def defaultGracia_def)
qed

lemma validateBondForCalculation_ok:
  assumes "0 < b_valorNominal b" and "0 < b_valorComercial b" and "0 < b_numAnios b"
    and "0 \<le> b_tasaAnual b"
  shows "validateBondForCalculation b = Inr ()"
  using assms by (simp add: validateBondForCalculation_def)

lemma validateSeriesConsistency_ok:
  assumes "int (length infl) = b_numAnios b" and "int (length gra) = b_numAnios b"
    and "list_all isFiniteNumber infl" and "list_all isGraceCode gra"
  shows "validateSeriesConsistency d bid (mkInputs rid b c infl gra) = (Inr (), d)"
proof -
  have "seriesIssues (mkInputs rid b c infl gra) = []"
    using assms(1,2) not_corrupt_finite [OF assms(3)] not_corrupt_grace [OF assms(4)]
    by (simp add: seriesIssues_def mkInputs_def)
  then show ?thesis by (simp add: validateSeriesConsistency_def)
qed

lemma calculateQuickMetrics_computes:
  assumes "bonds d (b_id b) = Some b"
    and "convertBondToCalculationInputs ev d b = (Inr inputs, d1)"
    and "validateSeriesConsistency d1 (b_id b) inputs = (Inr (), d1)"
  shows "calculateQuickMetrics ev now d (b_id b) =
           (case calculateQuick ev inputs of
              Inl msg \<Rightarrow> (failureResponse now (b_id b) (CalculatorError msg), d1)
            | Inr m \<Rightarrow>
                (\<lparr> r_bondId = b_id b, r_success = True, r_calculatedAt = Some now,
                   r_metricas = responseMetricas m, r_flowsCount = 0, r_errors = None \<rparr>, d1))"
proof -
  have f: "findById d (b_id b) = Some b"
    using assms(1) by (simp add: findById_def)
  show ?thesis
    using f assms(2,3)
    by (cases "calculateQuick ev inputs")
      (simp_all add: calculateQuickMetrics_def quickBody_def catchBlock_def)
qed

text \<open>
  Claim C1, as the code has it. Take a bond with costs, a term between 0 and \<open>2^32 - 1\<close>
  years and a stored record of calculation inputs, and read each stored series as the
  service reads it: a stored string is parsed as JSON first, and kept when it does not
  parse. When one of the two series so read is not an array, has a length other than the
  term or has a string element containing a bracket, the conversion does not fail. It
  overwrites both stored series and returns inputs carrying the new ones, which have
  exactly \<open>numAnios\<close> elements each, all numbers, respectively all grace codes. A stored
  series that is not an array, has another length or has a string element containing a
  bracket is replaced by \<open>numAnios\<close> copies of the default (0.03, respectively S); a stored
  series of the right length without such an element keeps its elements, with the default
  in place of those that are not numbers (respectively grace codes). Both entry points go
  on with the repaired inputs and leave the repaired series stored: \<^verbatim>\<open>calculateBond\<close>, when
  it computes for a bond that passes the validation, and \<^verbatim>\<open>calculateQuickMetrics\<close> run the
  calculator on them and succeed when it does; they fail only with the error of the
  calculator or, when saving, for a record without id.
\<close>

theorem malformed_series_are_repaired:
  assumes "b_costs b = Some c"
    and "calculationInputs d (b_id b) = Some rec"
    and "0 \<le> b_numAnios b" and "b_numAnios b < 4294967296"
    and "(\<forall>xs. parseIfString (jsonParse ev) (cin_inflacionSerie rec) = JArr xs \<longrightarrow>
            int (length xs) \<noteq> b_numAnios b \<or> (\<exists>s. JStr s \<in> set xs \<and> CHR ''['' \<in> set s))
         \<or> (\<forall>ys. parseIfString (jsonParse ev) (cin_graciaSerie rec) = JArr ys \<longrightarrow>
            int (length ys) \<noteq> b_numAnios b \<or> (\<exists>s. JStr s \<in> set ys \<and> CHR ''['' \<in> set s))"
  shows "\<exists>infl gra d'.
           d' = d\<lparr> calculationInputs := (calculationInputs d)(b_id b \<mapsto>
                      rec\<lparr> cin_inflacionSerie := JArr infl, cin_graciaSerie := JArr gra \<rparr>) \<rparr>
           \<and> convertBondToCalculationInputs ev d b =
                (Inr (mkInputs (cin_id rec) b c infl gra), d')
           \<and> int (length infl) = b_numAnios b \<and> int (length gra) = b_numAnios b
           \<and> (\<forall>item \<in> set infl. \<exists>x. item = JNum x)
           \<and> (\<forall>item \<in> set gra. item = JStr ''S'' \<or> item = JStr ''P'' \<or> item = JStr ''T'')
           \<and> ((\<forall>xs. cin_inflacionSerie rec = JArr xs \<longrightarrow>
                  int (length xs) \<noteq> b_numAnios b
                  \<or> (\<exists>s. JStr s \<in> set xs \<and> CHR ''['' \<in> set s))
               \<longrightarrow> infl = replicate (nat (b_numAnios b)) (JNum (3 / 100)))
           \<and> (\<forall>xs. cin_inflacionSerie rec = JArr xs \<and> int (length xs) = b_numAnios b
                  \<and> \<not> (\<exists>s. JStr s \<in> set xs \<and> CHR ''['' \<in> set s)
               \<longrightarrow> infl = map (\<lambda>item. case item of JNum x \<Rightarrow> item | _ \<Rightarrow> JNum (3 / 100)) xs)
           \<and> ((\<forall>ys. cin_graciaSerie rec = JArr ys \<longrightarrow>
                  int (length ys) \<noteq> b_numAnios b
                  \<or> (\<exists>s. JStr s \<in> set ys \<and> CHR ''['' \<in> set s))
               \<longrightarrow> gra = replicate (nat (b_numAnios b)) (JStr ''S''))
           \<and> (\<forall>ys. cin_graciaSerie rec = JArr ys \<and> int (length ys) = b_numAnios b
                  \<and> \<not> (\<exists>s. JStr s \<in> set ys \<and> CHR ''['' \<in> set s)
               \<longrightarrow> gra = map (\<lambda>item. if item = JStr ''S'' \<or> item = JStr ''P''
                                         \<or> item = JStr ''T'' then item else JStr ''S'') ys)
           \<and> (\<forall>now req.
                 isCuid ev (bondId req) \<and> bondId req = b_id b \<and> bonds d (b_id b) = Some b
                 \<and> 0 < b_valorNominal b \<and> 0 < b_valorComercial b \<and> 0 < b_numAnios b
                 \<and> 0 \<le> b_tasaAnual b
                 \<and> (recalculate req
                    \<or> \<not> list_ex (\<lambda>row. cf_bondId row = b_id b) (cashFlows d)
                    \<or> financialMetrics d (b_id b, EMISOR) = None
                    \<or> financialMetrics d (b_id b, BONISTA) = None)
                 \<longrightarrow>
                 (\<exists>r d''. calculateBond ev now d req = Inr (r, d'')
                    \<and> r_bondId r = b_id b
                    \<and> (case calculate ev (mkInputs (cin_id rec) b c infl gra) of
                         Inl msg \<Rightarrow>
                           d'' = d' \<and> r_success r = False
                           \<and> r_errors r = Some [CalculatorError msg]
                       | Inr res \<Rightarrow>
                           if saveResults req \<and> cin_id rec = []
                           then d'' = d' \<and> r_success r = False
                                \<and> r_errors r = Some [MissingInputsId]
                           else d'' = (if saveResults req
                                       then saveCalculationResults now d' (b_id b) (cin_id rec) res
                                       else d')
                                \<and> r_success r = True \<and> r_errors r = None
                                \<and> r_flowsCount r = length (res_flujos res)
                                \<and> r_calculatedAt r = res_fechaCalculo res)))
           \<and> (\<forall>now. bonds d (b_id b) = Some b \<longrightarrow>
                 (\<exists>r. calculateQuickMetrics ev now d (b_id b) = (r, d')
                    \<and> r_bondId r = b_id b
                    \<and> (case calculateQuick ev (mkInputs (cin_id rec) b c infl gra) of
                         Inl msg \<Rightarrow>
                           r_success r = False \<and> r_errors r = Some [CalculatorError msg]
                       | Inr m \<Rightarrow>
                           r_success r = True \<and> r_errors r = None
                           \<and> r_calculatedAt r = Some now
                           \<and> e_precioActual (emisor (r_metricas r)) = m_precioActual m
                           \<and> bo_precioActual (bonista (r_metricas r)) = m_precioActual m)))"
proof -
  let ?n = "b_numAnios b"
  obtain infl where i: "repairInflacion ?n (cin_inflacionSerie rec) = Inr infl"
    using repairInflacion_total [OF assms(3,4)] by blast
  obtain gra where g: "repairGracia ?n (cin_graciaSerie rec) = Inr gra"
    using repairGracia_total [OF assms(3,4)] by blast
  define d' where "d' = d\<lparr> calculationInputs := (calculationInputs d)(b_id b \<mapsto>
                      rec\<lparr> cin_inflacionSerie := JArr infl, cin_graciaSerie := JArr gra \<rparr>) \<rparr>"
  let ?inputs = "mkInputs (cin_id rec) b c infl gra"
  have nr: "needsRepair ?n (parseIfString (jsonParse ev) (cin_inflacionSerie rec))
              (parseIfString (jsonParse ev) (cin_graciaSerie rec))"
    using assms(5) by (simp only: needsRepair_iff)
  have r: "repairInconsistentSeries d (b_id b) ?n = Inr d'"
    using repairInconsistentSeries_ok [OF assms(2) i g] by (simp add: d'_def)
  have rr: "repairAndReload d b c = (Inr ?inputs, d')"
    by (simp add: repairAndReload_def r) (simp add: d'_def asArray_def)
  have cv: "convertBondToCalculationInputs ev d b = (Inr ?inputs, d')"
    using assms(1,2) nr rr by (simp add: convertBondToCalculationInputs_def)
  have li: "int (length infl) = ?n \<and> list_all isFiniteNumber infl"
    using i by (rule repairInflacion_Inr)
  have lg: "int (length gra) = ?n \<and> list_all isGraceCode gra"
    using g by (rule repairGracia_Inr)
  have ei: "\<forall>item \<in> set infl. \<exists>x. item = JNum x"
  proof
    fix item assume "item \<in> set infl"
    then have "isFiniteNumber item" using li by (simp add: list_all_iff)
    then show "\<exists>x. item = JNum x"
      by (cases item) (simp_all add: isFiniteNumber_def)
  qed
  have eg: "\<forall>item \<in> set gra. item = JStr ''S'' \<or> item = JStr ''P'' \<or> item = JStr ''T''"
    using lg by (simp add: list_all_iff isGraceCode_def)
  have di: "infl = replicate (nat ?n) (JNum (3 / 100))"
    if "\<forall>xs. cin_inflacionSerie rec = JArr xs \<longrightarrow>
                  int (length xs) \<noteq> ?n \<or> (\<exists>s. JStr s \<in> set xs \<and> CHR ''['' \<in> set s)"
  proof -
    have "\<not> isArray (cin_inflacionSerie rec) \<or> wrongLength ?n (cin_inflacionSerie rec)
            \<or> hasCorrupt (cin_inflacionSerie rec)"
      using that by (simp only: malformed_iff)
    then show ?thesis
      using repairInflacion_default [OF i] by (simp add: defaultInflacion_def)
  qed
  have dg: "gra = replicate (nat ?n) (JStr ''S'')"
    if "\<forall>ys. cin_graciaSerie rec = JArr ys \<longrightarrow>
                  int (length ys) \<noteq> ?n \<or> (\<exists>s. JStr s \<in> set ys \<and> CHR ''['' \<in> set s)"
  proof -
    have "\<not> isArray (cin_graciaSerie rec) \<or> wrongLength ?n (cin_graciaSerie rec)
            \<or> hasCorrupt (cin_graciaSerie rec)"
      using that by (simp only: malformed_iff)
    then show ?thesis
      using repairGracia_default [OF g] by (simp add: defaultGracia_def)
  qed
  have ki: "infl = map (\<lambda>item. case item of JNum x \<Rightarrow> item | _ \<Rightarrow> JNum (3 / 100)) xs"
    if "cin_inflacionSerie rec = JArr xs \<and> int (length xs) = ?n
                  \<and> \<not> (\<exists>s. JStr s \<in> set xs \<and> CHR ''['' \<in> set s)" for xs
    using that i repairInflacion_keeps [of xs ?n] by simp
  have kg: "gra = map (\<lambda>item. if item = JStr ''S'' \<or> item = JStr ''P''
                                         \<or> item = JStr ''T'' then item else JStr ''S'') ys"
    if "cin_graciaSerie rec = JArr ys \<and> int (length ys) = ?n
                  \<and> \<not> (\<exists>s. JStr s \<in> set ys \<and> CHR ''['' \<in> set s)" for ys
    using that g repairGracia_keeps [of ys ?n] by simp
  have id: "ci_id ?inputs = cin_id rec" by (simp add: mkInputs_def)
  have cb: "\<exists>r d''. calculateBond ev now d req = Inr (r, d'')
                    \<and> r_bondId r = b_id b
                    \<and> (case calculate ev ?inputs of
                         Inl msg \<Rightarrow>
                           d'' = d' \<and> r_success r = False
                           \<and> r_errors r = Some [CalculatorError msg]
                       | Inr res \<Rightarrow>
                           if saveResults req \<and> cin_id rec = []
                           then d'' = d' \<and> r_success r = False
                                \<and> r_errors r = Some [MissingInputsId]
                           else d'' = (if saveResults req
                                       then saveCalculationResults now d' (b_id b) (cin_id rec) res
                                       else d')
                                \<and> r_success r = True \<and> r_errors r = None
                                \<and> r_flowsCount r = length (res_flujos res)
                                \<and> r_calculatedAt r = res_fechaCalculo res)"
    if h: "isCuid ev (bondId req) \<and> bondId req = b_id b \<and> bonds d (b_id b) = Some b
                 \<and> 0 < b_valorNominal b \<and> 0 < b_valorComercial b \<and> 0 < b_numAnios b
                 \<and> 0 \<le> b_tasaAnual b
                 \<and> (recalculate req
                    \<or> \<not> list_ex (\<lambda>row. cf_bondId row = b_id b) (cashFlows d)
                    \<or> financialMetrics d (b_id b, EMISOR) = None
                    \<or> financialMetrics d (b_id b, BONISTA) = None)"
    for now and req :: request
  proof -
    have v: "validateBondForCalculation b = Inr ()"
      using h by (simp add: validateBondForCalculation_ok)
    have e: "recalculate req \<or> getExistingCalculation d (bondId req) = None"
    proof (cases "recalculate req")
      case True
      then show ?thesis by simp
    next
      case False
      then have "flowsCountOf d (bondId req) = 0
            \<or> financialMetrics d (bondId req, EMISOR) = None
            \<or> financialMetrics d (bondId req, BONISTA) = None"
        using h flowsCountOf_positive [of d "bondId req"] by auto
      then have "getExistingCalculation d (bondId req) = None"
        by (rule getExistingCalculation_None)
      then show ?thesis by simp
    qed
    have bi: "bondId req = b_id b" using conjunct1 [OF conjunct2 [OF h]] .
    have c1: "isCuid ev (bondId req)" using conjunct1 [OF h] .
    have bo: "bonds d (bondId req) = Some b" using h bi by simp
    note eq = calculateBond_computes [OF c1 e bo v cv, of now]
    show ?thesis
    proof (cases "calculate ev ?inputs")
      case (Inl msg)
      then show ?thesis using eq bi by (simp add: failureResponse_def)
    next
      case (Inr res)
      then show ?thesis
        using eq bi id
        by (simp add: failureResponse_def formatCalculationResponse_fields)
    qed
  qed
  have vs: "validateSeriesConsistency d' (b_id b) ?inputs = (Inr (), d')"
    using li lg by (simp add: validateSeriesConsistency_ok)
  have qm: "\<exists>r. calculateQuickMetrics ev now d (b_id b) = (r, d')
                    \<and> r_bondId r = b_id b
                    \<and> (case calculateQuick ev ?inputs of
                         Inl msg \<Rightarrow>
                           r_success r = False \<and> r_errors r = Some [CalculatorError msg]
                       | Inr m \<Rightarrow>
                           r_success r = True \<and> r_errors r = None
                           \<and> r_calculatedAt r = Some now
                           \<and> e_precioActual (emisor (r_metricas r)) = m_precioActual m
                           \<and> bo_precioActual (bonista (r_metricas r)) = m_precioActual m)"
    if h: "bonds d (b_id b) = Some b" for now
  proof -
    note eq = calculateQuickMetrics_computes [OF h cv vs, of now]
    show ?thesis
    proof (cases "calculateQuick ev ?inputs")
      case (Inl msg)
      then show ?thesis using eq by (simp add: failureResponse_def)
    next
      case (Inr m)
      then show ?thesis using eq by (simp add: responseMetricas_def)
    qed
  qed
  show ?thesis
    apply (rule exI [of _ infl], rule exI [of _ gra], rule exI [of _ d'])
    apply (intro conjI)
    subgoal by (rule d'_def)
    subgoal by (rule cv)
    subgoal using li by simp
    subgoal using lg by simp
    subgoal by (rule ei)
    subgoal by (rule eg)
    subgoal by (intro impI) (rule di)
    subgoal by (intro allI impI) (rule ki)
    subgoal by (intro impI) (rule dg)
    subgoal by (intro allI impI) (rule kg)
    subgoal by (intro allI impI) (rule cb)
    subgoal by (intro allI impI) (rule qm)
    done
qed


theorem malformed_series_are_repaired_witness:
  "b_costs exBond = Some exCosts
   \<and> calculationInputs (exDb exShortInputs) (b_id exBond) = Some exShortInputs
   \<and> 0 \<le> b_numAnios exBond \<and> b_numAnios exBond < 4294967296
   \<and> parseIfString (jsonParse exEnv) (cin_inflacionSerie exShortInputs) = JArr [JNum (1 / 10)]
   \<and> int (length [JNum (1 / 10)]) \<noteq> b_numAnios exBond
   \<and> convertBondToCalculationInputs exEnv (exDb exShortInputs) exBond
       = (Inr (mkInputs ''ci1'' exBond exCosts [JNum (3 / 100), JNum (3 / 100)]
                 [JStr ''S'', JStr ''P'']),
          exDb (exShortInputs\<lparr> cin_inflacionSerie := JArr [JNum (3 / 100), JNum (3 / 100)] \<rparr>))
   \<and> snd (calculateQuickMetrics exEnv 9 (exDb exShortInputs) ''cbond0001'')
       = exDb (exShortInputs\<lparr> cin_inflacionSerie := JArr [JNum (3 / 100), JNum (3 / 100)] \<rparr>)
   \<and> r_success (fst (calculateQuickMetrics exEnv 9 (exDb exShortInputs) ''cbond0001''))"
proof -
  have c: "b_costs exBond = Some exCosts" by (simp add: exBond_def)
  have i: "b_id exBond = ''cbond0001''" by (simp add: exBond_def)
  have r: "calculationInputs (exDb exShortInputs) (b_id exBond) = Some exShortInputs"
    by (simp add: exDb_def exBond_def)
  have n: "b_numAnios exBond = 2" by (simp add: exBond_def)
  have n0: "0 \<le> b_numAnios exBond" and n1: "b_numAnios exBond < 4294967296"
    by (simp_all add: n)
  have p: "parseIfString (jsonParse exEnv) (cin_inflacionSerie exShortInputs)
             = JArr [JNum (1 / 10)]"
    by (simp add: parseIfString_def exShortInputs_def)
  have si: "cin_inflacionSerie exShortInputs = JArr [JNum (1 / 10)]"
    and sg: "cin_graciaSerie exShortInputs = JArr [JStr ''S'', JStr ''P'']"
    and k: "cin_id exShortInputs = ''ci1''"
    by (simp_all add: exShortInputs_def)
  have a: "(\<forall>xs. parseIfString (jsonParse exEnv) (cin_inflacionSerie exShortInputs) = JArr xs \<longrightarrow>
            int (length xs) \<noteq> b_numAnios exBond
            \<or> (\<exists>s. JStr s \<in> set xs \<and> CHR ''['' \<in> set s))
         \<or> (\<forall>ys. parseIfString (jsonParse exEnv) (cin_graciaSerie exShortInputs) = JArr ys \<longrightarrow>
            int (length ys) \<noteq> b_numAnios exBond
            \<or> (\<exists>s. JStr s \<in> set ys \<and> CHR ''['' \<in> set s))"
    by (simp add: p n)
  have bo: "bonds (exDb exShortInputs) (b_id exBond) = Some exBond"
    by (simp add: exDb_def exBond_def)
  have kq: "calculateQuick exEnv inputs = Inr exMetricas" for inputs
    by (simp add: exEnv_def)
  obtain infl gra d' where
    d: "d' = (exDb exShortInputs)\<lparr> calculationInputs :=
               (calculationInputs (exDb exShortInputs))(b_id exBond \<mapsto>
                  exShortInputs\<lparr> cin_inflacionSerie := JArr infl,
                                 cin_graciaSerie := JArr gra \<rparr>) \<rparr>"
    and cv: "convertBondToCalculationInputs exEnv (exDb exShortInputs) exBond =
                (Inr (mkInputs (cin_id exShortInputs) exBond exCosts infl gra), d')"
    and di: "(\<forall>xs. cin_inflacionSerie exShortInputs = JArr xs \<longrightarrow>
                  int (length xs) \<noteq> b_numAnios exBond
                  \<or> (\<exists>s. JStr s \<in> set xs \<and> CHR ''['' \<in> set s))
               \<longrightarrow> infl = replicate (nat (b_numAnios exBond)) (JNum (3 / 100))"
    and kg: "\<forall>ys. cin_graciaSerie exShortInputs = JArr ys \<and> int (length ys) = b_numAnios exBond
                  \<and> \<not> (\<exists>s. JStr s \<in> set ys \<and> CHR ''['' \<in> set s)
               \<longrightarrow> gra = map (\<lambda>item. if item = JStr ''S'' \<or> item = JStr ''P''
                                         \<or> item = JStr ''T'' then item else JStr ''S'') ys"
    and qm: "\<forall>now. bonds (exDb exShortInputs) (b_id exBond) = Some exBond \<longrightarrow>
                 (\<exists>r. calculateQuickMetrics exEnv now (exDb exShortInputs) (b_id exBond) = (r, d')
                    \<and> r_bondId r = b_id exBond
                    \<and> (case calculateQuick exEnv
                              (mkInputs (cin_id exShortInputs) exBond exCosts infl gra) of
                         Inl msg \<Rightarrow>
                           r_success r = False \<and> r_errors r = Some [CalculatorError msg]
                       | Inr m \<Rightarrow>
                           r_success r = True \<and> r_errors r = None
                           \<and> r_calculatedAt r = Some now
                           \<and> e_precioActual (emisor (r_metricas r)) = m_precioActual m
                           \<and> bo_precioActual (bonista (r_metricas r)) = m_precioActual m))"
    using malformed_series_are_repaired [OF c r n0 n1 a]
    by (elim exE conjE) (rule that, assumption+)
  have ei: "infl = [JNum (3 / 100), JNum (3 / 100)]"
    using di by (simp add: si n eval_nat_numeral)
  have eg: "gra = [JStr ''S'', JStr ''P'']"
    using kg by (simp add: sg n)
  have ed: "d' = exDb (exShortInputs\<lparr> cin_inflacionSerie := JArr [JNum (3 / 100), JNum (3 / 100)] \<rparr>)"
    unfolding d ei eg by (simp add: exDb_def exShortInputs_def i)
  obtain rq where q: "calculateQuickMetrics exEnv 9 (exDb exShortInputs) (b_id exBond) = (rq, d')"
    and qs: "r_success rq"
    using qm bo by (auto simp add: kq)
  show ?thesis
    using c r n0 n1 p n cv q qs by (simp add: ei eg ed k i)
qed

text \<open>
  Claim C1 as stated fails: for a bond of two years whose stored inflation series has one
  element, \<^verbatim>\<open>calculateBond\<close> and \<^verbatim>\<open>calculateQuickMetrics\<close> both succeed, and the stored
  series has become two copies of the default 0.03.
\<close>

theorem malformed_series_counterexample:
  "wrongLength (b_numAnios exBond) (cin_inflacionSerie exShortInputs)
   \<and> bonds (exDb exShortInputs) ''cbond0001'' = Some exBond
   \<and> calculationInputs (exDb exShortInputs) ''cbond0001'' = Some exShortInputs
   \<and> calculateBond exEnv 9 (exDb exShortInputs)
        \<lparr> bondId = ''cbond0001'', recalculate = True, saveResults = False \<rparr>
      = Inr (formatCalculationResponse ''cbond0001'' exResult,
             exDb (exShortInputs\<lparr> cin_inflacionSerie := JArr [JNum (3 / 100), JNum (3 / 100)] \<rparr>))
   \<and> r_success (formatCalculationResponse ''cbond0001'' exResult)
   \<and> r_success (fst (calculateQuickMetrics exEnv 9 (exDb exShortInputs) ''cbond0001''))"
proof -
  have w: "wrongLength (b_numAnios exBond) (cin_inflacionSerie exShortInputs)"
    by (simp add: wrongLength_def exShortInputs_def exBond_def)
  have b: "bonds (exDb exShortInputs) ''cbond0001'' = Some exBond"
    by (simp add: exDb_def)
  have r: "calculationInputs (exDb exShortInputs) ''cbond0001'' = Some exShortInputs"
    by (simp add: exDb_def)
  have v: "validateBondForCalculation exBond = Inr ()"
    by (simp add: validateBondForCalculation_def exBond_def)
  have z: "isCuid exEnv ''cbond0001''"
    by (simp add: exEnv_def zodCuid_def cuidChar_def)
  have k: "calculate exEnv = (\<lambda>inputs. Inr exResult)"
    by (simp add: exEnv_def)
  have cb: "computeBond exEnv 9 (exDb exShortInputs) ''cbond0001'' False
      = (Inr (formatCalculationResponse ''cbond0001'' exResult),
         exDb (exShortInputs\<lparr> cin_inflacionSerie := JArr [JNum (3 / 100), JNum (3 / 100)] \<rparr>))"
    using b v exConvert by (simp add: computeBond_def findById_def calculateAndSave_def k)
  have c: "calculateBond exEnv 9 (exDb exShortInputs)
        \<lparr> bondId = ''cbond0001'', recalculate = True, saveResults = False \<rparr>
      = Inr (formatCalculationResponse ''cbond0001'' exResult,
             exDb (exShortInputs\<lparr> cin_inflacionSerie := JArr [JNum (3 / 100), JNum (3 / 100)] \<rparr>))"
    using z cb by (simp add: calculateBond_def tryBlock_def catchBlock_def)
  have s: "r_success (formatCalculationResponse ''cbond0001'' exResult)"
    by (simp add: formatCalculationResponse_def Let_def)
  have vs: "validateSeriesConsistency
              (exDb (exShortInputs\<lparr> cin_inflacionSerie := JArr [JNum (3 / 100), JNum (3 / 100)] \<rparr>))
              (b_id exBond)
              (mkInputs ''ci1'' exBond exCosts [JNum (3 / 100), JNum (3 / 100)]
                 [JStr ''S'', JStr ''P''])
            = (Inr (), exDb (exShortInputs\<lparr> cin_inflacionSerie := JArr [JNum (3 / 100), JNum (3 / 100)] \<rparr>))"
    by (simp add: validateSeriesConsistency_def seriesIssues_def mkInputs_def exBond_def
        isCorruptItem_def Let_def)
  have kq: "calculateQuick exEnv = (\<lambda>inputs. Inr exMetricas)"
    by (simp add: exEnv_def)
  have q: "r_success (fst (calculateQuickMetrics exEnv 9 (exDb exShortInputs) ''cbond0001''))"
    using b exConvert vs
    by (simp add: calculateQuickMetrics_def quickBody_def findById_def catchBlock_def kq)
  from w b r c s q show ?thesis by simp
qed

section \<open>Recalculation\<close>

lemma deleteMany_new_rows: "deleteMany bid (createMany [] (prismaFlowsData bid fs)) = []"
proof -
  have "set (createMany [] (prismaFlowsData bid fs)) \<subseteq> set (prismaFlowsData bid fs)"
    using createMany_subset [of "[]" "prismaFlowsData bid fs"] by simp
  then have "\<forall>row \<in> set (createMany [] (prismaFlowsData bid fs)). cf_bondId row = bid"
    by (auto simp add: prismaFlowsData_def)
  then show ?thesis
    by (simp add: deleteMany_def filter_empty_conv)
qed

lemma deleteMany_idem: "deleteMany bid (deleteMany bid tbl) = deleteMany bid tbl"
  by (simp add: deleteMany_def)

lemma deleteMany_append: "deleteMany bid (xs @ ys) = deleteMany bid xs @ deleteMany bid ys"
  by (simp add: deleteMany_def)

lemma save_twice_cashFlows:
  "cashFlows (saveCalculationResults now2 (saveCalculationResults now1 d bid cid result)
                bid cid result)
   = cashFlows (saveCalculationResults now1 d bid cid result)"
  by (simp add: cashFlows_saveCalculationResults deleteMany_append deleteMany_idem
      deleteMany_new_rows)

lemma calculationInputs_saveCalculationResults:
  "calculationInputs (saveCalculationResults now d bid cid result) = calculationInputs d"
  by (simp add: saveCalculationResults_def calculationInputs_activateIfDraft
      calculationInputs_saveTransaction)

lemma bonds_saveCalculationResults:
  assumes "bonds d bid = Some b"
  shows "\<exists>s. bonds (saveCalculationResults now d bid cid result) bid = Some (b\<lparr> b_status := s \<rparr>)"
proof -
  have "bonds (saveCalculationResults now d bid cid result) bid =
          Some (b\<lparr> b_status := (if b_status b = DRAFT then ACTIVE else b_status b) \<rparr>)"
    using assms
    by (simp add: saveCalculationResults_def bonds_activateIfDraft bonds_saveTransaction)
  then show ?thesis by (rule exI)
qed

lemma validate_status:
  "validateBondForCalculation (b\<lparr> b_status := s \<rparr>) = validateBondForCalculation b"
  by (simp add: validateBondForCalculation_def)

lemma mkInputs_status: "mkInputs rid (b\<lparr> b_status := s \<rparr>) c infl gra = mkInputs rid b c infl gra"
  by (simp add: mkInputs_def)

lemma calculateAndSave_fst:
  "fst (calculateAndSave ev now2 d2 bid save inputs) = fst (calculateAndSave ev now1 d1 bid save inputs)"
  by (simp add: calculateAndSave_def split: sum.splits)

lemma calculateAndSave_calculationInputs:
  "calculationInputs (snd (calculateAndSave ev now d bid save inputs)) = calculationInputs d"
  by (simp add: calculateAndSave_def calculationInputs_saveCalculationResults split: sum.splits)

lemma calculateAndSave_bonds:
  assumes "bonds d bid = Some b"
  shows "\<exists>s. bonds (snd (calculateAndSave ev now d bid save inputs)) bid = Some (b\<lparr> b_status := s \<rparr>)"
proof -
  have same: "\<exists>s. bonds d bid = Some (b\<lparr> b_status := s \<rparr>)"
    using assms by (intro exI [of _ "b_status b"]) simp
  show ?thesis
  proof (cases "calculate ev inputs")
    case (Inl msg)
    then show ?thesis using same by (simp add: calculateAndSave_def)
  next
    case (Inr result)
    then show ?thesis
      using same bonds_saveCalculationResults [OF assms, of now "ci_id inputs" result]
      by (simp add: calculateAndSave_def)
  qed
qed

lemma calculateAndSave_twice_cashFlows:
  "cashFlows (snd (calculateAndSave ev now2 (snd (calculateAndSave ev now1 d bid save inputs))
                    bid save inputs))
   = cashFlows (snd (calculateAndSave ev now1 d bid save inputs))"
  by (simp add: calculateAndSave_def save_twice_cashFlows split: sum.splits)

text \<open>Running the computation again on the database it left gives the same outcome.\<close>

lemma computeBond_again:
  assumes "computeBond ev now1 d bid save = (x1, d1)"
  shows "fst (computeBond ev now2 d1 bid save) = x1
         \<and> cashFlows (snd (computeBond ev now2 d1 bid save)) = cashFlows d1"
proof (cases "findById d bid")
  case None
  then have "x1 = Inl (BondNotFound bid)" and "d1 = d"
    using assms by (simp_all add: computeBond_def)
  then show ?thesis using None by (simp add: computeBond_def)
next
  case (Some b)
  show ?thesis
  proof (cases "validateBondForCalculation b")
    case (Inl e)
    then have "x1 = Inl e" and "d1 = d"
      using assms Some by (simp_all add: computeBond_def)
    then show ?thesis using Some Inl by (simp add: computeBond_def)
  next
    case (Inr u)
    obtain x dc where cv: "convertBondToCalculationInputs ev d b = (x, dc)"
      by (cases "convertBondToCalculationInputs ev d b")
    show ?thesis
    proof (cases x)
      case (Inl e)
      then have "dc = d" using cv convert_Inl by blast
      then have "x1 = Inl e" and "d1 = d"
        using assms Some Inr cv Inl by (simp_all add: computeBond_def)
      then show ?thesis
        using Some Inr cv Inl \<open>dc = d\<close> by (simp add: computeBond_def)
    next
      case (Inr inputs)
      then have cv': "convertBondToCalculationInputs ev d b = (Inr inputs, dc)"
        using cv by simp
      have run1: "calculateAndSave ev now1 dc bid save inputs = (x1, d1)"
        using assms computeBond_found [OF Some \<open>validateBondForCalculation b = Inr u\<close> cv']
        by simp
      obtain c and rec :: calc_inputs_row and infl gra where
        f1: "b_costs b = Some c"
        and f2: "calculationInputs dc (b_id b) = Some rec"
        and f3: "parseIfString (jsonParse ev) (cin_inflacionSerie rec) = JArr infl"
        and f4: "parseIfString (jsonParse ev) (cin_graciaSerie rec) = JArr gra"
        and f5: "inputs = mkInputs (cin_id rec) b c infl gra"
        and f6: "int (length infl) = b_numAnios b" and f7: "int (length gra) = b_numAnios b"
        and f8: "list_all isFiniteNumber infl" and f9: "list_all isGraceCode gra"
        and f10: "bonds dc = bonds d"
        using cv' by (rule convert_Inr)
      have d1: "d1 = snd (calculateAndSave ev now1 dc bid save inputs)"
        using run1 by simp
      have "bonds dc bid = Some b"
        using Some f10 by (simp add: findById_def)
      then obtain s where b1: "bonds d1 bid = Some (b\<lparr> b_status := s \<rparr>)"
        using calculateAndSave_bonds [of dc bid b ev now1 save inputs] d1 by auto
      have ci: "calculationInputs d1 = calculationInputs dc"
        using d1 by (simp add: calculateAndSave_calculationInputs)
      have cv2: "convertBondToCalculationInputs ev d1 (b\<lparr> b_status := s \<rparr>)
                   = (Inr (mkInputs (cin_id rec) (b\<lparr> b_status := s \<rparr>) c infl gra), d1)"
        by (rule convert_wellformed) (simp_all add: f1 f2 f3 f4 f6 f7 f8 f9 ci)
      have cv3: "convertBondToCalculationInputs ev d1 (b\<lparr> b_status := s \<rparr>) = (Inr inputs, d1)"
        using cv2 f5 by (simp add: mkInputs_status)
      have fb: "findById d1 bid = Some (b\<lparr> b_status := s \<rparr>)"
        using b1 by (simp add: findById_def)
      have vb: "validateBondForCalculation (b\<lparr> b_status := s \<rparr>) = Inr u"
        using \<open>validateBondForCalculation b = Inr u\<close> by (simp add: validate_status)
      have run2: "computeBond ev now2 d1 bid save = calculateAndSave ev now2 d1 bid save inputs"
        using computeBond_found [OF fb vb cv3] by simp
      have "fst (calculateAndSave ev now2 d1 bid save inputs) = x1"
        using run1 calculateAndSave_fst [of ev now2 d1 bid save inputs now1 dc] by simp
      moreover have "cashFlows (snd (calculateAndSave ev now2 d1 bid save inputs)) = cashFlows d1"
        using calculateAndSave_twice_cashFlows [of ev now2 now1 dc bid save inputs] d1 by simp
      ultimately show ?thesis using run2 by simp
    qed
  qed
qed

text \<open>
  Claim C2. The calculator is a function of the calculation inputs; the service adds no
  other source of variation. When a recalculation has returned a response, running it
  again on the database the first run left returns a response with the same bond, the
  same success flag, the same metrics, the same flow count and the same errors; a
  successful response is the same altogether (the response of a failure differs at most in
  the time stamp of the failure), and the stored schedule is the same after the second
  run as after the first.
\<close>

theorem recalculation_is_deterministic:
  assumes "recalculate req" and "calculateBond ev now1 d req = Inr (r1, d1)"
  shows "\<exists>r2 d2. calculateBond ev now2 d1 req = Inr (r2, d2)
           \<and> r_bondId r2 = r_bondId r1 \<and> r_success r2 = r_success r1
           \<and> r_metricas r2 = r_metricas r1 \<and> r_flowsCount r2 = r_flowsCount r1
           \<and> r_errors r2 = r_errors r1
           \<and> (r_success r1 \<or> now2 = now1 \<longrightarrow> r2 = r1)
           \<and> cashFlows d2 = cashFlows d1"
proof -
  have z: "isCuid ev (bondId req)"
    using assms(2) by (cases "isCuid ev (bondId req)") (simp_all add: calculateBond_def)
  obtain x1 dd where c1: "computeBond ev now1 d (bondId req) (saveResults req) = (x1, dd)"
    by (cases "computeBond ev now1 d (bondId req) (saveResults req)")
  have "catchBlock now1 (bondId req) (x1, dd) = (r1, d1)"
    using assms z c1 by (simp add: calculateBond_def tryBlock_def)
  then have dd: "dd = d1"
    and r1: "r1 = (case x1 of Inr r \<Rightarrow> r | Inl e \<Rightarrow> failureResponse now1 (bondId req) e)"
    by (cases x1; simp add: catchBlock_def)+
  obtain x2 d2 where c2: "computeBond ev now2 d1 (bondId req) (saveResults req) = (x2, d2)"
    by (cases "computeBond ev now2 d1 (bondId req) (saveResults req)")
  have again: "x2 = x1 \<and> cashFlows d2 = cashFlows d1"
    using computeBond_again [of ev now1 d "bondId req" "saveResults req" x1 d1 now2] c1 c2 dd
    by simp
  define r2 where "r2 = (case x1 of Inr r \<Rightarrow> r | Inl e \<Rightarrow> failureResponse now2 (bondId req) e)"
  have "catchBlock now2 (bondId req) (x2, d2) = (r2, d2)"
    using again by (cases x1) (simp_all add: catchBlock_def r2_def)
  then have run2: "calculateBond ev now2 d1 req = Inr (r2, d2)"
    using assms(1) z c2 by (simp add: calculateBond_def tryBlock_def)
  have cmp: "r_bondId r2 = r_bondId r1 \<and> r_success r2 = r_success r1
           \<and> r_metricas r2 = r_metricas r1 \<and> r_flowsCount r2 = r_flowsCount r1
           \<and> r_errors r2 = r_errors r1
           \<and> (r_success r1 \<or> now2 = now1 \<longrightarrow> r2 = r1)"
    by (cases x1) (auto simp add: r1 r2_def failureResponse_def)
  show ?thesis
    using run2 cmp again by blast
qed


theorem recalculation_is_deterministic_witness:
  "recalculate \<lparr> bondId = ''cbond0001'', recalculate = True, saveResults = True \<rparr>
   \<and> calculateBond exEnv 1 (exDb exShortInputs)
        \<lparr> bondId = ''cbond0001'', recalculate = True, saveResults = True \<rparr>
      = Inr (formatCalculationResponse ''cbond0001'' exResult,
             saveCalculationResults 1
               (exDb (exShortInputs\<lparr> cin_inflacionSerie := JArr [JNum (3 / 100), JNum (3 / 100)] \<rparr>))
               ''cbond0001'' ''ci1'' exResult)
   \<and> (\<exists>d2. calculateBond exEnv 2
               (saveCalculationResults 1
                 (exDb (exShortInputs\<lparr> cin_inflacionSerie := JArr [JNum (3 / 100), JNum (3 / 100)] \<rparr>))
                 ''cbond0001'' ''ci1'' exResult)
               \<lparr> bondId = ''cbond0001'', recalculate = True, saveResults = True \<rparr>
             = Inr (formatCalculationResponse ''cbond0001'' exResult, d2)
           \<and> cashFlows d2 =
               cashFlows (saveCalculationResults 1
                 (exDb (exShortInputs\<lparr> cin_inflacionSerie := JArr [JNum (3 / 100), JNum (3 / 100)] \<rparr>))
                 ''cbond0001'' ''ci1'' exResult))"
proof -
  define req0 where "req0 = \<lparr> bondId = ''cbond0001'', recalculate = True, saveResults = True \<rparr>"
  define D1 where "D1 = saveCalculationResults 1
               (exDb (exShortInputs\<lparr> cin_inflacionSerie := JArr [JNum (3 / 100), JNum (3 / 100)] \<rparr>))
               ''cbond0001'' ''ci1'' exResult"
  have rc: "recalculate req0" by (simp add: req0_def)
  have b: "findById (exDb exShortInputs) ''cbond0001'' = Some exBond"
    by (simp add: findById_def exDb_def)
  have v: "validateBondForCalculation exBond = Inr ()"
    by (simp add: validateBondForCalculation_def exBond_def)
  have z: "isCuid exEnv ''cbond0001''"
    by (simp add: exEnv_def zodCuid_def cuidChar_def)
  have k: "calculate exEnv = (\<lambda>inputs. Inr exResult)"
    by (simp add: exEnv_def)
  have cb: "computeBond exEnv 1 (exDb exShortInputs) ''cbond0001'' True
      = (Inr (formatCalculationResponse ''cbond0001'' exResult), D1)"
    using computeBond_found [OF b v exConvert, of 1 True]
    by (simp add: calculateAndSave_def k mkInputs_def D1_def)
  have run1: "calculateBond exEnv 1 (exDb exShortInputs) req0
      = Inr (formatCalculationResponse ''cbond0001'' exResult, D1)"
    using z cb by (simp add: calculateBond_def tryBlock_def catchBlock_def req0_def)
  have s: "r_success (formatCalculationResponse ''cbond0001'' exResult)"
    by (simp add: formatCalculationResponse_def Let_def)
  have "\<exists>d2. calculateBond exEnv 2 D1 req0
             = Inr (formatCalculationResponse ''cbond0001'' exResult, d2)
           \<and> cashFlows d2 = cashFlows D1"
    using recalculation_is_deterministic [OF rc run1, of 2] s by auto
  then show ?thesis
    using rc run1 by (simp add: req0_def D1_def)
qed

section \<open>Properties of the root finder\<close>

lemma bisect_Inr:
  assumes "bisect f tol n lo hi = Inr r"
  shows "\<bar>f r\<bar> < tol \<and> (lo \<le> hi \<longrightarrow> lo \<le> r \<and> r \<le> hi)"
  using assms
proof (induction n arbitrary: lo hi)
  case 0
  then show ?case by simp
next
  case (Suc n)
  define mid where "mid = (lo + hi) / 2"
  have between: "lo \<le> mid \<and> mid \<le> hi" if "lo \<le> hi"
    using that by (simp add: mid_def field_simps)
  show ?case
  proof (cases "\<bar>f mid\<bar> < tol")
    case True
    then have "r = mid"
      using Suc.prems by (simp add: mid_def Let_def)
    then show ?thesis using True between by blast
  next
    case False
    show ?thesis
    proof (cases "f lo * f mid < 0")
      case True
      then have "bisect f tol n lo mid = Inr r"
        using Suc.prems False by (simp add: mid_def Let_def)
      then have "\<bar>f r\<bar> < tol \<and> (lo \<le> mid \<longrightarrow> lo \<le> r \<and> r \<le> mid)"
        by (rule Suc.IH)
      then show ?thesis using between by fastforce
    next
      case nosign: False
      then have "bisect f tol n mid hi = Inr r"
        using Suc.prems False by (simp add: mid_def Let_def)
      then have "\<bar>f r\<bar> < tol \<and> (mid \<le> hi \<longrightarrow> mid \<le> r \<and> r \<le> hi)"
        by (rule Suc.IH)
      then show ?thesis using between by fastforce
    qed
  qed
qed

lemma bisect_Inl:
  assumes "bisect f tol n lo hi = Inl e"
  shows "e = ConvergenceError"
  using assms
proof (induction n arbitrary: lo hi)
  case 0
  then show ?case by simp
next
  case (Suc n)
  then show ?case
    by (simp add: Let_def split: if_splits)
qed

text \<open>When the budget is used up without meeting the tolerance, no rate is returned.\<close>

lemma bisect_never_met:
  assumes "\<forall>x. tol \<le> \<bar>f x\<bar>"
  shows "bisect f tol n lo hi = Inl ConvergenceError"
  using assms
proof (induction n arbitrary: lo hi)
  case 0
  then show ?case by simp
next
  case (Suc n)
  have "\<not> \<bar>f ((lo + hi) / 2)\<bar> < tol"
    using Suc.prems by (simp add: not_less)
  then show ?case
    using Suc.IH [OF Suc.prems] by (simp add: Let_def)
qed

text \<open>
  Claim C7. Every rate the root finder returns zeroes the NPV of the flows within the
  configured tolerance of \<open>1e-8\<close> and lies in the bracket; the search is bounded by the
  iteration budget, the only failure it reports is the convergence error, and when the
  tolerance is met nowhere it reports that error instead of returning a rate.
\<close>

theorem solved_rate_zeroes_npv:
  "tolerance precisionSettings = 1 / 10 ^ 8
   \<and> (solveEffectiveRate flows periodsPerYear = Inr r \<longrightarrow>
        \<bar>NPV flows periodsPerYear r\<bar> < 1 / 10 ^ 8 \<and> bracketLow \<le> r \<and> r \<le> bracketHigh)
   \<and> (solveEffectiveRate flows periodsPerYear = Inl e \<longrightarrow> e = ConvergenceError)
   \<and> ((\<forall>x. 1 / 10 ^ 8 \<le> \<bar>NPV flows periodsPerYear x\<bar>) \<longrightarrow>
        solveEffectiveRate flows periodsPerYear = Inl ConvergenceError)"
proof (intro conjI impI)
  show t: "tolerance precisionSettings = 1 / 10 ^ 8"
    by (simp add: precisionSettings_def)
  have lh: "bracketLow \<le> bracketHigh"
    by (simp add: bracketLow_def bracketHigh_def)
  {
    assume "solveEffectiveRate flows periodsPerYear = Inr r"
    then have "bisect (NPV flows periodsPerYear) (tolerance precisionSettings) maxIterations
                 bracketLow bracketHigh = Inr r"
      by (simp add: solveEffectiveRate_def Let_def split: if_splits)
    then have "\<bar>NPV flows periodsPerYear r\<bar> < tolerance precisionSettings
               \<and> (bracketLow \<le> bracketHigh \<longrightarrow> bracketLow \<le> r \<and> r \<le> bracketHigh)"
      by (rule bisect_Inr)
    then show "\<bar>NPV flows periodsPerYear r\<bar> < 1 / 10 ^ 8" and "bracketLow \<le> r"
      and "r \<le> bracketHigh"
      using t lh by simp_all
  }
  {
    assume "solveEffectiveRate flows periodsPerYear = Inl e"
    then show "e = ConvergenceError"
      using bisect_Inl [of "NPV flows periodsPerYear" "tolerance precisionSettings"
          maxIterations bracketLow bracketHigh e]
      by (simp add: solveEffectiveRate_def Let_def split: if_splits)
  }
  {
    assume "\<forall>x. 1 / 10 ^ 8 \<le> \<bar>NPV flows periodsPerYear x\<bar>"
    then have "\<forall>x. tolerance precisionSettings \<le> \<bar>NPV flows periodsPerYear x\<bar>"
      using t by metis
    then have "bisect (NPV flows periodsPerYear) (tolerance precisionSettings) maxIterations
                 bracketLow bracketHigh = Inl ConvergenceError"
      by (rule bisect_never_met)
    then show "solveEffectiveRate flows periodsPerYear = Inl ConvergenceError"
      by (simp add: solveEffectiveRate_def Let_def)
  }
qed

lemma exNPV:
  assumes "0 < 1 + r"
  shows "NPV [- 1000, 5505] 1 r = - 1000 + 5505 / (1 + r)"
  using assms by (simp add: NPV_def)

lemma bisect_first:
  assumes "\<bar>f ((lo + hi) / 2)\<bar> < tol"
  shows "bisect f tol (Suc n) lo hi = Inr ((lo + hi) / 2)"
  using assms by (simp add: Let_def)

lemma exSolve: "solveEffectiveRate [- 1000, 5505] 1 = Inr (901 / 200)"
proof -
  have m: "maxIterations = Suc 199"
    by (simp add: maxIterations_def)
  have lo: "NPV [- 1000, 5505] 1 bracketLow = 549500"
    by (simp add: exNPV bracketLow_def)
  have hi: "NPV [- 1000, 5505] 1 bracketHigh = - 1000 + 5505 / 11"
    by (simp add: exNPV bracketHigh_def)
  have mv: "(bracketLow + bracketHigh) / 2 = 901 / 200"
    by (simp add: bracketLow_def bracketHigh_def)
  have mid: "NPV [- 1000, 5505] 1 ((bracketLow + bracketHigh) / 2) = 0"
    unfolding mv by (simp add: exNPV)
  have "bisect (NPV [- 1000, 5505] 1) (tolerance precisionSettings) (Suc 199)
          bracketLow bracketHigh = Inr ((bracketLow + bracketHigh) / 2)"
    by (rule bisect_first) (simp add: mid precisionSettings_def)
  then have b: "bisect (NPV [- 1000, 5505] 1) (tolerance precisionSettings) maxIterations
          bracketLow bracketHigh = Inr (901 / 200)"
    by (simp only: m mv)
  have sgn: "\<not> 0 < NPV [- 1000, 5505] 1 bracketLow * NPV [- 1000, 5505] 1 bracketHigh"
    by (simp add: lo hi)
  show ?thesis
    using sgn b by (simp add: solveEffectiveRate_def Let_def)
qed

theorem solved_rate_zeroes_npv_witness:
  "solveEffectiveRate [- 1000, 5505] 1 = Inr (901 / 200)
   \<and> \<bar>NPV [- 1000, 5505] 1 (901 / 200)\<bar> < 1 / 10 ^ 8"
  using solved_rate_zeroes_npv [of "[- 1000, 5505]" 1 "901 / 200"] exSolve
  by simp

section \<open>Properties of the calculation of several bonds\<close>

lemma calculateBond_returns:
  assumes "isCuid ev (bondId req)"
  shows "\<exists>r d'. calculateBond ev now d req = Inr (r, d') \<and> r_bondId r = bondId req"
proof (cases "tryBlock ev now d req")
  case (Pair x d')
  show ?thesis
  proof (cases x)
    case (Inl e)
    then show ?thesis
      using assms Pair by (simp add: calculateBond_def catchBlock_def failureResponse_def)
  next
    case (Inr r)
    then have "r_bondId r = bondId req"
      using Pair tryBlock_success [of ev now d req r d'] by simp
    then show ?thesis
      using assms Pair Inr by (simp add: calculateBond_def catchBlock_def)
  qed
qed

lemma processBond_returns:
  assumes "isCuid ev bid"
  shows "\<exists>r d'. processBond ev now d bid = Inr (r, d') \<and> r_bondId r = bid"
  using calculateBond_returns [of ev "\<lparr> bondId = bid, recalculate = True, saveResults = True \<rparr>" now d]
    assms
  by (simp add: processBond_def)

text \<open>
  For bond ids that pass the schema the sequential branch returns one response for each
  id, in the order of the ids.
\<close>

lemma sequentialLoop_valid_ids:
  assumes "list_all (isCuid ev) bondIds"
  shows "\<exists>rs d'. sequentialLoop ev now bondIds acc d = (Inr (acc @ rs), d')
           \<and> map r_bondId rs = bondIds"
  using assms
proof (induction bondIds arbitrary: acc d)
  case Nil
  then show ?case by simp
next
  case (Cons bid rest)
  then have "isCuid ev bid" and rest: "list_all (isCuid ev) rest"
    by simp_all
  then obtain r d1 where p: "processBond ev now d bid = Inr (r, d1)" and b: "r_bondId r = bid"
    using processBond_returns by blast
  obtain rs d' where
    l: "sequentialLoop ev now rest (acc @ [r]) d1 = (Inr ((acc @ [r]) @ rs), d')"
    and m: "map r_bondId rs = rest"
    using Cons.IH [OF rest, of "acc @ [r]" d1] by blast
  have "sequentialLoop ev now (bid # rest) acc d = (Inr (acc @ (r # rs)), d')
        \<and> map r_bondId (r # rs) = bid # rest"
    using p l b m by simp
  then show ?case by (intro exI [of _ "r # rs"] exI [of _ d'])
qed

text \<open>The sequential branch stops at the first id that does not pass the schema.\<close>

lemma sequentialLoop_invalid_id:
  assumes "\<not> isCuid ev bid"
  shows "sequentialLoop ev now (bid # rest) acc d = (Inl (ZodError bid), d)"
  using assms by (simp add: processBond_def calculateBond_def)

lemma settleBatch_Cons:
  "settleBatch ev now (bid # rest) d =
     (case processBond ev now d bid of
        Inl e \<Rightarrow> (failureResponse now ''unknown_in_batch'' e # fst (settleBatch ev now rest d),
                  snd (settleBatch ev now rest d))
      | Inr rd \<Rightarrow> (fst rd # fst (settleBatch ev now rest (snd rd)),
                   snd (settleBatch ev now rest (snd rd))))"
  by (simp split: sum.splits prod.splits)

lemma settleBatch_length: "length (fst (settleBatch ev now batch d)) = length batch"
proof (induction batch arbitrary: d)
  case Nil
  then show ?case by simp
next
  case (Cons bid rest)
  show ?case
    by (simp only: settleBatch_Cons) (simp add: Cons.IH split: sum.splits)
qed

lemma settleBatch_append:
  "settleBatch ev now (xs @ ys) d =
     (fst (settleBatch ev now xs d) @ fst (settleBatch ev now ys (snd (settleBatch ev now xs d))),
      snd (settleBatch ev now ys (snd (settleBatch ev now xs d))))"
proof (induction xs arbitrary: d)
  case Nil
  then show ?case by simp
next
  case (Cons bid rest)
  have "settleBatch ev now ((bid # rest) @ ys) d = settleBatch ev now (bid # (rest @ ys)) d"
    by simp
  then show ?case
    by (simp only: settleBatch_Cons) (simp add: Cons.IH split: sum.splits)
qed

lemma jsSlice_batch:
  assumes "0 \<le> i" and "0 < batchSize"
  shows "jsSlice xs i (i + batchSize) = take (nat batchSize) (drop (nat i) xs)"
proof (cases "i \<le> int (length xs)")
  case True
  have "take (nat (min (i + batchSize) (int (length xs)) - i)) (drop (nat i) xs)
          = take (nat batchSize) (drop (nat i) xs)"
  proof (cases "i + batchSize \<le> int (length xs)")
    case True
    then show ?thesis by (simp add: min_def)
  next
    case False
    then have "min (i + batchSize) (int (length xs)) = int (length xs)"
      by (simp add: min_def)
    moreover have "length (drop (nat i) xs) \<le> nat (int (length xs) - i)"
      using assms(1) by simp
    moreover have "length (drop (nat i) xs) \<le> nat batchSize"
      using False assms by simp
    ultimately show ?thesis by simp
  qed
  then show ?thesis
    using True assms by (simp add: jsSlice_def Let_def min_def)
next
  case False
  then show ?thesis
    using assms by (simp add: jsSlice_def Let_def min_def)
qed

text \<open>
  With a positive batch size the parallel branch ends, every batch has at most
  \<open>batchSize\<close> ids, and the batches taken together are the ids in their order: the
  branch settles every id once.
\<close>

lemma parallelLoop_settles_all:
  assumes "0 < batchSize" and "0 \<le> i"
  shows "parallelLoop ev now bondIds batchSize i acc d =
           Some (acc @ fst (settleBatch ev now (drop (nat i) bondIds) d),
                 snd (settleBatch ev now (drop (nat i) bondIds) d))"
  using assms(2)
proof (induction "length bondIds - nat i" arbitrary: i acc d rule: less_induct)
  case less
  show ?case
  proof (cases "i < int (length bondIds)")
    case False
    then have "drop (nat i) bondIds = []"
      using less.prems by simp
    then show ?thesis
      using False by (subst parallelLoop.simps) simp
  next
    case True
    define batch where "batch = take (nat batchSize) (drop (nat i) bondIds)"
    define rest where "rest = drop (nat (i + batchSize)) bondIds"
    have sl: "jsSlice bondIds i (i + batchSize) = batch"
      using jsSlice_batch [OF less.prems assms(1)] by (simp add: batch_def)
    have "nat (i + batchSize) = nat i + nat batchSize"
      using less.prems assms(1) by (simp add: nat_add_distrib)
    then have "rest = drop (nat batchSize) (drop (nat i) bondIds)"
      by (simp add: rest_def add.commute)
    then have split: "drop (nat i) bondIds = batch @ rest"
      by (simp only: batch_def append_take_drop_id)
    have smaller: "length bondIds - nat (i + batchSize) < length bondIds - nat i"
      using True less.prems assms(1) by linarith
    have nonneg: "0 \<le> i + batchSize"
      using less.prems assms(1) by simp
    have step: "parallelLoop ev now bondIds batchSize (i + batchSize) acc' d' =
           Some (acc' @ fst (settleBatch ev now rest d'), snd (settleBatch ev now rest d'))"
      for acc' d'
      using less.hyps [OF smaller nonneg, of acc' d'] by (simp add: rest_def)
    have "parallelLoop ev now bondIds batchSize i acc d =
            parallelLoop ev now bondIds batchSize (i + batchSize)
              (acc @ fst (settleBatch ev now batch d)) (snd (settleBatch ev now batch d))"
      using True by (subst parallelLoop.simps) (simp add: sl split: prod.splits)
    then show ?thesis
      by (simp add: step split settleBatch_append)
  qed
qed

lemma parallel_one_response_per_bond:
  assumes "0 < batchSize"
  shows "\<exists>rs d'. calculateMultipleBonds ev now d bondIds True batchSize = Some (Inr rs, d')
           \<and> length rs = length bondIds"
proof -
  have "parallelLoop ev now bondIds batchSize 0 [] d =
           Some ([] @ fst (settleBatch ev now (drop (nat 0) bondIds) d),
                 snd (settleBatch ev now (drop (nat 0) bondIds) d))"
    using assms by (intro parallelLoop_settles_all) simp_all
  then have "calculateMultipleBonds ev now d bondIds True batchSize =
           Some (Inr (fst (settleBatch ev now bondIds d)), snd (settleBatch ev now bondIds d))"
    by (simp add: calculateMultipleBonds_def split: prod.splits)
  moreover have "length (fst (settleBatch ev now bondIds d)) = length bondIds"
    by (rule settleBatch_length)
  ultimately show ?thesis by blast
qed

lemma jsSlice_batch_length:
  assumes "0 \<le> i" and "0 < batchSize"
  shows "int (length (jsSlice xs i (i + batchSize))) \<le> batchSize"
  using assms by (simp add: jsSlice_batch)

lemma parallelLoop_Some_positive:
  assumes "parallelLoop ev now bondIds batchSize i acc d = Some out"
  shows "0 < batchSize \<or> int (length bondIds) \<le> i"
proof (rule parallelLoop.raw_induct
    [where P = "\<lambda>ev now bondIds batchSize i acc d out. 0 < batchSize \<or> int (length bondIds) \<le> i",
      OF _ assms])
  fix loop :: "env \<Rightarrow> nat \<Rightarrow> string list \<Rightarrow> int \<Rightarrow> int \<Rightarrow> response list \<Rightarrow> db
                \<Rightarrow> (response list \<times> db) option"
    and ev now bondIds batchSize i acc d out
  assume ih: "\<And>ev now bondIds batchSize i acc d out.
                loop ev now bondIds batchSize i acc d = Some out \<Longrightarrow>
                0 < batchSize \<or> int (length bondIds) \<le> i"
    and body: "(if i < int (length bondIds)
      then (case settleBatch ev now (jsSlice bondIds i (i + batchSize)) d of
              (rs, d') \<Rightarrow> loop ev now bondIds batchSize (i + batchSize) (acc @ rs) d')
      else Some (acc, d)) = Some out"
  show "0 < batchSize \<or> int (length bondIds) \<le> i"
  proof (cases "i < int (length bondIds)")
    case False
    then show ?thesis by simp
  next
    case True
    obtain rs d' where s: "settleBatch ev now (jsSlice bondIds i (i + batchSize)) d = (rs, d')"
      by (cases "settleBatch ev now (jsSlice bondIds i (i + batchSize)) d")
    then have "loop ev now bondIds batchSize (i + batchSize) (acc @ rs) d' = Some out"
      using body True by simp
    then have "0 < batchSize \<or> int (length bondIds) \<le> i + batchSize"
      by (rule ih)
    then show ?thesis using True by linarith
  qed
qed

text \<open>With a batch size that is not positive and a list that is not empty, no result.\<close>

lemma parallelLoop_diverges:
  assumes "batchSize \<le> 0" and "i < int (length bondIds)"
  shows "parallelLoop ev now bondIds batchSize i acc d = None"
proof (cases "parallelLoop ev now bondIds batchSize i acc d")
  case None
  then show ?thesis .
next
  case (Some out)
  then have "0 < batchSize \<or> int (length bondIds) \<le> i"
    by (rule parallelLoop_Some_positive)
  then show ?thesis using assms by linarith
qed

text \<open>
  Claim C3 at a list with a bond id that does not pass the schema. In the sequential
  branch (the default) the call is rejected with the schema error: no response is
  returned and the bond after it is never processed. In the parallel branch the rejected
  promise is settled into a failure entry, whose bond id is \<^verbatim>\<open>unknown_in_batch\<close>.
\<close>

theorem calculateMultipleBonds_invalid_id:
  "\<not> zodCuid ''x'' \<and> zodCuid ''cbond0001''
   \<and> calculateMultipleBonds exEnv 7 (exDb exGoodInputs) [''x'', ''cbond0001''] False 5
       = Some (Inl (ZodError ''x''), exDb exGoodInputs)
   \<and> calculateMultipleBonds exEnv 7 (exDb exGoodInputs) [''x''] True 5
       = Some (Inr [failureResponse 7 ''unknown_in_batch'' (ZodError ''x'')], exDb exGoodInputs)"
proof -
  have z: "\<not> zodCuid ''x''" and c: "zodCuid ''cbond0001''"
    by (simp_all add: zodCuid_def cuidChar_def)
  have p: "processBond exEnv 7 (exDb exGoodInputs) ''x'' = Inl (ZodError ''x'')"
    by (simp add: processBond_def calculateBond_def exEnv_def z)
  have s: "sequentialLoop exEnv 7 [''x'', ''cbond0001''] [] (exDb exGoodInputs)
             = (Inl (ZodError ''x''), exDb exGoodInputs)"
    by (simp add: p)
  have sl: "jsSlice [''x''] 0 5 = [''x'']"
    by (simp add: jsSlice_def)
  have b: "settleBatch exEnv 7 [''x''] (exDb exGoodInputs)
             = ([failureResponse 7 ''unknown_in_batch'' (ZodError ''x'')], exDb exGoodInputs)"
    by (simp add: p)
  have l2: "parallelLoop exEnv 7 [''x''] 5 5
              [failureResponse 7 ''unknown_in_batch'' (ZodError ''x'')] (exDb exGoodInputs)
            = Some ([failureResponse 7 ''unknown_in_batch'' (ZodError ''x'')], exDb exGoodInputs)"
    by (subst parallelLoop.simps) simp
  have l1: "parallelLoop exEnv 7 [''x''] 5 0 [] (exDb exGoodInputs)
            = Some ([failureResponse 7 ''unknown_in_batch'' (ZodError ''x'')], exDb exGoodInputs)"
    by (subst parallelLoop.simps) (simp add: sl b l2 del: settleBatch.simps)
  show ?thesis
    using z c s l1 by (simp add: calculateMultipleBonds_def)
qed

end
